theory Spec2Isabelle
  imports Complex_Main
begin

section \<open>Numbers and failures\<close>

text \<open>
  The kernels compute on C++ \<open>double\<close>s. They are modelled in exact arithmetic, as reals.
  A \<open>double\<close> operation that has no real result (a division by zero, the square root of
  a negative number, \<open>asin\<close> or \<open>acos\<close> outside \<open>[-1, 1]\<close>) gives an infinity or a NaN
  in C++. Where such a value goes on to an operation that C++ leaves undefined (the cast
  to \<open>unsigned int\<close> of the merger) or to a test, the model stops with \<open>NonFinite\<close>. Where
  it is only stored, as the merged momenta of a packet are, the model goes on and keeps
  the list of the particles whose momentum is not a number (see \<open>merge_packet\<close>). A read or
  write outside a \<open>std::vector\<close> is \<open>OutOfBounds\<close>, and a vector that cannot be allocated
  is \<open>BadAlloc\<close>.
\<close>

datatype failure = NonFinite | OutOfBounds | BadAlloc

type_synonym vec3 = "real \<times> real \<times> real"

text \<open>\<open>atan2\<close> of \<open>math.h\<close>, on reals (no signed zero).\<close>

definition atan2 :: "real \<Rightarrow> real \<Rightarrow> real" where
  "atan2 y x =
     (if 0 < x then arctan (y / x)
      else if x < 0 then (if 0 \<le> y then arctan (y / x) + pi else arctan (y / x) - pi)
      else if 0 < y then pi / 2
      else if y < 0 then - (pi / 2)
      else 0)"

text \<open>
  The cast \<open>(unsigned int) x\<close> of a \<open>double\<close>: truncation toward zero when the truncated
  value is representable in 32 bits, undefined otherwise.
\<close>

definition to_uint :: "real \<Rightarrow> failure + nat" where
  "to_uint x = (if - 1 < x \<and> x < 2 ^ 32 then Inr (nat \<lfloor>x\<rfloor>) else Inl NonFinite)"

section \<open>The particle store\<close>

record particles =
  momentum_x :: "real list"
  momentum_y :: "real list"
  momentum_z :: "real list"
  weight :: "real list"
  cell_keys :: "int list"

text \<open>The number of particles every column of the merger holds.\<close>

definition size_particles :: "particles \<Rightarrow> nat" where
  "size_particles P =
     Min {length (momentum_x P), length (momentum_y P), length (momentum_z P),
          length (weight P), length (cell_keys P)}"

section \<open>MergingVranic: one packet of four\<close>

text \<open>
  The accumulation loop over the four particles of a packet: total weight, total momentum
  (weighted) and total energy. The energy sum is the one of the source: it adds
  \<open>sqrt (1 + p \<cdot> p)\<close> of each particle, without its weight.
\<close>

record totals =
  total_weight :: real
  total_momentum :: vec3
  total_energy :: real

definition totals0 :: totals where
  "totals0 = \<lparr>total_weight = 0, total_momentum = (0, 0, 0), total_energy = 0\<rparr>"

definition add_particle :: "particles \<Rightarrow> totals \<Rightarrow> nat \<Rightarrow> totals" where
  "add_particle P t ipart =
     (case total_momentum t of (tx, ty, tz) \<Rightarrow>
        \<lparr>total_weight = total_weight t + weight P ! ipart,
         total_momentum =
           (tx + momentum_x P ! ipart * weight P ! ipart,
            ty + momentum_y P ! ipart * weight P ! ipart,
            tz + momentum_z P ! ipart * weight P ! ipart),
         total_energy = total_energy t
           + sqrt (1 + momentum_x P ! ipart * momentum_x P ! ipart
                     + momentum_y P ! ipart * momentum_y P ! ipart
                     + momentum_z P ! ipart * momentum_z P ! ipart)\<rparr>)"

definition packet_totals :: "particles \<Rightarrow> nat list \<Rightarrow> totals" where
  "packet_totals P iparts = foldl (add_particle P) totals0 iparts"

text \<open>
  The two merged momenta of a packet, from its totals and the direction \<open>d\<close> of its
  momentum cell (\<open>cell_vec_x[icc]\<close>, \<open>cell_vec_y[icc]\<close>, \<open>cell_vec_z[icc]\<close>).
\<close>

definition e2_of :: "vec3 \<Rightarrow> vec3 \<Rightarrow> vec3" where
  "e2_of e1 d =
     (case e1 of (e1_x, e1_y, e1_z) \<Rightarrow> case d of (d_x, d_y, d_z) \<Rightarrow>
        (e1_y * e1_y * d_x - e1_x * (e1_y * d_y + e1_z * d_z) + e1_z * e1_z * d_x,
         e1_z * e1_z * d_y - e1_y * (e1_z * d_z + e1_x * d_x) + e1_x * e1_x * d_y,
         e1_x * e1_x * d_z - e1_z * (e1_x * d_x + e1_y * d_y) + e1_y * e1_y * d_z))"

definition merged_momenta :: "totals \<Rightarrow> vec3 \<Rightarrow> failure + (vec3 \<times> vec3)" where
  "merged_momenta t d =
     (case total_momentum t of (tx, ty, tz) \<Rightarrow>
      if total_weight t = 0 then Inl NonFinite
      else
        let new_energy = total_energy t / total_weight t in
        if new_energy * new_energy - 1 < 0 then Inl NonFinite
        else
          let new_momentum_norm = sqrt (new_energy * new_energy - 1);
              total_momentum_norm = sqrt (tx * tx + ty * ty + tz * tz)
          in
          if total_weight t * new_momentum_norm = 0 then Inl NonFinite
          else
            let c = total_momentum_norm / (total_weight t * new_momentum_norm) in
            if c < - 1 \<or> 1 < c then Inl NonFinite
            else
              let omega = arccos c;
                  sin_omega = sin omega;
                  cos_omega = cos omega
              in
              if total_momentum_norm = 0 then Inl NonFinite
              else
                let e1_x = tx / total_momentum_norm;
                    e1_y = ty / total_momentum_norm;
                    e1_z = tz / total_momentum_norm
                in
                case e2_of (e1_x, e1_y, e1_z) d of (e2_x, e2_y, e2_z) \<Rightarrow>
                  Inr ((new_momentum_norm * (cos_omega * e1_x + sin_omega * e2_x),
                        new_momentum_norm * (cos_omega * e1_y + sin_omega * e2_y),
                        new_momentum_norm * (cos_omega * e1_z + sin_omega * e2_z)),
                       (new_momentum_norm * (cos_omega * e1_x - sin_omega * e2_x),
                        new_momentum_norm * (cos_omega * e1_y - sin_omega * e2_y),
                        new_momentum_norm * (cos_omega * e1_z - sin_omega * e2_z))))"

text \<open>Overwriting one particle with a merged momentum and weight.\<close>

definition set_particle :: "particles \<Rightarrow> nat \<Rightarrow> vec3 \<Rightarrow> real \<Rightarrow> particles" where
  "set_particle P ipart p w =
     (case p of (p_x, p_y, p_z) \<Rightarrow>
        P\<lparr>momentum_x := (momentum_x P)[ipart := p_x],
          momentum_y := (momentum_y P)[ipart := p_y],
          momentum_z := (momentum_z P)[ipart := p_z],
          weight := (weight P)[ipart := w]\<rparr>)"

text \<open>
  The tagging loop \<open>for (ip = ipack*4 + 2; ip < ipack*4 + 4; ip++)\<close>: it reads
  \<open>sorted_particles[momentum_cell_particle_index[ic] + ipack*4 + ip]\<close>, as the source
  does, and sets the \<open>cell_keys\<close> of that particle to \<open>-1\<close>. \<open>first\<close> is
  \<open>momentum_cell_particle_index[ic]\<close>.
\<close>

fun tag_removed :: "nat list \<Rightarrow> nat \<Rightarrow> nat \<Rightarrow> nat list \<Rightarrow> particles \<Rightarrow> failure + particles" where
  "tag_removed sorted_particles first ipack [] P = Inr P"
| "tag_removed sorted_particles first ipack (ip # ips) P =
     (if first + ipack * 4 + ip < length sorted_particles then
        let ipart = sorted_particles ! (first + ipack * 4 + ip) in
        if ipart < length (cell_keys P) then
          tag_removed sorted_particles first ipack ips
            (P\<lparr>cell_keys := (cell_keys P)[ipart := - 1]\<rparr>)
        else Inl OutOfBounds
      else Inl OutOfBounds)"

text \<open>The weight alone of one particle.\<close>

definition set_weight :: "particles \<Rightarrow> nat \<Rightarrow> real \<Rightarrow> particles" where
  "set_weight P ipart w = P\<lparr>weight := (weight P)[ipart := w]\<rparr>"

text \<open>
  The body of the packet loop: packet \<open>ipack\<close> of the momentum cell whose particles start
  at \<open>first\<close> in \<open>sorted_particles\<close>. The source has no test between the accumulation
  and the tagging loop: when the merged momenta are not numbers (\<open>merged_momenta\<close> is
  \<open>Inl NonFinite\<close>, or one of the four momenta read is already not a number) the six
  components stored are NaN, and the weights and the tags are written all the same.
  The state is the particle store together with \<open>not_numbers\<close>, the particles whose three
  momentum components are NaN; the entries of such a particle in the three momentum
  columns are left as they were and mean nothing.
\<close>

definition merge_packet ::
  "nat list \<Rightarrow> vec3 \<Rightarrow> nat \<Rightarrow> nat \<Rightarrow> particles \<times> nat list
     \<Rightarrow> failure + particles \<times> nat list" where
  "merge_packet sorted_particles d first ipack st =
     (case st of (P, not_numbers) \<Rightarrow>
      if length sorted_particles < first + ipack * 4 + 4 then Inl OutOfBounds
      else
        let iparts = map (\<lambda>ip. sorted_particles ! (first + ip)) [ipack * 4 ..< ipack * 4 + 4] in
        if \<exists>ipart \<in> set iparts. size_particles P \<le> ipart then Inl OutOfBounds
        else
          let t = packet_totals P iparts;
              i0 = sorted_particles ! (first + ipack * 4);
              i1 = sorted_particles ! (first + ipack * 4 + 1)
          in
          case (case (if \<exists>ipart \<in> set iparts. ipart \<in> set not_numbers then Inl NonFinite
                      else merged_momenta t d) of
                  Inr (p1, p2) \<Rightarrow>
                    (set_particle (set_particle P i0 p1 (0.5 * total_weight t))
                       i1 p2 (0.5 * total_weight t),
                     not_numbers)
                | Inl e \<Rightarrow>
                    (set_weight (set_weight P i0 (0.5 * total_weight t))
                       i1 (0.5 * total_weight t),
                     i1 # i0 # not_numbers)) of
            (P2, not_numbers2) \<Rightarrow>
              (case tag_removed sorted_particles first ipack [ipack * 4 + 2, ipack * 4 + 3] P2 of
                 Inl e \<Rightarrow> Inl e
               | Inr P' \<Rightarrow> Inr (P', not_numbers2)))"

section \<open>MergingVranic: the whole call\<close>

text \<open>
  The members \<open>dimensions_\<close> and \<open>merging_ppc_min_threshold_\<close> of the class (a name
  cannot end with an underscore here).
\<close>

record merging =
  dimensions :: "nat \<times> nat \<times> nat"
  merging_ppc_min_threshold :: nat

subsection \<open>First step: minima and maxima\<close>

record bounds =
  mr_min :: real
  mr_max :: real
  theta_min :: real
  theta_max :: real
  phi_min :: real
  phi_max :: real
  particles_theta :: "real list"
  particles_phi :: "real list"

definition momentum_norm :: "particles \<Rightarrow> nat \<Rightarrow> real" where
  "momentum_norm P ipart =
     sqrt (momentum_x P ! ipart * momentum_x P ! ipart
         + momentum_y P ! ipart * momentum_y P ! ipart
         + momentum_z P ! ipart * momentum_z P ! ipart)"

text \<open>
  The particle \<open>istart\<close> initialises the bounds. A particle of zero momentum gives
  \<open>asin (0 / 0)\<close>, a NaN.
\<close>

definition first_bounds :: "particles \<Rightarrow> nat \<Rightarrow> nat \<Rightarrow> failure + bounds" where
  "first_bounds P istart n =
     (let nrm = momentum_norm P istart in
      if nrm = 0 then Inl NonFinite
      else
        let theta = atan2 (momentum_y P ! istart) (momentum_x P ! istart);
            phi = arcsin (momentum_z P ! istart / nrm)
        in Inr \<lparr>mr_min = nrm, mr_max = nrm,
                theta_min = theta, theta_max = theta,
                phi_min = phi, phi_max = phi,
                particles_theta = (replicate n 0)[0 := theta],
                particles_phi = (replicate n 0)[0 := phi]\<rparr>)"

fun bounds_loop :: "particles \<Rightarrow> nat \<Rightarrow> nat list \<Rightarrow> bounds \<Rightarrow> failure + bounds" where
  "bounds_loop P istart [] b = Inr b"
| "bounds_loop P istart (ipart # rest) b =
     (let ip = ipart - istart;
          nrm = momentum_norm P ipart
      in
      if nrm = 0 then Inl NonFinite
      else
        let phi = arcsin (momentum_z P ! ipart / nrm);
            theta = atan2 (momentum_y P ! ipart) (momentum_x P ! ipart)
        in bounds_loop P istart rest
             (b\<lparr>mr_min := min (mr_min b) nrm,
                mr_max := max (mr_max b) nrm,
                particles_phi := (particles_phi b)[ip := phi],
                particles_theta := (particles_theta b)[ip := theta],
                theta_min := min (theta_min b) theta,
                theta_max := max (theta_max b) theta,
                phi_min := min (phi_min b) phi,
                phi_max := max (phi_max b) phi\<rparr>))"

text \<open>The extra 1 percent that includes the maximum in the discretization.\<close>

definition inflate :: "bounds \<Rightarrow> bounds" where
  "inflate b =
     b\<lparr>mr_max := mr_max b + (mr_max b - mr_min b) * 0.01,
       theta_max := theta_max b + (theta_max b - theta_min b) * 0.01,
       phi_max := phi_max b + (phi_max b - phi_min b) * 0.01\<rparr>"

subsection \<open>Second step: the discretization\<close>

record steps =
  mr_delta :: real
  theta_delta :: real
  phi_delta :: real

definition deltas :: "nat \<times> nat \<times> nat \<Rightarrow> bounds \<Rightarrow> steps" where
  "deltas dims b =
     (case dims of (d0, d1, d2) \<Rightarrow>
        \<lparr>mr_delta = (mr_max b - mr_min b) / real d0,
         theta_delta = (theta_max b - theta_min b) / real d1,
         phi_delta = (phi_max b - phi_min b) / real d2\<rparr>)"

text \<open>
  The check that a minimum and its maximum are very close: the step of such a direction
  becomes 0 and its dimension 1.
\<close>

definition collapse :: "nat \<times> nat \<times> nat \<Rightarrow> steps \<Rightarrow> (nat \<times> nat \<times> nat) \<times> steps" where
  "collapse dims s =
     (case dims of (d0, d1, d2) \<Rightarrow>
        ((if mr_delta s < 1 / 10 ^ 10 then 1 else d0,
          if theta_delta s < 1 / 10 ^ 10 then 1 else d1,
          if phi_delta s < 1 / 10 ^ 10 then 1 else d2),
         \<lparr>mr_delta = (if mr_delta s < 1 / 10 ^ 10 then 0 else mr_delta s),
          theta_delta = (if theta_delta s < 1 / 10 ^ 10 then 0 else theta_delta s),
          phi_delta = (if phi_delta s < 1 / 10 ^ 10 then 0 else phi_delta s)\<rparr>))"

text \<open>
  The unit vector of each direction cell (vector \<open>d\<close> of Vranic et al.), stored at
  \<open>icc = theta_i * dimensions_[2] + phi_i\<close>. The three vectors \<open>cell_vec_x\<close>,
  \<open>cell_vec_y\<close> and \<open>cell_vec_z\<close> are one list of triples, of the size they are
  allocated with.
\<close>

definition cell_direction :: "bounds \<Rightarrow> steps \<Rightarrow> nat \<Rightarrow> nat \<Rightarrow> vec3" where
  "cell_direction b s theta_i phi_i =
     (let theta = theta_min b + (real theta_i + 0.5) * theta_delta s;
          phi = phi_min b + (real phi_i + 0.5) * phi_delta s
      in (cos phi * cos theta, cos phi * sin theta, sin phi))"

definition cell_vec :: "nat \<Rightarrow> nat \<times> nat \<times> nat \<Rightarrow> bounds \<Rightarrow> steps \<Rightarrow> vec3 list" where
  "cell_vec len dims b s =
     (case dims of (d0, d1, d2) \<Rightarrow>
        foldl (\<lambda>tab (theta_i, phi_i). tab[theta_i * d2 + phi_i := cell_direction b s theta_i phi_i])
          (replicate len (0, 0, 0))
          (List.product [0 ..< d1] [0 ..< d2]))"

subsection \<open>Third step: the momentum cell of each particle\<close>

text \<open>
  The three indexes of a particle are casts of quotients by the steps. A step that was
  set to 0 makes the quotient \<open>0 / 0\<close> or \<open>x / 0\<close>, a NaN or an infinity, whose cast to
  \<open>unsigned int\<close> is undefined. The flattened index is computed in \<open>unsigned int\<close>.
\<close>

definition cell_of_particle ::
  "particles \<Rightarrow> nat \<Rightarrow> nat \<times> nat \<times> nat \<Rightarrow> bounds \<Rightarrow> steps \<Rightarrow> nat \<Rightarrow> failure + nat" where
  "cell_of_particle P istart dims b s ipart =
     (case dims of (d0, d1, d2) \<Rightarrow>
      let ip = ipart - istart in
      if mr_delta s = 0 \<or> theta_delta s = 0 \<or> phi_delta s = 0 then Inl NonFinite
      else
        (case to_uint ((momentum_norm P ipart - mr_min b) / mr_delta s) of
          Inl e \<Rightarrow> Inl e
        | Inr mr_i \<Rightarrow>
        (case to_uint ((particles_theta b ! ip - theta_min b) / theta_delta s) of
          Inl e \<Rightarrow> Inl e
        | Inr theta_i \<Rightarrow>
        (case to_uint ((particles_phi b ! ip - phi_min b) / phi_delta s) of
          Inl e \<Rightarrow> Inl e
        | Inr phi_i \<Rightarrow> Inr ((mr_i * d1 * d2 + theta_i * d2 + phi_i) mod 2 ^ 32)))))"

fun momentum_cell_index ::
  "particles \<Rightarrow> nat \<Rightarrow> nat \<times> nat \<times> nat \<Rightarrow> bounds \<Rightarrow> steps \<Rightarrow> nat list \<Rightarrow> failure + nat list" where
  "momentum_cell_index P istart dims b s [] = Inr []"
| "momentum_cell_index P istart dims b s (ipart # rest) =
     (case cell_of_particle P istart dims b s ipart of
        Inl e \<Rightarrow> Inl e
      | Inr ic \<Rightarrow>
          (case momentum_cell_index P istart dims b s rest of
             Inl e \<Rightarrow> Inl e
           | Inr ics \<Rightarrow> Inr (ic # ics)))"

subsection \<open>Counting sort of the particles by momentum cell\<close>

text \<open>The number of particles per momentum cell.\<close>

fun count_cells :: "nat list \<Rightarrow> nat list \<Rightarrow> failure + nat list" where
  "count_cells [] particles_per_momentum_cells = Inr particles_per_momentum_cells"
| "count_cells (ic # rest) particles_per_momentum_cells =
     (if ic < length particles_per_momentum_cells then
        count_cells rest
          (particles_per_momentum_cells[ic := particles_per_momentum_cells ! ic + 1])
      else Inl OutOfBounds)"

text \<open>
  The index of the first particle of each cell in the sorted array; the counts are reset
  on the way.
\<close>

fun first_of_cells :: "nat list \<Rightarrow> nat list \<times> nat list \<Rightarrow> nat list \<times> nat list" where
  "first_of_cells [] st = st"
| "first_of_cells (ic # rest) (momentum_cell_particle_index, particles_per_momentum_cells) =
     first_of_cells rest
       (momentum_cell_particle_index
          [ic := momentum_cell_particle_index ! (ic - 1) + particles_per_momentum_cells ! (ic - 1)],
        particles_per_momentum_cells[ic - 1 := 0])"

text \<open>Fourth step: the particles are put in the sorted array, cell by cell.\<close>

fun sort_particles ::
  "nat \<Rightarrow> nat list \<Rightarrow> (nat \<times> nat) list \<Rightarrow> nat list \<times> nat list \<Rightarrow> failure + (nat list \<times> nat list)" where
  "sort_particles istart momentum_cell_particle_index [] st = Inr st"
| "sort_particles istart momentum_cell_particle_index ((ip, ic) # rest)
       (sorted_particles, particles_per_momentum_cells) =
     (if ic < length particles_per_momentum_cells
         \<and> ic < length momentum_cell_particle_index
         \<and> momentum_cell_particle_index ! ic + particles_per_momentum_cells ! ic
             < length sorted_particles
      then
        sort_particles istart momentum_cell_particle_index rest
          (sorted_particles
             [momentum_cell_particle_index ! ic + particles_per_momentum_cells ! ic := istart + ip],
           particles_per_momentum_cells[ic := particles_per_momentum_cells ! ic + 1])
      else Inl OutOfBounds)"

record sorting =
  sorted_particles :: "nat list"
  momentum_cell_particle_index :: "nat list"
  particles_per_momentum_cells :: "nat list"

definition counting_sort :: "nat \<Rightarrow> nat \<Rightarrow> nat \<Rightarrow> nat list \<Rightarrow> failure + sorting" where
  "counting_sort momentum_cells istart n ics =
     (case count_cells ics (replicate momentum_cells 0) of
        Inl e \<Rightarrow> Inl e
      | Inr counts \<Rightarrow>
          (case first_of_cells [1 ..< momentum_cells] (replicate momentum_cells 0, counts) of
             (firsts, counts') \<Rightarrow>
               (case sort_particles istart firsts (zip [0 ..< n] ics)
                       (replicate n 0, counts'[momentum_cells - 1 := 0]) of
                  Inl e \<Rightarrow> Inl e
                | Inr (sp, counts'') \<Rightarrow>
                    Inr \<lparr>sorted_particles = sp,
                         momentum_cell_particle_index = firsts,
                         particles_per_momentum_cells = counts''\<rparr>)))"

subsection \<open>Fifth step: the merge, cell by cell\<close>

fun packets_loop ::
  "nat list \<Rightarrow> vec3 \<Rightarrow> nat \<Rightarrow> nat list \<Rightarrow> particles \<times> nat list
     \<Rightarrow> failure + particles \<times> nat list" where
  "packets_loop sp d first [] st = Inr st"
| "packets_loop sp d first (ipack # rest) st =
     (case merge_packet sp d first ipack st of
        Inl e \<Rightarrow> Inl e
      | Inr st' \<Rightarrow> packets_loop sp d first rest st')"

text \<open>
  The three nested loops over \<open>mr_i\<close>, \<open>theta_i\<close> and \<open>phi_i\<close>, as the list of the
  triples in the order of the loops. \<open>momentum_angular_cells\<close> is the product of the last
  two dimensions as it was before the collapse.
\<close>

definition cells_of :: "nat \<times> nat \<times> nat \<Rightarrow> (nat \<times> nat \<times> nat) list" where
  "cells_of dims =
     (case dims of (d0, d1, d2) \<Rightarrow> List.product [0 ..< d0] (List.product [0 ..< d1] [0 ..< d2]))"

fun cells_loop ::
  "sorting \<Rightarrow> vec3 list \<Rightarrow> nat \<Rightarrow> nat \<Rightarrow> (nat \<times> nat \<times> nat) list \<Rightarrow> particles \<times> nat list
     \<Rightarrow> failure + particles \<times> nat list" where
  "cells_loop srt cv momentum_angular_cells d2 [] st = Inr st"
| "cells_loop srt cv momentum_angular_cells d2 ((mr_i, theta_i, phi_i) # rest) st =
     (let icc = theta_i * d2 + phi_i;
          ic = mr_i * momentum_angular_cells + icc
      in
      if length (particles_per_momentum_cells srt) \<le> ic
         \<or> length (momentum_cell_particle_index srt) \<le> ic \<or> length cv \<le> icc
      then Inl OutOfBounds
      else if 4 \<le> particles_per_momentum_cells srt ! ic then
        (case packets_loop (sorted_particles srt) (cv ! icc)
                (momentum_cell_particle_index srt ! ic)
                [0 ..< particles_per_momentum_cells srt ! ic div 4] st of
           Inl e \<Rightarrow> Inl e
         | Inr st' \<Rightarrow> cells_loop srt cv momentum_angular_cells d2 rest st')
      else cells_loop srt cv momentum_angular_cells d2 rest st)"

subsection \<open>The operator\<close>

text \<open>
  The body of the call above the threshold. It starts by overwriting \<open>dimensions_\<close> with
  \<open>(5, 5, 5)\<close>; \<open>momentum_cells\<close> and \<open>momentum_angular_cells\<close> are computed from
  these, before any collapse, and so are the sizes of the scratch vectors. It returns the
  merger (its \<open>dimensions_\<close> are those after the collapse), the particles, and the list
  of the particles whose momentum is not a number.
\<close>

definition merge_range ::
  "merging \<Rightarrow> particles \<Rightarrow> nat \<Rightarrow> nat \<Rightarrow> failure + (merging \<times> particles \<times> nat list)" where
  "merge_range M P istart iend =
     (let n = iend - istart;
          M5 = M\<lparr>dimensions := (5, 5, 5)\<rparr>;
          momentum_cells = (case dimensions M5 of (d0, d1, d2) \<Rightarrow> d0 * d1 * d2);
          momentum_angular_cells = (case dimensions M5 of (d0, d1, d2) \<Rightarrow> d1 * d2)
      in
      case first_bounds P istart n of
        Inl e \<Rightarrow> Inl e
      | Inr b0 \<Rightarrow>
      (case bounds_loop P istart [istart + 1 ..< iend] b0 of
        Inl e \<Rightarrow> Inl e
      | Inr b1 \<Rightarrow>
      (let b = inflate b1 in
      case collapse (dimensions M5) (deltas (dimensions M5) b) of (dims, s) \<Rightarrow>
      (let M' = M5\<lparr>dimensions := dims\<rparr>;
           cv = cell_vec momentum_angular_cells (dimensions M') b s
       in
      case momentum_cell_index P istart (dimensions M') b s [istart ..< iend] of
        Inl e \<Rightarrow> Inl e
      | Inr ics \<Rightarrow>
      (case counting_sort momentum_cells istart n ics of
        Inl e \<Rightarrow> Inl e
      | Inr srt \<Rightarrow>
      (case cells_loop srt cv momentum_angular_cells (snd (snd (dimensions M')))
              (cells_of (dimensions M')) (P, []) of
        Inl e \<Rightarrow> Inl e
      | Inr (P', not_numbers) \<Rightarrow> Inr (M', P', not_numbers)))))))"

text \<open>
  \<open>istart\<close> and \<open>iend\<close> are C++ \<open>int\<close>s. The test of the threshold is on
  \<open>(unsigned int) (iend - istart)\<close>; the scratch vectors are allocated with
  \<open>iend - istart\<close> elements, which fails for a negative number. The particle columns are
  read from \<open>istart\<close> to \<open>iend - 1\<close>. At or below the threshold the call does nothing: the
  overwriting of \<open>dimensions_\<close> is inside the test.
\<close>

definition MergingVranic ::
  "merging \<Rightarrow> particles \<Rightarrow> int \<Rightarrow> int \<Rightarrow> failure + (merging \<times> particles \<times> nat list)" where
  "MergingVranic M P istart iend =
     (if int (merging_ppc_min_threshold M) < (iend - istart) mod 2 ^ 32 then
        if iend - istart < 0 then Inl BadAlloc
        else if istart < 0 \<or> int (size_particles P) < iend then Inl OutOfBounds
        else merge_range M P (nat istart) (nat iend)
      else Inr (M, P, []))"

section \<open>RadiationMonteCarlo: data\<close>

text \<open>
  The columns of the particle store that the radiation kernel uses besides the momenta and
  the weights.
\<close>

record particles_rad = particles +
  position_x :: "real list"
  position_y :: "real list"
  position_z :: "real list"
  charge :: "int list"
  tau :: "real list"
  chi :: "real list"

text \<open>
  The buffer \<open>new_photons_\<close> is a particle store of its own; one of its particles is
  written here as a record, with the coordinates of the position that the dimension of
  the simulation gives it, and with \<open>chi\<close> and \<open>tau\<close> when the buffer has these columns.
\<close>

record photon =
  ph_position :: "real list"
  ph_momentum :: vec3
  ph_weight :: real
  ph_charge :: int
  ph_chi :: "real option"
  ph_tau :: "real option"

text \<open>
  Modelled from the spec: \<open>createParticles (n)\<close> of the particle store, which is not
  among the sources, appends \<open>n\<close> uninitialised slots to a buffer and grows its size by
  \<open>n\<close>. An uninitialised slot is written as the photon of zeros.
\<close>

definition blank_photon :: photon where
  "blank_photon =
     \<lparr>ph_position = [], ph_momentum = (0, 0, 0), ph_weight = 0, ph_charge = 0,
      ph_chi = None, ph_tau = None\<rparr>"

definition createParticles :: "nat \<Rightarrow> photon list \<Rightarrow> photon list" where
  "createParticles n buf = buf @ replicate n blank_photon"

text \<open>
  The members of the class that the kernel reads (\<open>radiation_photon_sampling_\<close>,
  \<open>radiation_photon_gamma_threshold_\<close>, \<open>dt_\<close>, \<open>max_monte_carlo_iterations_\<close>,
  \<open>epsilon_tau_\<close>, \<open>one_over_mass_\<close>, \<open>nDim_\<close>) and the two flags of \<open>new_photons_\<close>.
  \<open>inv_radiation_photon_sampling_\<close> is \<open>1. / radiation_photon_sampling_\<close>.
\<close>

record radiation =
  radiation_photon_sampling :: nat
  radiation_photon_gamma_threshold :: real
  dt :: real
  max_monte_carlo_iterations :: nat
  epsilon_tau :: real
  one_over_mass :: real
  nDim :: nat
  isQuantumParameter :: bool
  isMonteCarlo :: bool

definition inv_radiation_photon_sampling :: "radiation \<Rightarrow> real" where
  "inv_radiation_photon_sampling R = 1 / real (radiation_photon_sampling R)"

text \<open>
  The functions of \<open>Radiation\<close> and \<open>RadiationTables\<close> that the kernel calls are not among
  the sources: they are parameters. \<open>computeParticleChi\<close> takes the charge over the square
  of the mass, the momentum, the Lorentz factor and the fields \<open>E\<close> and \<open>B\<close>;
  \<open>computePhotonProductionYield\<close> the quantum parameter and the Lorentz factor;
  \<open>getRidgersCorrectedRadiatedEnergy\<close> the quantum parameter and a time;
  \<open>computeRandomPhotonChiWithInterpolation\<close> the quantum parameter and a random number.
\<close>

record tables =
  computeParticleChi :: "real \<Rightarrow> vec3 \<Rightarrow> real \<Rightarrow> vec3 \<Rightarrow> vec3 \<Rightarrow> real"
  getMinimumChiDiscontinuous :: real
  getMinimumChiContinuous :: real
  computePhotonProductionYield :: "real \<Rightarrow> real \<Rightarrow> real"
  getRidgersCorrectedRadiatedEnergy :: "real \<Rightarrow> real \<Rightarrow> real"
  computeRandomPhotonChiWithInterpolation :: "real \<Rightarrow> real \<Rightarrow> real"

section \<open>RadiationMonteCarlo: the emission of a photon\<close>

definition momentum_of :: "'a particles_scheme \<Rightarrow> nat \<Rightarrow> vec3" where
  "momentum_of P ipart = (momentum_x P ! ipart, momentum_y P ! ipart, momentum_z P ! ipart)"

definition lorentz_factor :: "vec3 \<Rightarrow> real" where
  "lorentz_factor p = (case p of (p_x, p_y, p_z) \<Rightarrow> sqrt (1 + p_x * p_x + p_y * p_y + p_z * p_z))"

text \<open>The momentum-conserving recoil: each component loses \<open>inv_old_norm_p\<close> times itself.\<close>

definition recoil :: "particles_rad \<Rightarrow> nat \<Rightarrow> real \<Rightarrow> particles_rad" where
  "recoil P ipart inv_old_norm_p =
     P\<lparr>momentum_x := (momentum_x P)[ipart := momentum_x P ! ipart - momentum_x P ! ipart * inv_old_norm_p],
       momentum_y := (momentum_y P)[ipart := momentum_y P ! ipart - momentum_y P ! ipart * inv_old_norm_p],
       momentum_z := (momentum_z P)[ipart := momentum_z P ! ipart - momentum_z P ! ipart * inv_old_norm_p]\<rparr>"

text \<open>
  One macro-photon of the emission: the position of the emitting particle (as many
  coordinates as \<open>nDim_\<close>), the momentum \<open>gammaph * p * inv_old_norm_p\<close> with \<open>p\<close> the
  momentum that the particle has when the photon is created, the weight divided by the
  sampling, the charge 0.
\<close>

definition new_photon ::
  "radiation \<Rightarrow> particles_rad \<Rightarrow> nat \<Rightarrow> real \<Rightarrow> real \<Rightarrow> real \<Rightarrow> photon \<Rightarrow> photon" where
  "new_photon R P ipart gammaph inv_old_norm_p photon_chi slot =
     slot\<lparr>ph_position :=
            position_x P ! ipart #
              (if 1 < nDim R then
                 position_y P ! ipart # (if 2 < nDim R then [position_z P ! ipart] else [])
               else []),
          ph_momentum :=
            (gammaph * momentum_x P ! ipart * inv_old_norm_p,
             gammaph * momentum_y P ! ipart * inv_old_norm_p,
             gammaph * momentum_z P ! ipart * inv_old_norm_p),
          ph_weight := weight P ! ipart * inv_radiation_photon_sampling R,
          ph_charge := 0,
          ph_chi := (if isQuantumParameter R then Some photon_chi else ph_chi slot),
          ph_tau := (if isMonteCarlo R then Some (- 1) else ph_tau slot)\<rparr>"

text \<open>The loop \<open>for (idNew = npart - radiation_photon_sampling_; idNew < npart; idNew++)\<close>.\<close>

fun fill_photons ::
  "radiation \<Rightarrow> particles_rad \<Rightarrow> nat \<Rightarrow> real \<Rightarrow> real \<Rightarrow> real \<Rightarrow> nat list \<Rightarrow> photon list
     \<Rightarrow> photon list" where
  "fill_photons R P ipart gammaph inv_old_norm_p photon_chi [] buf = buf"
| "fill_photons R P ipart gammaph inv_old_norm_p photon_chi (idNew # rest) buf =
     fill_photons R P ipart gammaph inv_old_norm_p photon_chi rest
       (buf[idNew := new_photon R P ipart gammaph inv_old_norm_p photon_chi (buf ! idNew)])"

text \<open>
  \<open>photonEmission\<close>, on the particles and the buffer \<open>new_photons_\<close>; it returns the energy
  for the scalar diagnostics. \<open>photon_species\<close> tells whether the pointer is not null.
  The quotients \<open>photon_chi / particle_chi\<close>, \<open>gammaph / sqrt (particle_gamma^2 - 1)\<close>
  and, when photons are created, \<open>1 / sqrt (p \<cdot> p)\<close> have no real value when their
  denominator is 0 or the root is of a negative number.
\<close>

definition photonEmission ::
  "tables \<Rightarrow> radiation \<Rightarrow> bool \<Rightarrow> nat \<Rightarrow> real \<Rightarrow> real \<Rightarrow> real \<Rightarrow> particles_rad \<times> photon list
     \<Rightarrow> failure + (real \<times> particles_rad \<times> photon list)" where
  "photonEmission T R photon_species ipart particle_chi particle_gamma random_number st =
     (case st of (P, new_photons) \<Rightarrow>
      let photon_chi = computeRandomPhotonChiWithInterpolation T particle_chi random_number in
      if particle_chi = 0 then Inl NonFinite
      else
        let gammaph = photon_chi / particle_chi * (particle_gamma - 1) in
        if particle_gamma * particle_gamma - 1 \<le> 0 then Inl NonFinite
        else
          let inv_old_norm_p = gammaph / sqrt (particle_gamma * particle_gamma - 1);
              P1 = recoil P ipart inv_old_norm_p
          in
          if photon_species \<and> radiation_photon_gamma_threshold R \<le> gammaph then
            let buf = createParticles (radiation_photon_sampling R) new_photons;
                npart = length buf;
                norm_p = sqrt (momentum_x P1 ! ipart * momentum_x P1 ! ipart
                             + momentum_y P1 ! ipart * momentum_y P1 ! ipart
                             + momentum_z P1 ! ipart * momentum_z P1 ! ipart)
            in
            if norm_p = 0 \<and> 0 < radiation_photon_sampling R then Inl NonFinite
            else
              Inr (0, P1,
                   fill_photons R P1 ipart gammaph (1 / norm_p) photon_chi
                     [npart - radiation_photon_sampling R ..< npart] buf)
          else
            Inr (weight P1 ! ipart * (particle_gamma - lorentz_factor (momentum_of P1 ipart)),
                 P1, new_photons))"

section \<open>RadiationMonteCarlo: the Monte-Carlo loop\<close>

text \<open>
  The random generator \<open>rand_\<close> is the sequence \<open>U\<close> of the numbers it returns and the
  count of those already drawn.

  The drawing of a new optical depth,
  \<open>while (tau[ipart] <= epsilon_tau_) tau[ipart] = -log (1. - rand_->uniform ())\<close>.
  It may draw for ever: not returning is \<open>None\<close>. The logarithm has no real value when
  its argument is not positive.
\<close>

partial_function (option) draw_tau ::
  "real \<Rightarrow> (nat \<Rightarrow> real) \<Rightarrow> nat \<Rightarrow> real \<Rightarrow> (failure + real \<times> nat) option" where
  "draw_tau eps U drawn t =
     (if t \<le> eps then
        (if 1 - U drawn \<le> 0 then Some (Inl NonFinite)
         else draw_tau eps U (Suc drawn) (- ln (1 - U drawn)))
      else Some (Inr (t, drawn)))"

text \<open>
  The state of the loop over the particles: the particles, the buffer \<open>new_photons_\<close>,
  the count of random numbers drawn, \<open>radiated_energy_loc\<close>, and the two counters of the
  Monte-Carlo loop of the current particle.
\<close>

record mc_state =
  parts :: particles_rad
  new_photons :: "photon list"
  drawn :: nat
  radiated_energy_loc :: real
  local_it_time :: real
  mc_it_nb :: nat

text \<open>
  One pass through the body of
  \<open>while (local_it_time < dt_ && mc_it_nb < max_monte_carlo_iterations_)\<close> for the particle
  \<open>ipart\<close>, whose fields are \<open>E\<close> and \<open>B\<close>. The result tells whether the body left the
  loop by \<open>break\<close>. In \<open>std::min (tau[ipart] / temp, dt_ - local_it_time)\<close> a yield
  \<open>temp = 0\<close> with a positive optical depth gives an infinite quotient, and the minimum is
  the remaining time; with an optical depth that is not positive the quotient and the
  new optical depth are not finite.
\<close>

definition mc_step ::
  "tables \<Rightarrow> radiation \<Rightarrow> bool \<Rightarrow> (nat \<Rightarrow> real) \<Rightarrow> vec3 \<Rightarrow> vec3 \<Rightarrow> nat \<Rightarrow> mc_state
     \<Rightarrow> (failure + bool \<times> mc_state) option" where
  "mc_step T R photon_species U E B ipart st =
     (let P = parts st;
          gamma = lorentz_factor (momentum_of P ipart)
      in
      if gamma = 1 then Some (Inr (True, st))
      else
        let charge_over_mass_square = real_of_int (charge P ! ipart) * (one_over_mass R)\<^sup>2;
            particle_chi =
              computeParticleChi T charge_over_mass_square (momentum_of P ipart) gamma E B
        in
        case (if getMinimumChiDiscontinuous T < particle_chi \<and> tau P ! ipart \<le> epsilon_tau R
              then draw_tau (epsilon_tau R) U (drawn st) (tau P ! ipart)
              else Some (Inr (tau P ! ipart, drawn st))) of
          None \<Rightarrow> None
        | Some (Inl e) \<Rightarrow> Some (Inl e)
        | Some (Inr (tau1, drawn1)) \<Rightarrow>
            if epsilon_tau R < tau1 then
              (let temp = computePhotonProductionYield T particle_chi gamma in
               if temp = 0 \<and> tau1 \<le> 0 then Some (Inl NonFinite)
               else
                 let emission_time =
                       (if temp = 0 then dt R - local_it_time st
                        else min (tau1 / temp) (dt R - local_it_time st));
                     tau2 = tau1 - temp * emission_time
                 in
                 if tau2 \<le> epsilon_tau R then
                   (let random_number = U drawn1 in
                    case photonEmission T R photon_species ipart particle_chi gamma random_number
                           (P\<lparr>tau := (tau P)[ipart := tau2]\<rparr>, new_photons st) of
                      Inl e \<Rightarrow> Some (Inl e)
                    | Inr (energy, P', buf) \<Rightarrow>
                        Some (Inr (False,
                          st\<lparr>parts := P'\<lparr>tau := (tau P')[ipart := - 1]\<rparr>,
                             new_photons := buf,
                             drawn := Suc drawn1,
                             radiated_energy_loc := radiated_energy_loc st + energy,
                             mc_it_nb := mc_it_nb st + 1,
                             local_it_time := local_it_time st + emission_time\<rparr>)))
                 else
                   Some (Inr (False,
                     st\<lparr>parts := P\<lparr>tau := (tau P)[ipart := tau2]\<rparr>,
                        drawn := drawn1,
                        mc_it_nb := mc_it_nb st + 1,
                        local_it_time := local_it_time st + emission_time\<rparr>)))
            else if particle_chi \<le> getMinimumChiDiscontinuous T \<and> tau1 \<le> epsilon_tau R
                    \<and> getMinimumChiContinuous T < particle_chi \<and> 1 < gamma then
              (let emission_time = dt R - local_it_time st;
                   cont_rad_energy = getRidgersCorrectedRadiatedEnergy T particle_chi emission_time;
                   temp = cont_rad_energy * gamma / (gamma * gamma - 1);
                   P' = recoil P ipart temp
               in
               Some (Inr (False,
                 st\<lparr>parts := P',
                    drawn := drawn1,
                    radiated_energy_loc := radiated_energy_loc st
                      + weight P' ! ipart * (gamma - lorentz_factor (momentum_of P' ipart)),
                    local_it_time := dt R\<rparr>)))
            else
              Some (Inr (False, st\<lparr>drawn := drawn1, local_it_time := dt R\<rparr>)))"

text \<open>
  A pass that does not leave by \<open>break\<close> counts one more iteration or brings the local
  time to \<open>dt_\<close>: the loop ends.
\<close>

definition mc_budget :: "radiation \<Rightarrow> mc_state \<Rightarrow> nat" where
  "mc_budget R st =
     2 * (max_monte_carlo_iterations R - mc_it_nb st)
     + (if local_it_time st < dt R then 1 else 0)"

lemma mc_step_budget:
  assumes "mc_step T R photon_species U E B ipart st = Some (Inr (False, st'))"
    and "local_it_time st < dt R" and "mc_it_nb st < max_monte_carlo_iterations R"
  shows "mc_budget R st' < mc_budget R st"
  using assms
  by (auto simp: mc_step_def mc_budget_def Let_def
      split: if_splits option.splits sum.splits prod.splits)

function mc_loop ::
  "tables \<Rightarrow> radiation \<Rightarrow> bool \<Rightarrow> (nat \<Rightarrow> real) \<Rightarrow> vec3 \<Rightarrow> vec3 \<Rightarrow> nat \<Rightarrow> mc_state
     \<Rightarrow> (failure + mc_state) option" where
  "mc_loop T R photon_species U E B ipart st =
     (if local_it_time st < dt R \<and> mc_it_nb st < max_monte_carlo_iterations R then
        (case mc_step T R photon_species U E B ipart st of
           None \<Rightarrow> None
         | Some (Inl e) \<Rightarrow> Some (Inl e)
         | Some (Inr (left, st')) \<Rightarrow>
             if left then Some (Inr st')
             else mc_loop T R photon_species U E B ipart st')
      else Some (Inr st))"
  by pat_completeness auto
termination
  by (relation "measure (\<lambda>(T, R, photon_species, U, E, B, ipart, st). mc_budget R st)")
    (auto intro: mc_step_budget)

declare mc_loop.simps [simp del]

text \<open>
  The loop over the particles of the range. \<open>Epart\<close> and \<open>Bpart\<close> are the buffers of the
  thread, read at \<open>ipart - ipart_ref\<close>.
\<close>

fun particles_loop ::
  "tables \<Rightarrow> radiation \<Rightarrow> bool \<Rightarrow> (nat \<Rightarrow> real) \<Rightarrow> vec3 list \<Rightarrow> vec3 list \<Rightarrow> nat \<Rightarrow> nat list
     \<Rightarrow> mc_state \<Rightarrow> (failure + mc_state) option" where
  "particles_loop T R photon_species U Epart Bpart ipart_ref [] st = Some (Inr st)"
| "particles_loop T R photon_species U Epart Bpart ipart_ref (ipart # rest) st =
     (case mc_loop T R photon_species U (Epart ! (ipart - ipart_ref)) (Bpart ! (ipart - ipart_ref))
             ipart (st\<lparr>local_it_time := 0, mc_it_nb := 0\<rparr>) of
        None \<Rightarrow> None
      | Some (Inl e) \<Rightarrow> Some (Inl e)
      | Some (Inr st') \<Rightarrow>
          particles_loop T R photon_species U Epart Bpart ipart_ref rest st')"

text \<open>The update of the quantum parameter of every particle of the range.\<close>

fun update_chi ::
  "tables \<Rightarrow> radiation \<Rightarrow> vec3 list \<Rightarrow> vec3 list \<Rightarrow> nat \<Rightarrow> nat list \<Rightarrow> particles_rad
     \<Rightarrow> particles_rad" where
  "update_chi T R Epart Bpart ipart_ref [] P = P"
| "update_chi T R Epart Bpart ipart_ref (ipart # rest) P =
     update_chi T R Epart Bpart ipart_ref rest
       (P\<lparr>chi := (chi P)[ipart :=
            computeParticleChi T (real_of_int (charge P ! ipart) * (one_over_mass R)\<^sup>2)
              (momentum_of P ipart) (lorentz_factor (momentum_of P ipart))
              (Epart ! (ipart - ipart_ref)) (Bpart ! (ipart - ipart_ref))]\<rparr>)"

text \<open>The particles of the range are in the store, and their fields in the buffers.\<close>

definition range_in_store ::
  "radiation \<Rightarrow> particles_rad \<Rightarrow> vec3 list \<Rightarrow> vec3 list \<Rightarrow> nat \<Rightarrow> nat \<Rightarrow> nat \<Rightarrow> bool" where
  "range_in_store R P Epart Bpart istart iend ipart_ref \<longleftrightarrow>
     iend \<le> istart
     \<or> (ipart_ref \<le> istart
        \<and> iend - ipart_ref \<le> length Epart \<and> iend - ipart_ref \<le> length Bpart
        \<and> iend \<le> length (momentum_x P) \<and> iend \<le> length (momentum_y P)
        \<and> iend \<le> length (momentum_z P) \<and> iend \<le> length (weight P)
        \<and> iend \<le> length (charge P) \<and> iend \<le> length (tau P) \<and> iend \<le> length (chi P)
        \<and> iend \<le> length (position_x P)
        \<and> (nDim R \<le> 1 \<or> iend \<le> length (position_y P))
        \<and> (nDim R \<le> 2 \<or> iend \<le> length (position_z P)))"

text \<open>
  The operator: the loop over the particles, the addition of the local radiated energy
  to \<open>radiated_energy\<close>, and the update of \<open>chi\<close>. It returns the particles, the buffer
  \<open>new_photons_\<close>, \<open>radiated_energy\<close> and the count of random numbers drawn.
\<close>

definition RadiationMonteCarlo ::
  "tables \<Rightarrow> radiation \<Rightarrow> bool \<Rightarrow> (nat \<Rightarrow> real) \<Rightarrow> nat \<Rightarrow> vec3 list \<Rightarrow> vec3 list \<Rightarrow> real
     \<Rightarrow> nat \<Rightarrow> nat \<Rightarrow> nat \<Rightarrow> particles_rad \<times> photon list
     \<Rightarrow> (failure + particles_rad \<times> photon list \<times> real \<times> nat) option" where
  "RadiationMonteCarlo T R photon_species U drawn0 Epart Bpart radiated_energy
       istart iend ipart_ref st0 =
     (case st0 of (P, buf) \<Rightarrow>
      if \<not> range_in_store R P Epart Bpart istart iend ipart_ref then Some (Inl OutOfBounds)
      else
        (case particles_loop T R photon_species U Epart Bpart ipart_ref [istart ..< iend]
                \<lparr>parts = P, new_photons = buf, drawn = drawn0, radiated_energy_loc = 0,
                 local_it_time = 0, mc_it_nb = 0\<rparr> of
           None \<Rightarrow> None
         | Some (Inl e) \<Rightarrow> Some (Inl e)
         | Some (Inr st) \<Rightarrow>
             Some (Inr (update_chi T R Epart Bpart ipart_ref [istart ..< iend] (parts st),
                        new_photons st,
                        radiated_energy + radiated_energy_loc st,
                        drawn st))))"

section \<open>Particle stores that differ in their keys only\<close>

definition same_but_keys :: "particles \<Rightarrow> particles \<Rightarrow> bool" where
  "same_but_keys P Q \<longleftrightarrow>
     momentum_x P = momentum_x Q \<and> momentum_y P = momentum_y Q \<and> momentum_z P = momentum_z Q
     \<and> weight P = weight Q \<and> length (cell_keys P) = length (cell_keys Q)"

text \<open>The weighted energy of a particle: its weight times \<open>sqrt (1 + p \<cdot> p)\<close>.\<close>

definition weighted_energy :: "particles \<Rightarrow> nat \<Rightarrow> real" where
  "weighted_energy P i =
     weight P ! i * sqrt (1 + momentum_x P ! i * momentum_x P ! i
                            + momentum_y P ! i * momentum_y P ! i
                            + momentum_z P ! i * momentum_z P ! i)"


text \<open>A vector times a number, and the norm of a vector.\<close>

definition scale :: "real \<Rightarrow> vec3 \<Rightarrow> vec3" where
  "scale k v = (case v of (v_x, v_y, v_z) \<Rightarrow> (k * v_x, k * v_y, k * v_z))"

definition norm3 :: "vec3 \<Rightarrow> real" where
  "norm3 v = (case v of (v_x, v_y, v_z) \<Rightarrow> sqrt (v_x * v_x + v_y * v_y + v_z * v_z))"

text \<open>
  The photon Lorentz factor of an emission,
  \<open>gammaph = photon_chi / particle_chi * (particle_gamma - 1)\<close>.
\<close>

definition gamma_photon :: "tables \<Rightarrow> real \<Rightarrow> real \<Rightarrow> real \<Rightarrow> real" where
  "gamma_photon T particle_chi particle_gamma random_number =
     computeRandomPhotonChiWithInterpolation T particle_chi random_number / particle_chi
       * (particle_gamma - 1)"

text \<open>An optical depth is settled when it is at most 0 or above \<open>epsilon_tau_\<close>.\<close>

definition settled :: "real \<Rightarrow> real \<Rightarrow> bool" where
  "settled eps t \<longleftrightarrow> t \<le> 0 \<or> eps < t"

section \<open>Concrete runs\<close>

text \<open>
  Six particles: four of momentum \<open>(3/4, 0, 0)\<close>, one of momentum \<open>(0, 1, 0)\<close> and one
  of momentum \<open>(0, 0, 2)\<close>, all of weight 1. The first one enters with \<open>cell_keys = -1\<close>.
  The merging threshold is 4 and the configured dimensions are \<open>(3, 3, 3)\<close>.
\<close>

definition six_particles :: particles where
  "six_particles =
     \<lparr>momentum_x = [3 / 4, 3 / 4, 3 / 4, 3 / 4, 0, 0],
      momentum_y = [0, 0, 0, 0, 1, 0],
      momentum_z = [0, 0, 0, 0, 0, 2],
      weight = [1, 1, 1, 1, 1, 1],
      cell_keys = [- 1, 0, 0, 0, 0, 0]\<rparr>"

definition six_merged :: particles where
  "six_merged =
     \<lparr>momentum_x = [3 / 4, 3 / 4, 3 / 4, 3 / 4, 0, 0],
      momentum_y = [0, 0, 0, 0, 1, 0],
      momentum_z = [0, 0, 0, 0, 0, 2],
      weight = [2, 2, 1, 1, 1, 1],
      cell_keys = [- 1, 0, - 1, - 1, 0, 0]\<rparr>"

definition merging4 :: merging where
  "merging4 = \<lparr>dimensions = (3, 3, 3), merging_ppc_min_threshold = 4\<rparr>"

text \<open>The bounds, the steps and the sorting of the run on the six particles.\<close>

definition six_bounds :: bounds where
  "six_bounds =
     \<lparr>mr_min = 3 / 4, mr_max = 2,
      theta_min = 0, theta_max = pi / 2,
      phi_min = 0, phi_max = pi / 2,
      particles_theta = [0, 0, 0, 0, pi / 2, 0],
      particles_phi = [0, 0, 0, 0, 0, pi / 2]\<rparr>"

definition six_steps :: steps where
  "six_steps =
     \<lparr>mr_delta = 101 / 400, theta_delta = 101 * pi / 1000, phi_delta = 101 * pi / 1000\<rparr>"

definition six_sorting :: sorting where
  "six_sorting =
     \<lparr>sorted_particles = [0, 1, 2, 3, 4, 5],
      momentum_cell_particle_index = 0 # replicate 20 4 @ replicate 84 5 @ replicate 20 6,
      particles_per_momentum_cells = (replicate 125 0)[0 := 4, 20 := 1, 104 := 1]\<rparr>"

text \<open>The direction of the first momentum cell of that run.\<close>

definition first_cell :: vec3 where
  "first_cell = cell_direction (inflate six_bounds) six_steps 0 0"

text \<open>Five particles of the same momentum \<open>(3/4, 0, 0)\<close> and weight 1.\<close>

definition five_identical :: particles where
  "five_identical =
     \<lparr>momentum_x = [3 / 4, 3 / 4, 3 / 4, 3 / 4, 3 / 4],
      momentum_y = [0, 0, 0, 0, 0],
      momentum_z = [0, 0, 0, 0, 0],
      weight = [1, 1, 1, 1, 1],
      cell_keys = [0, 0, 0, 0, 0]\<rparr>"

definition five_bounds :: bounds where
  "five_bounds =
     \<lparr>mr_min = 3 / 4, mr_max = 3 / 4, theta_min = 0, theta_max = 0,
      phi_min = 0, phi_max = 0,
      particles_theta = [0, 0, 0, 0, 0],
      particles_phi = [0, 0, 0, 0, 0]\<rparr>"

text \<open>
  Twelve particles of weight 1: eight of momentum \<open>(3/4, 0, 0)\<close>, two of momentum
  \<open>(0, 1, 0)\<close> and two of momentum \<open>(0, 0, 2)\<close>; what the call makes of them, and what
  they are after the first packet.
\<close>

definition twelve_particles :: particles where
  "twelve_particles =
     \<lparr>momentum_x = [3 / 4, 3 / 4, 3 / 4, 3 / 4, 3 / 4, 3 / 4, 3 / 4, 3 / 4, 0, 0, 0, 0],
      momentum_y = [0, 0, 0, 0, 0, 0, 0, 0, 1, 1, 0, 0],
      momentum_z = [0, 0, 0, 0, 0, 0, 0, 0, 0, 0, 2, 2],
      weight = [1, 1, 1, 1, 1, 1, 1, 1, 1, 1, 1, 1],
      cell_keys = [0, 0, 0, 0, 0, 0, 0, 0, 0, 0, 0, 0]\<rparr>"

definition twelve_merged :: particles where
  "twelve_merged =
     \<lparr>momentum_x = [3 / 4, 3 / 4, 3 / 4, 3 / 4, 3 / 4, 3 / 4, 3 / 4, 3 / 4, 0, 0, 0, 0],
      momentum_y = [0, 0, 0, 0, 0, 0, 0, 0, 1, 1, 0, 0],
      momentum_z = [0, 0, 0, 0, 0, 0, 0, 0, 0, 0, 2, 2],
      weight = [2, 2, 1, 1, 2, 2, 1, 1, 1, 1, 1, 1],
      cell_keys = [0, 0, - 1, - 1, 0, 0, 0, 0, 0, 0, - 1, - 1]\<rparr>"

definition twelve_bounds :: bounds where
  "twelve_bounds =
     \<lparr>mr_min = 3 / 4, mr_max = 2,
      theta_min = 0, theta_max = pi / 2,
      phi_min = 0, phi_max = pi / 2,
      particles_theta = [0, 0, 0, 0, 0, 0, 0, 0, pi / 2, pi / 2, 0, 0],
      particles_phi = [0, 0, 0, 0, 0, 0, 0, 0, 0, 0, pi / 2, pi / 2]\<rparr>"

definition twelve_sorting :: sorting where
  "twelve_sorting =
     \<lparr>sorted_particles = [0, 1, 2, 3, 4, 5, 6, 7, 8, 9, 10, 11],
      momentum_cell_particle_index = 0 # replicate 20 8 @ replicate 84 10 @ replicate 20 12,
      particles_per_momentum_cells = (replicate 125 0)[0 := 8, 20 := 2, 104 := 2]\<rparr>"

definition twelve_half :: particles where
  "twelve_half =
     \<lparr>momentum_x = [3 / 4, 3 / 4, 3 / 4, 3 / 4, 3 / 4, 3 / 4, 3 / 4, 3 / 4, 0, 0, 0, 0],
      momentum_y = [0, 0, 0, 0, 0, 0, 0, 0, 1, 1, 0, 0],
      momentum_z = [0, 0, 0, 0, 0, 0, 0, 0, 0, 0, 2, 2],
      weight = [2, 2, 1, 1, 1, 1, 1, 1, 1, 1, 1, 1],
      cell_keys = [0, 0, - 1, - 1, 0, 0, 0, 0, 0, 0, 0, 0]\<rparr>"


text \<open>
  The six particles again, the four of momentum \<open>(3/4, 0, 0)\<close> now of weight 1/2, and what
  the call makes of them: the first two particles get the momenta
  \<open>(3/4, t * d_y, t * d_z)\<close> and \<open>(3/4, - t * d_y, - t * d_z)\<close>, with \<open>d\<close> the direction of
  the first momentum cell and \<open>t = p_a * sin omega\<close>.
\<close>

definition six_light :: particles where
  "six_light =
     \<lparr>momentum_x = [3 / 4, 3 / 4, 3 / 4, 3 / 4, 0, 0],
      momentum_y = [0, 0, 0, 0, 1, 0],
      momentum_z = [0, 0, 0, 0, 0, 2],
      weight = [1 / 2, 1 / 2, 1 / 2, 1 / 2, 1, 1],
      cell_keys = [0, 0, 0, 0, 0, 0]\<rparr>"

definition light_transverse :: real where
  "light_transverse = sqrt (21 / 4) * sin (arccos (3 / (4 * sqrt (21 / 4))))"

definition six_light_merged :: particles where
  "six_light_merged =
     (case first_cell of (d_x, d_y, d_z) \<Rightarrow>
     \<lparr>momentum_x = [3 / 4, 3 / 4, 3 / 4, 3 / 4, 0, 0],
      momentum_y = [light_transverse * d_y, - (light_transverse * d_y), 0, 0, 1, 0],
      momentum_z = [light_transverse * d_z, - (light_transverse * d_z), 0, 0, 0, 2],
      weight = [1, 1, 1 / 2, 1 / 2, 1, 1],
      cell_keys = [0, 0, - 1, - 1, 0, 0]\<rparr>)"


text \<open>
  The six particles once more, the four of momentum \<open>(3/4, 0, 0)\<close> now of weight 2, and
  what the call makes of them apart from the momenta of the first two, which are not
  numbers.
\<close>

definition six_heavy :: particles where
  "six_heavy =
     \<lparr>momentum_x = [3 / 4, 3 / 4, 3 / 4, 3 / 4, 0, 0],
      momentum_y = [0, 0, 0, 0, 1, 0],
      momentum_z = [0, 0, 0, 0, 0, 2],
      weight = [2, 2, 2, 2, 1, 1],
      cell_keys = [0, 0, 0, 0, 0, 0]\<rparr>"

definition six_heavy_merged :: particles where
  "six_heavy_merged =
     \<lparr>momentum_x = [3 / 4, 3 / 4, 3 / 4, 3 / 4, 0, 0],
      momentum_y = [0, 0, 0, 0, 1, 0],
      momentum_z = [0, 0, 0, 0, 0, 2],
      weight = [4, 4, 2, 2, 1, 1],
      cell_keys = [0, 0, - 1, - 1, 0, 0]\<rparr>"

text \<open>
  An emission: one particle of momentum \<open>(3/4, 0, 0)\<close>, Lorentz factor 5/4 and weight 1,
  at the position 7 of a simulation of dimension 1; tables that give the particle the
  quantum parameter 1 and the photon the quantum parameter \<open>photon_chi\<close>; a sampling of one
  photon and a threshold 0. \<open>photon_of p_x photon_chi\<close> is the photon of momentum
  \<open>(p_x, 0, 0)\<close> that this particle emits.
\<close>

definition one_particle :: particles_rad where
  "one_particle =
     \<lparr>momentum_x = [3 / 4], momentum_y = [0], momentum_z = [0], weight = [1], cell_keys = [0],
      position_x = [7], position_y = [0], position_z = [0], charge = [- 1], tau = [- 1],
      chi = [0]\<rparr>"

definition tables_of :: "real \<Rightarrow> tables" where
  "tables_of photon_chi =
     \<lparr>computeParticleChi = (\<lambda>_ _ _ _ _. 1),
      getMinimumChiDiscontinuous = 1 / 2,
      getMinimumChiContinuous = 1 / 4,
      computePhotonProductionYield = (\<lambda>_ _. 1),
      getRidgersCorrectedRadiatedEnergy = (\<lambda>_ _. 0),
      computeRandomPhotonChiWithInterpolation = (\<lambda>_ _. photon_chi)\<rparr>"

definition radiation1 :: radiation where
  "radiation1 =
     \<lparr>radiation_photon_sampling = 1, radiation_photon_gamma_threshold = 0, dt = 2,
      max_monte_carlo_iterations = 1, epsilon_tau = 1 / 10 ^ 100, one_over_mass = 1, nDim = 1,
      isQuantumParameter = True, isMonteCarlo = True\<rparr>"

definition photon_of :: "real \<Rightarrow> real \<Rightarrow> photon" where
  "photon_of p_x photon_chi =
     \<lparr>ph_position = [7], ph_momentum = (p_x, 0, 0), ph_weight = 1, ph_charge = 0,
      ph_chi = Some photon_chi, ph_tau = Some (- 1)\<rparr>"


text \<open>
  The random numbers \<open>draws_one\<close> are all \<open>1 - exp (- 1)\<close>: the optical depth drawn
  from them is 1. With them the particle \<open>one_particle\<close> ends as \<open>one_after\<close>: it
  has emitted, its optical depth is back to \<open>- 1\<close>.
\<close>

definition draws_one :: "nat \<Rightarrow> real" where
  "draws_one k = 1 - exp (- 1)"

definition one_after :: particles_rad where
  "one_after = one_particle\<lparr>momentum_x := [5 / 8], tau := [- 1], chi := [1]\<rparr>"

text \<open>
  The same particle entering with the optical depth \<open>epsilon_tau_ / 2\<close>, and tables whose
  two thresholds 2 are above its quantum parameter 1.
\<close>

definition one_pending :: particles_rad where
  "one_pending = one_particle\<lparr>tau := [1 / (2 * 10 ^ 100)]\<rparr>"

definition tables_quiet :: tables where
  "tables_quiet =
     (tables_of (1 / 2))\<lparr>getMinimumChiDiscontinuous := 2, getMinimumChiContinuous := 2\<rparr>"

section \<open>Facts about one packet\<close>

lemma in_store_iff:
  "\<not> size_particles P \<le> i \<longleftrightarrow>
     i < length (momentum_x P) \<and> i < length (momentum_y P) \<and> i < length (momentum_z P)
     \<and> i < length (weight P) \<and> i < length (cell_keys P)"
  by (auto simp: size_particles_def not_le)

lemma set_particle_sel:
  "momentum_x (set_particle P i p w) = (momentum_x P)[i := fst p]"
  "momentum_y (set_particle P i p w) = (momentum_y P)[i := fst (snd p)]"
  "momentum_z (set_particle P i p w) = (momentum_z P)[i := snd (snd p)]"
  "weight (set_particle P i p w) = (weight P)[i := w]"
  "cell_keys (set_particle P i p w) = cell_keys P"
  by (simp_all add: set_particle_def split: prod.splits)

text \<open>The tagging loop writes \<open>cell_keys\<close> only.\<close>

lemma tag_removed_frame:
  "tag_removed sp first ipack ips P = Inr P' \<Longrightarrow>
     momentum_x P' = momentum_x P \<and> momentum_y P' = momentum_y P
     \<and> momentum_z P' = momentum_z P \<and> weight P' = weight P"
proof (induction ips arbitrary: P)
  case Nil
  then show ?case by simp
next
  case (Cons ip ips)
  then show ?case by (auto simp: Let_def split: if_splits)
qed

lemma packet_totals4:
  "packet_totals P [a, b, c, e] =
     \<lparr>total_weight = weight P ! a + weight P ! b + weight P ! c + weight P ! e,
      total_momentum =
        (momentum_x P ! a * weight P ! a + momentum_x P ! b * weight P ! b
           + momentum_x P ! c * weight P ! c + momentum_x P ! e * weight P ! e,
         momentum_y P ! a * weight P ! a + momentum_y P ! b * weight P ! b
           + momentum_y P ! c * weight P ! c + momentum_y P ! e * weight P ! e,
         momentum_z P ! a * weight P ! a + momentum_z P ! b * weight P ! b
           + momentum_z P ! c * weight P ! c + momentum_z P ! e * weight P ! e),
      total_energy =
        sqrt (1 + momentum_x P ! a * momentum_x P ! a + momentum_y P ! a * momentum_y P ! a
                + momentum_z P ! a * momentum_z P ! a)
        + sqrt (1 + momentum_x P ! b * momentum_x P ! b + momentum_y P ! b * momentum_y P ! b
                + momentum_z P ! b * momentum_z P ! b)
        + sqrt (1 + momentum_x P ! c * momentum_x P ! c + momentum_y P ! c * momentum_y P ! c
                + momentum_z P ! c * momentum_z P ! c)
        + sqrt (1 + momentum_x P ! e * momentum_x P ! e + momentum_y P ! e * momentum_y P ! e
                + momentum_z P ! e * momentum_z P ! e)\<rparr>"
  by (simp add: packet_totals_def add_particle_def totals0_def)

lemma totals_sel4:
  "total_weight (packet_totals P [a, b, c, e])
     = weight P ! a + weight P ! b + weight P ! c + weight P ! e"
  "fst (total_momentum (packet_totals P [a, b, c, e])) =
      momentum_x P ! a * weight P ! a + momentum_x P ! b * weight P ! b
           + momentum_x P ! c * weight P ! c + momentum_x P ! e * weight P ! e"
  "fst (snd (total_momentum (packet_totals P [a, b, c, e]))) =
      momentum_y P ! a * weight P ! a + momentum_y P ! b * weight P ! b
           + momentum_y P ! c * weight P ! c + momentum_y P ! e * weight P ! e"
  "snd (snd (total_momentum (packet_totals P [a, b, c, e]))) =
      momentum_z P ! a * weight P ! a + momentum_z P ! b * weight P ! b
           + momentum_z P ! c * weight P ! c + momentum_z P ! e * weight P ! e"
  by (simp_all add: packet_totals4)

lemma upt_packet: "[k * 4 ..< k * 4 + 4] = [k * 4, k * 4 + 1, k * 4 + 2, k * 4 + 3]"
  by (simp add: upt_rec)

lemma set_weight_sel:
  "momentum_x (set_weight P i w) = momentum_x P" "momentum_y (set_weight P i w) = momentum_y P"
  "momentum_z (set_weight P i w) = momentum_z P" "weight (set_weight P i w) = (weight P)[i := w]"
  "cell_keys (set_weight P i w) = cell_keys P"
  by (simp_all add: set_weight_def)

lemma packet_indices:
  "map (\<lambda>ip. sp ! (first + ip)) [ipack * 4 ..< ipack * 4 + 4]
     = [sp ! (first + ipack * 4), sp ! (first + ipack * 4 + 1),
        sp ! (first + ipack * 4 + 2), sp ! (first + ipack * 4 + 3)]"
  unfolding upt_packet by (simp add: add.assoc)

text \<open>To run a packet on given particles: when its merged momenta are numbers.\<close>

lemma merge_packet_eval:
  assumes "first + ipack * 4 + 4 \<le> length sp"
    and "i0 = sp ! (first + ipack * 4)" and "i1 = sp ! (first + ipack * 4 + 1)"
    and "i2 = sp ! (first + ipack * 4 + 2)" and "i3 = sp ! (first + ipack * 4 + 3)"
    and "i0 < size_particles P" "i1 < size_particles P"
    and "i2 < size_particles P" "i3 < size_particles P"
    and "packet_totals P [i0, i1, i2, i3] = t"
    and "merged_momenta t d = Inr (p1, p2)"
  shows "merge_packet sp d first ipack (P, []) =
           (case tag_removed sp first ipack [ipack * 4 + 2, ipack * 4 + 3]
                   (set_particle (set_particle P i0 p1 (0.5 * total_weight t))
                      i1 p2 (0.5 * total_weight t)) of
              Inl e \<Rightarrow> Inl e
            | Inr P' \<Rightarrow> Inr (P', []))"
proof -
  have a: "map (\<lambda>ip. sp ! (first + ip)) [ipack * 4 ..< ipack * 4 + 4] = [i0, i1, i2, i3]"
    unfolding packet_indices assms(2-5) ..
  show ?thesis
    unfolding merge_packet_def a Let_def using assms(1,6-11)
    by (simp add: assms(2,3) add.assoc del: tag_removed.simps)
qed

text \<open>And when they are not: the weights and the tags are written all the same.\<close>

lemma merge_packet_eval_not_numbers:
  assumes "first + ipack * 4 + 4 \<le> length sp"
    and "i0 = sp ! (first + ipack * 4)" and "i1 = sp ! (first + ipack * 4 + 1)"
    and "i2 = sp ! (first + ipack * 4 + 2)" and "i3 = sp ! (first + ipack * 4 + 3)"
    and "i0 < size_particles P" "i1 < size_particles P"
    and "i2 < size_particles P" "i3 < size_particles P"
    and "packet_totals P [i0, i1, i2, i3] = t"
    and "merged_momenta t d = Inl e"
  shows "merge_packet sp d first ipack (P, not_numbers) =
           (case tag_removed sp first ipack [ipack * 4 + 2, ipack * 4 + 3]
                   (set_weight (set_weight P i0 (0.5 * total_weight t))
                      i1 (0.5 * total_weight t)) of
              Inl e \<Rightarrow> Inl e
            | Inr P' \<Rightarrow> Inr (P', i1 # i0 # not_numbers))"
proof -
  have a: "map (\<lambda>ip. sp ! (first + ip)) [ipack * 4 ..< ipack * 4 + 4] = [i0, i1, i2, i3]"
    unfolding packet_indices assms(2-5) ..
  have m: "(if \<exists>ipart \<in> set [i0, i1, i2, i3]. ipart \<in> set not_numbers then Inl NonFinite
            else merged_momenta t d) = Inl (if \<exists>ipart \<in> set [i0, i1, i2, i3]. ipart \<in> set not_numbers
                                          then NonFinite else e)"
    using assms(11) by simp
  have b: "\<not> (\<exists>ipart \<in> set [i0, i1, i2, i3]. size_particles P \<le> ipart)"
    using assms(6-9) by simp
  have l: "\<not> length sp < first + ipack * 4 + 4"
    using assms(1) by simp
  show ?thesis
    unfolding merge_packet_def a Let_def prod.case if_not_P[OF l] if_not_P[OF b]
      assms(2,3)[symmetric] assms(10) m sum.case ..
qed

text \<open>The tags of a packet, when the two places read are in the vectors.\<close>

lemma tag_removed_two:
  assumes "first + ipack * 4 + a < length sp" and "first + ipack * 4 + b < length sp"
    and "sp ! (first + ipack * 4 + a) < length (cell_keys P)"
    and "sp ! (first + ipack * 4 + b) < length (cell_keys P)"
  shows "tag_removed sp first ipack [a, b] P =
           Inr (P\<lparr>cell_keys := (cell_keys P)[sp ! (first + ipack * 4 + a) := - 1,
                                               sp ! (first + ipack * 4 + b) := - 1]\<rparr>)"
  using assms by (simp add: Let_def)

text \<open>
  The weights that a packet writes: whatever its merged momenta are, each of its first two
  particles gets half the total weight.
\<close>

lemma merge_packet_weight:
  assumes "first + ipack * 4 + 4 \<le> length sp"
    and "i0 = sp ! (first + ipack * 4)" and "i1 = sp ! (first + ipack * 4 + 1)"
    and "i2 = sp ! (first + ipack * 4 + 2)" and "i3 = sp ! (first + ipack * 4 + 3)"
    and "i0 < size_particles P" "i1 < size_particles P"
    and "i2 < size_particles P" "i3 < size_particles P"
    and "first + ipack * 4 + (ipack * 4 + 3) < length sp"
    and "sp ! (first + ipack * 4 + (ipack * 4 + 2)) < length (cell_keys P)"
    and "sp ! (first + ipack * 4 + (ipack * 4 + 3)) < length (cell_keys P)"
  shows "\<exists>P' not_numbers'.
           merge_packet sp d first ipack (P, not_numbers) = Inr (P', not_numbers')
           \<and> weight P' = (weight P)[i0 := 0.5 * total_weight (packet_totals P [i0, i1, i2, i3]),
                                    i1 := 0.5 * total_weight (packet_totals P [i0, i1, i2, i3])]"
proof -
  define w where "w = 0.5 * total_weight (packet_totals P [i0, i1, i2, i3])"
  have a: "map (\<lambda>ip. sp ! (first + ip)) [ipack * 4 ..< ipack * 4 + 4] = [i0, i1, i2, i3]"
    unfolding packet_indices assms(2-5) ..
  have r: "first + ipack * 4 + (ipack * 4 + 2) < length sp"
    using assms(10) by simp
  have t: "tag_removed sp first ipack [ipack * 4 + 2, ipack * 4 + 3] Q =
             Inr (Q\<lparr>cell_keys := (cell_keys Q)[sp ! (first + ipack * 4 + (ipack * 4 + 2)) := - 1,
                                               sp ! (first + ipack * 4 + (ipack * 4 + 3)) := - 1]\<rparr>)"
    if "cell_keys Q = cell_keys P" for Q
    by (rule tag_removed_two) (use r assms(10-12) that in simp_all)
  have t1: "tag_removed sp first ipack [ipack * 4 + 2, ipack * 4 + 3]
              (set_particle (set_particle P i0 p1 w) i1 p2 w) =
             Inr ((set_particle (set_particle P i0 p1 w) i1 p2 w)
                   \<lparr>cell_keys := (cell_keys P)[sp ! (first + ipack * 4 + (ipack * 4 + 2)) := - 1,
                                               sp ! (first + ipack * 4 + (ipack * 4 + 3)) := - 1]\<rparr>)"
    for p1 p2
    using t[of "set_particle (set_particle P i0 p1 w) i1 p2 w"] by (simp add: set_particle_sel)
  have t2: "tag_removed sp first ipack [ipack * 4 + 2, ipack * 4 + 3]
              (set_weight (set_weight P i0 w) i1 w) =
             Inr ((set_weight (set_weight P i0 w) i1 w)
                   \<lparr>cell_keys := (cell_keys P)[sp ! (first + ipack * 4 + (ipack * 4 + 2)) := - 1,
                                               sp ! (first + ipack * 4 + (ipack * 4 + 3)) := - 1]\<rparr>)"
    using t[of "set_weight (set_weight P i0 w) i1 w"] by (simp add: set_weight_sel)
  have b: "\<not> (\<exists>ipart \<in> set [i0, i1, i2, i3]. size_particles P \<le> ipart)"
    using assms(6-9) by simp
  have l: "\<not> length sp < first + ipack * 4 + 4"
    using assms(1) by simp
  let ?m = "if \<exists>ipart \<in> set [i0, i1, i2, i3]. ipart \<in> set not_numbers then Inl NonFinite
            else merged_momenta (packet_totals P [i0, i1, i2, i3]) d"
  let ?keys = "(cell_keys P)[sp ! (first + ipack * 4 + (ipack * 4 + 2)) := - 1,
                             sp ! (first + ipack * 4 + (ipack * 4 + 3)) := - 1]"
  show ?thesis
  proof (cases ?m)
    case (Inl e)
    have "merge_packet sp d first ipack (P, not_numbers) =
            Inr ((set_weight (set_weight P i0 w) i1 w)\<lparr>cell_keys := ?keys\<rparr>,
                 i1 # i0 # not_numbers)"
      unfolding merge_packet_def a Let_def prod.case if_not_P[OF l] if_not_P[OF b]
        assms(2,3)[symmetric] w_def[symmetric] Inl sum.case t2 ..
    then show ?thesis
      unfolding w_def[symmetric] by (simp add: set_weight_sel)
  next
    case (Inr pp)
    obtain p1 p2 where pp: "pp = (p1, p2)" by (cases pp) auto
    have "merge_packet sp d first ipack (P, not_numbers) =
            Inr ((set_particle (set_particle P i0 p1 w) i1 p2 w)\<lparr>cell_keys := ?keys\<rparr>,
                 not_numbers)"
      unfolding merge_packet_def a Let_def prod.case if_not_P[OF l] if_not_P[OF b]
        assms(2,3)[symmetric] w_def[symmetric] Inr pp sum.case t1 ..
    then show ?thesis
      unfolding w_def[symmetric] by (simp add: set_particle_sel)
  qed
qed

text \<open>
  The two merged momenta, each with half the total weight, add up to the total momentum:
  the terms in \<open>sin omega\<close> cancel, and \<open>cos omega\<close> is the quotient of the two norms.
\<close>

lemma merged_momenta_sum:
  assumes "merged_momenta t d = Inr (p1, p2)"
  shows "0.5 * total_weight t * fst p1 + 0.5 * total_weight t * fst p2
           = fst (total_momentum t)"
    and "0.5 * total_weight t * fst (snd p1) + 0.5 * total_weight t * fst (snd p2)
           = fst (snd (total_momentum t))"
    and "0.5 * total_weight t * snd (snd p1) + 0.5 * total_weight t * snd (snd p2)
           = snd (snd (total_momentum t))"
proof -
  obtain tx ty tz where tm: "total_momentum t = (tx, ty, tz)"
    by (cases "total_momentum t") auto
  define w where "w = total_weight t"
  define pa where "pa = sqrt (total_energy t / w * (total_energy t / w) - 1)"
  define n where "n = sqrt (tx * tx + ty * ty + tz * tz)"
  define c where "c = n / (w * pa)"
  from assms have den: "w * pa \<noteq> 0" and c1: "- 1 \<le> c" "c \<le> 1" and n0: "n \<noteq> 0"
    unfolding merged_momenta_def tm w_def pa_def n_def c_def
    by (auto simp: Let_def split: if_splits prod.splits)
  obtain e2x e2y e2z where e2: "e2_of (tx / n, ty / n, tz / n) d = (e2x, e2y, e2z)"
    by (cases "e2_of (tx / n, ty / n, tz / n) d") auto
  from assms have p1: "p1 = (pa * (cos (arccos c) * (tx / n) + sin (arccos c) * e2x),
                        pa * (cos (arccos c) * (ty / n) + sin (arccos c) * e2y),
                        pa * (cos (arccos c) * (tz / n) + sin (arccos c) * e2z))"
    and p2: "p2 = (pa * (cos (arccos c) * (tx / n) - sin (arccos c) * e2x),
                        pa * (cos (arccos c) * (ty / n) - sin (arccos c) * e2y),
                        pa * (cos (arccos c) * (tz / n) - sin (arccos c) * e2z))"
    using e2 unfolding merged_momenta_def tm
    by (auto simp: Let_def pa_def n_def c_def w_def split: if_splits prod.splits)
  have cc: "cos (arccos c) = c" using c1 by (rule cos_arccos)
  have key: "w * pa * c = n" unfolding c_def using den by simp
  have "0.5 * w * (pa * (c * (u / n) + sin (arccos c) * v))
          + 0.5 * w * (pa * (c * (u / n) - sin (arccos c) * v)) = (w * pa * c) * (u / n)"
    for u v
    by (simp add: algebra_simps)
  then have *: "0.5 * w * (pa * (c * (u / n) + sin (arccos c) * v))
          + 0.5 * w * (pa * (c * (u / n) - sin (arccos c) * v)) = u" for u v
    using key n0 by simp
  show "0.5 * total_weight t * fst p1 + 0.5 * total_weight t * fst p2
          = fst (total_momentum t)"
    unfolding p1 p2 tm cc w_def[symmetric] using * by simp
  show "0.5 * total_weight t * fst (snd p1) + 0.5 * total_weight t * fst (snd p2)
          = fst (snd (total_momentum t))"
    unfolding p1 p2 tm cc w_def[symmetric] using * by simp
  show "0.5 * total_weight t * snd (snd p1) + 0.5 * total_weight t * snd (snd p2)
          = snd (snd (total_momentum t))"
    unfolding p1 p2 tm cc w_def[symmetric] using * by simp
qed

section \<open>The table of the cell directions\<close>

lemma foldl_update_nth:
  assumes "distinct (map f L)" and "x \<in> set L" and "f x < length tab"
  shows "foldl (\<lambda>tab y. tab[f y := g y]) tab L ! f x = g x"
  using assms
proof (induction L arbitrary: x rule: rev_induct)
  case Nil
  then show ?case by simp
next
  case (snoc y L)
  have len: "length (foldl (\<lambda>tab y. tab[f y := g y]) tab L) = length tab"
    by (induction L arbitrary: tab) simp_all
  show ?case
  proof (cases "x = y")
    case True
    then show ?thesis using snoc.prems(3) by (simp add: len)
  next
    case False
    with snoc.prems have "x \<in> set L" and "distinct (map f L)"
      by auto
    moreover from snoc.prems(1) \<open>x \<in> set L\<close> have "f x \<noteq> f y"
      by (auto simp: image_iff)
    ultimately have "x \<in> set L" and "f x \<noteq> f y" and "distinct (map f L)"
      by auto
    then show ?thesis
      using snoc.IH[of x] snoc.prems(3) by simp
  qed
qed

lemma cell_index_inj:
  "inj_on (\<lambda>(theta_i, phi_i). theta_i * d2 + phi_i) (set (List.product [0 ..< d1] [0 ..< d2]))"
proof (rule inj_onI)
  fix x y
  assume x: "x \<in> set (List.product [0 ..< d1] [0 ..< d2])"
    and y: "y \<in> set (List.product [0 ..< d1] [0 ..< d2])"
    and e: "(case x of (theta_i, phi_i) \<Rightarrow> theta_i * d2 + phi_i)
            = (case y of (theta_i, phi_i) \<Rightarrow> theta_i * d2 + phi_i)"
  obtain a b where xa: "x = (a, b)" by (cases x) auto
  obtain c e' where yc: "y = (c, e')" by (cases y) auto
  from x y have b: "b < d2" and e2: "e' < d2" by (auto simp: xa yc)
  from e have eq: "a * d2 + b = c * d2 + e'" by (simp add: xa yc)
  from eq b e2 have "(a * d2 + b) div d2 = (c * d2 + e') div d2" by simp
  with b e2 have "a = c" by simp
  with eq show "x = y" by (simp add: xa yc)
qed

lemma cell_vec_nth:
  assumes "theta_i < d1" and "phi_i < d2" and "theta_i * d2 + phi_i < len"
  shows "cell_vec len (d0, d1, d2) b s ! (theta_i * d2 + phi_i) = cell_direction b s theta_i phi_i"
proof -
  let ?f = "\<lambda>(theta_i, phi_i). theta_i * d2 + phi_i"
  let ?g = "\<lambda>(theta_i, phi_i). cell_direction b s theta_i phi_i"
  let ?L = "List.product [0 ..< d1] [0 ..< d2]"
  have c: "cell_vec len (d0, d1, d2) b s
             = foldl (\<lambda>tab y. tab[?f y := ?g y]) (replicate len (0, 0, 0)) ?L"
  proof -
    have "(\<lambda>tab (theta_i, phi_i). tab[theta_i * d2 + phi_i := cell_direction b s theta_i phi_i])
            = (\<lambda>tab y. tab[?f y := ?g y])"
      by (auto simp: fun_eq_iff)
    then show ?thesis
      by (simp add: cell_vec_def)
  qed
  have d: "distinct (map ?f ?L)"
    using cell_index_inj[of d2 d1] by (simp add: distinct_map distinct_product)
  have m: "(theta_i, phi_i) \<in> set ?L"
    using assms by simp
  have "foldl (\<lambda>tab y. tab[?f y := ?g y]) (replicate len (0, 0, 0)) ?L ! ?f (theta_i, phi_i)
          = ?g (theta_i, phi_i)"
    using d m by (rule foldl_update_nth) (use assms in simp)
  then show ?thesis
    unfolding c by simp
qed



section \<open>Running the merger\<close>

lemma sqrt_9_16: "sqrt (9 / 16) = 3 / 4"
  by (rule real_sqrt_unique) (simp_all add: power2_eq_square)

lemma sqrt_25_16: "sqrt (25 / 16) = 5 / 4"
  by (rule real_sqrt_unique) (simp_all add: power2_eq_square)

lemma floor_quotients: "\<lfloor>100 / 101 :: real\<rfloor> = 0" "\<lfloor>500 / 101 :: real\<rfloor> = 4"
  by (simp_all add: floor_eq_iff)

lemma length_cell_vec_fold:
  "length (foldl (\<lambda>tab (theta_i, phi_i). tab[f theta_i phi_i := g theta_i phi_i]) tab0 L)
     = length tab0"
  by (induction L arbitrary: tab0) (auto split: prod.splits)

lemma length_cell_vec: "length (cell_vec len dims b s) = len"
  by (simp add: cell_vec_def length_cell_vec_fold split: prod.splits)

text \<open>Momentum cells of fewer than four particles are left alone.\<close>

lemma cells_loop_skip:
  assumes "\<forall>(mr_i, theta_i, phi_i) \<in> set cells.
             theta_i * d2 + phi_i < length cv
             \<and> mr_i * mac + (theta_i * d2 + phi_i) < length (particles_per_momentum_cells srt)
             \<and> mr_i * mac + (theta_i * d2 + phi_i) < length (momentum_cell_particle_index srt)
             \<and> particles_per_momentum_cells srt ! (mr_i * mac + (theta_i * d2 + phi_i)) < 4"
  shows "cells_loop srt cv mac d2 cells st = Inr st"
  using assms by (induction cells) (auto simp: Let_def)

text \<open>The steps of a call, put together.\<close>

lemma merge_range_eval:
  assumes "first_bounds P istart (iend - istart) = Inr b0"
    and "bounds_loop P istart [istart + 1 ..< iend] b0 = Inr b1"
    and "collapse (5, 5, 5) (deltas (5, 5, 5) (inflate b1)) = (dims, s)"
    and "momentum_cell_index P istart dims (inflate b1) s [istart ..< iend] = Inr ics"
    and "counting_sort 125 istart (iend - istart) ics = Inr srt"
    and "cells_loop srt (cell_vec 25 dims (inflate b1) s) 25 (snd (snd dims)) (cells_of dims)
           (P, []) = Inr (P', not_numbers)"
  shows "merge_range M P istart iend = Inr (M\<lparr>dimensions := dims\<rparr>, P', not_numbers)"
  unfolding merge_range_def using assms by (simp add: Let_def)

lemma cells_555: "cells_of (5, 5, 5) = (0, 0, 0) # tl (cells_of (5, 5, 5))"
  by code_simp

subsection \<open>The six particles\<close>

lemma six_norms:
  assumes "momentum_x P = [3 / 4, 3 / 4, 3 / 4, 3 / 4, 0, 0]"
    and "momentum_y P = [0, 0, 0, 0, 1, 0]"
    and "momentum_z P = [0, 0, 0, 0, 0, 2]"
  shows "momentum_norm P 0 = 3 / 4" "momentum_norm P 1 = 3 / 4" "momentum_norm P 2 = 3 / 4"
    "momentum_norm P 3 = 3 / 4" "momentum_norm P 4 = 1" "momentum_norm P 5 = 2"
    "momentum_norm P (Suc 0) = 3 / 4"
  by (simp_all add: momentum_norm_def assms sqrt_9_16)

lemma six_first_bounds:
  assumes "momentum_x P = [3 / 4, 3 / 4, 3 / 4, 3 / 4, 0, 0]"
    and "momentum_y P = [0, 0, 0, 0, 1, 0]"
    and "momentum_z P = [0, 0, 0, 0, 0, 2]"
  shows "first_bounds P 0 (6 - 0) =
           Inr \<lparr>mr_min = 3 / 4, mr_max = 3 / 4, theta_min = 0, theta_max = 0,
                phi_min = 0, phi_max = 0,
                particles_theta = [0, 0, 0, 0, 0, 0],
                particles_phi = [0, 0, 0, 0, 0, 0]\<rparr>"
  by (simp add: first_bounds_def six_norms[OF assms] assms atan2_def Let_def numeral_eq_Suc)

lemma six_bounds_loop:
  assumes "momentum_x P = [3 / 4, 3 / 4, 3 / 4, 3 / 4, 0, 0]"
    and "momentum_y P = [0, 0, 0, 0, 1, 0]"
    and "momentum_z P = [0, 0, 0, 0, 0, 2]"
  shows "bounds_loop P 0 [0 + 1 ..< 6]
           \<lparr>mr_min = 3 / 4, mr_max = 3 / 4, theta_min = 0, theta_max = 0,
            phi_min = 0, phi_max = 0,
            particles_theta = [0, 0, 0, 0, 0, 0],
            particles_phi = [0, 0, 0, 0, 0, 0]\<rparr> = Inr six_bounds"
proof -
  have u: "[0 + 1 ..< 6] = [1, 2, 3, 4, 5]"
    by (simp add: upt_rec)
  show ?thesis
    unfolding u
    by (simp add: six_norms[OF assms] assms atan2_def Let_def six_bounds_def cong: let_weak_cong)
qed

lemma six_collapse:
  "collapse (5, 5, 5) (deltas (5, 5, 5) (inflate six_bounds)) = ((5, 5, 5), six_steps)"
proof -
  have "deltas (5, 5, 5) (inflate six_bounds) = six_steps"
    by (simp add: deltas_def inflate_def six_bounds_def six_steps_def)
  then show ?thesis
    using pi_ge_two by (simp add: collapse_def six_steps_def)
qed

lemma six_cells:
  assumes "momentum_x P = [3 / 4, 3 / 4, 3 / 4, 3 / 4, 0, 0]"
    and "momentum_y P = [0, 0, 0, 0, 1, 0]"
    and "momentum_z P = [0, 0, 0, 0, 0, 2]"
  shows "momentum_cell_index P 0 (5, 5, 5) (inflate six_bounds) six_steps [0 ..< 6]
           = Inr [0, 0, 0, 0, 20, 104]"
proof -
  have u: "[0 ..< 6] = [0, 1, 2, 3, 4, 5]"
    by (simp add: upt_rec)
  have "cell_of_particle P 0 (5, 5, 5) (inflate six_bounds) six_steps 0 = Inr 0"
    "cell_of_particle P 0 (5, 5, 5) (inflate six_bounds) six_steps (Suc 0) = Inr 0"
    "cell_of_particle P 0 (5, 5, 5) (inflate six_bounds) six_steps 2 = Inr 0"
    "cell_of_particle P 0 (5, 5, 5) (inflate six_bounds) six_steps 3 = Inr 0"
    "cell_of_particle P 0 (5, 5, 5) (inflate six_bounds) six_steps 4 = Inr 20"
    "cell_of_particle P 0 (5, 5, 5) (inflate six_bounds) six_steps 5 = Inr 104"
    using pi_ge_two
    by (simp_all add: cell_of_particle_def six_steps_def inflate_def six_bounds_def
        six_norms[OF assms] to_uint_def floor_quotients)
  then show ?thesis
    unfolding u by simp
qed

lemma six_counting_sort: "counting_sort 125 0 (6 - 0) [0, 0, 0, 0, 20, 104] = Inr six_sorting"
proof -
  have "counting_sort 125 0 6 [0, 0, 0, 0, 20, 104] =
     Inr \<lparr>sorted_particles = [0, 1, 2, 3, 4, 5],
          momentum_cell_particle_index = 0 # replicate 20 4 @ replicate 84 5 @ replicate 20 6,
          particles_per_momentum_cells = (replicate 125 0)[0 := 4, 20 := 1, 104 := 1]\<rparr>"
    by code_simp
  then show ?thesis
    by (simp add: six_sorting_def)
qed

lemma six_sorting_sel:
  "sorted_particles six_sorting = [0, 1, 2, 3, 4, 5]"
  "length (particles_per_momentum_cells six_sorting) = 125"
  "length (momentum_cell_particle_index six_sorting) = 125"
  "particles_per_momentum_cells six_sorting ! 0 = 4"
  "momentum_cell_particle_index six_sorting ! 0 = 0"
  by (simp_all add: six_sorting_def)

lemma six_skip:
  assumes "length cv = 25"
  shows "cells_loop six_sorting cv 25 5 (tl (cells_of (5, 5, 5))) st = Inr st"
proof -
  have "list_all (\<lambda>(mr_i, theta_i, phi_i).
             theta_i * 5 + phi_i < 25
             \<and> mr_i * 25 + (theta_i * 5 + phi_i) < length (particles_per_momentum_cells six_sorting)
             \<and> mr_i * 25 + (theta_i * 5 + phi_i) < length (momentum_cell_particle_index six_sorting)
             \<and> particles_per_momentum_cells six_sorting ! (mr_i * 25 + (theta_i * 5 + phi_i)) < 4)
     (tl (cells_of (5, 5, 5)))"
    by code_simp
  then show ?thesis
    using assms by (intro cells_loop_skip) (simp add: list_all_iff)
qed

text \<open>
  The packet of the four particles of momentum \<open>(3/4, 0, 0)\<close> and weight 1: the two norms
  agree, \<open>omega\<close> is 0 and the direction of the cell plays no part.
\<close>

lemma unit_totals_merged:
  "merged_momenta \<lparr>total_weight = 4, total_momentum = (3, 0, 0), total_energy = 5\<rparr> d
     = Inr ((3 / 4, 0, 0), (3 / 4, 0, 0))"
  by (simp add: merged_momenta_def Let_def sqrt_9_16 e2_of_def split: prod.splits)

lemma six_size: "size_particles six_particles = 6"
  by (simp add: size_particles_def six_particles_def)

lemma six_packet:
  "merge_packet [0, 1, 2, 3, 4, 5] d 0 0 (six_particles, []) = Inr (six_merged, [])"
proof -
  have t: "packet_totals six_particles [0, 1, 2, 3]
             = \<lparr>total_weight = 4, total_momentum = (3, 0, 0), total_energy = 5\<rparr>"
    by (simp add: packet_totals_def add_particle_def totals0_def six_particles_def sqrt_25_16)
  have "merge_packet [0, 1, 2, 3, 4, 5] d 0 0 (six_particles, []) =
          (case tag_removed [0, 1, 2, 3, 4, 5] 0 0 [0 * 4 + 2, 0 * 4 + 3]
            (set_particle (set_particle six_particles 0 (3 / 4, 0, 0)
                (0.5 * total_weight \<lparr>total_weight = 4, total_momentum = (3, 0, 0), total_energy = 5\<rparr>))
               1 (3 / 4, 0, 0)
               (0.5 * total_weight \<lparr>total_weight = 4, total_momentum = (3, 0, 0), total_energy = 5\<rparr>)) of
             Inl e \<Rightarrow> Inl e | Inr P' \<Rightarrow> Inr (P', []))"
    by (rule merge_packet_eval[where ?i2.0 = 2 and ?i3.0 = 3, OF _ _ _ _ _ _ _ _ _ t unit_totals_merged])
      (simp_all add: six_size)
  then show ?thesis
    by (simp add: set_particle_def six_particles_def six_merged_def)
qed

lemma six_cells_loop:
  assumes "length cv = 25"
  shows "cells_loop six_sorting cv 25 (snd (snd (5, 5, 5))) (cells_of (5, 5, 5))
           (six_particles, []) = Inr (six_merged, [])"
  by (subst cells_555) (simp add: six_sorting_sel six_packet[simplified] six_skip[OF assms] assms)

lemma six_merge_range:
  "merge_range M six_particles 0 6 = Inr (M\<lparr>dimensions := (5, 5, 5)\<rparr>, six_merged, [])"
proof -
  have m: "momentum_x six_particles = [3 / 4, 3 / 4, 3 / 4, 3 / 4, 0, 0]"
    "momentum_y six_particles = [0, 0, 0, 0, 1, 0]"
    "momentum_z six_particles = [0, 0, 0, 0, 0, 2]"
    by (simp_all add: six_particles_def)
  show ?thesis
    by (rule merge_range_eval[OF six_first_bounds[OF m] six_bounds_loop[OF m] six_collapse
          six_cells[OF m] six_counting_sort six_cells_loop[OF length_cell_vec]])
qed

lemma six_run:
  "MergingVranic merging4 six_particles 0 6
     = Inr (merging4\<lparr>dimensions := (5, 5, 5)\<rparr>, six_merged, [])"
  by (simp add: MergingVranic_def merging4_def six_merge_range six_size)

subsection \<open>The five identical particles\<close>

lemma five_sel:
  "momentum_x five_identical = [3 / 4, 3 / 4, 3 / 4, 3 / 4, 3 / 4]"
  "momentum_y five_identical = [0, 0, 0, 0, 0]"
  "momentum_z five_identical = [0, 0, 0, 0, 0]"
  by (simp_all add: five_identical_def)

lemma five_size: "size_particles five_identical = 5"
  by (simp add: size_particles_def five_identical_def)

lemma five_norms:
  "momentum_norm five_identical 0 = 3 / 4" "momentum_norm five_identical 1 = 3 / 4"
  "momentum_norm five_identical 2 = 3 / 4" "momentum_norm five_identical 3 = 3 / 4"
  "momentum_norm five_identical 4 = 3 / 4" "momentum_norm five_identical (Suc 0) = 3 / 4"
  by (simp_all add: momentum_norm_def five_sel sqrt_9_16)

lemma five_first_bounds: "first_bounds five_identical 0 (5 - 0) = Inr five_bounds"
  by (simp add: first_bounds_def five_norms five_sel atan2_def Let_def numeral_eq_Suc
      five_bounds_def)

lemma five_bounds_loop: "bounds_loop five_identical 0 [0 + 1 ..< 5] five_bounds = Inr five_bounds"
proof -
  have u: "[0 + 1 ..< 5] = [1, 2, 3, 4]"
    by (simp add: upt_rec)
  show ?thesis
    unfolding u
    by (simp add: five_norms five_sel atan2_def Let_def five_bounds_def cong: let_weak_cong)
qed

lemma five_collapse:
  "collapse (5, 5, 5) (deltas (5, 5, 5) (inflate five_bounds))
     = ((1, 1, 1), \<lparr>mr_delta = 0, theta_delta = 0, phi_delta = 0\<rparr>)"
  by (simp add: collapse_def deltas_def inflate_def five_bounds_def)

lemma five_cells:
  "momentum_cell_index five_identical 0 (1, 1, 1) (inflate five_bounds)
     \<lparr>mr_delta = 0, theta_delta = 0, phi_delta = 0\<rparr> [0 ..< 5] = Inl NonFinite"
  by (simp add: upt_rec cell_of_particle_def)

lemma five_merge_range: "merge_range M five_identical 0 5 = Inl NonFinite"
  unfolding merge_range_def
  using five_first_bounds five_bounds_loop five_collapse five_cells
  by (simp add: Let_def)

lemma five_run: "MergingVranic merging4 five_identical 0 5 = Inl NonFinite"
  by (simp add: MergingVranic_def merging4_def five_merge_range five_size)

subsection \<open>A collapsed direction\<close>

text \<open>
  Whatever the particles, once a direction has been collapsed its step is 0 and no particle
  has a momentum cell.
\<close>

lemma collapse_zero_step:
  assumes "collapse (5, 5, 5) st = (dims, s)" and "dims \<noteq> (5, 5, 5)"
  shows "mr_delta s = 0 \<or> theta_delta s = 0 \<or> phi_delta s = 0"
  using assms by (auto simp: collapse_def split: if_splits)

lemma collapsed_direction_is_undefined:
  assumes "first_bounds P istart (iend - istart) = Inr b0"
    and "bounds_loop P istart [istart + 1 ..< iend] b0 = Inr b1"
    and "collapse (5, 5, 5) (deltas (5, 5, 5) (inflate b1)) = (dims, s)"
    and "dims \<noteq> (5, 5, 5)"
    and "istart < iend"
  shows "merge_range M P istart iend = Inl NonFinite"
proof -
  have z: "mr_delta s = 0 \<or> theta_delta s = 0 \<or> phi_delta s = 0"
    using assms(3,4) by (rule collapse_zero_step)
  then have c: "cell_of_particle P istart dims (inflate b1) s ipart = Inl NonFinite" for ipart
    by (simp add: cell_of_particle_def split: prod.splits)
  have "[istart ..< iend] = istart # [Suc istart ..< iend]"
    using assms(5) by (rule upt_conv_Cons)
  then have "momentum_cell_index P istart dims (inflate b1) s [istart ..< iend] = Inl NonFinite"
    by (simp add: c)
  then show ?thesis
    unfolding merge_range_def using assms(1-3) by (simp add: Let_def)
qed

section \<open>The merger and the keys on entry\<close>

lemma sbk_size: "same_but_keys P Q \<Longrightarrow> size_particles P = size_particles Q"
  by (simp add: same_but_keys_def size_particles_def)

lemma sbk_norm: "same_but_keys P Q \<Longrightarrow> momentum_norm P = momentum_norm Q"
  by (intro ext) (simp add: same_but_keys_def momentum_norm_def)

lemma sbk_first_bounds:
  assumes "same_but_keys P Q"
  shows "first_bounds P i n = first_bounds Q i n"
proof -
  from assms have m: "momentum_x P = momentum_x Q" "momentum_y P = momentum_y Q"
    "momentum_z P = momentum_z Q"
    by (simp_all add: same_but_keys_def)
  show ?thesis
    unfolding first_bounds_def sbk_norm[OF assms] m ..
qed

lemma sbk_bounds_loop:
  assumes "same_but_keys P Q"
  shows "bounds_loop P i L b = bounds_loop Q i L b"
proof (induction L arbitrary: b)
  case Nil
  then show ?case by simp
next
  case (Cons ipart L)
  from assms have m: "momentum_x P = momentum_x Q" "momentum_y P = momentum_y Q"
    "momentum_z P = momentum_z Q"
    by (simp_all add: same_but_keys_def)
  show ?case
    unfolding bounds_loop.simps sbk_norm[OF assms] m Cons.IH ..
qed

lemma sbk_cell:
  assumes "same_but_keys P Q"
  shows "cell_of_particle P i dims b s ipart = cell_of_particle Q i dims b s ipart"
  unfolding cell_of_particle_def sbk_norm[OF assms] ..

lemma sbk_cells:
  assumes "same_but_keys P Q"
  shows "momentum_cell_index P i dims b s L = momentum_cell_index Q i dims b s L"
  by (induction L) (simp_all add: sbk_cell[OF assms] cong: sum.case_cong)

lemma sbk_totals:
  assumes "same_but_keys P Q"
  shows "packet_totals P L = packet_totals Q L"
proof -
  from assms have "add_particle P = add_particle Q"
    by (intro ext) (simp add: add_particle_def same_but_keys_def)
  then show ?thesis by (simp add: packet_totals_def)
qed

lemma sbk_set:
  "same_but_keys P Q \<Longrightarrow> same_but_keys (set_particle P i p w) (set_particle Q i p w)"
  by (simp add: same_but_keys_def set_particle_sel)

lemma sbk_tag:
  "same_but_keys P Q \<Longrightarrow>
     rel_sum (=) same_but_keys
       (tag_removed sp first ipack ips P) (tag_removed sp first ipack ips Q)"
proof (induction ips arbitrary: P Q)
  case Nil
  then show ?case by simp
next
  case (Cons ip ips)
  have l: "length (cell_keys P) = length (cell_keys Q)"
    using Cons.prems by (simp add: same_but_keys_def)
  have "same_but_keys (P\<lparr>cell_keys := (cell_keys P)[i := - 1]\<rparr>)
          (Q\<lparr>cell_keys := (cell_keys Q)[i := - 1]\<rparr>)" for i
    using Cons.prems by (simp add: same_but_keys_def)
  then show ?case
    by (simp add: l Let_def Cons.IH)
qed

lemma sbk_set_weight:
  "same_but_keys P Q \<Longrightarrow> same_but_keys (set_weight P i w) (set_weight Q i w)"
  by (simp add: same_but_keys_def set_weight_sel)

lemma sbk_tagged:
  assumes "same_but_keys P Q"
  shows "rel_sum (=) (\<lambda>(P1, n1) (P2, n2). same_but_keys P1 P2 \<and> n1 = n2)
           (case tag_removed sp first ipack ips P of Inl e \<Rightarrow> Inl e | Inr P' \<Rightarrow> Inr (P', nn))
           (case tag_removed sp first ipack ips Q of Inl e \<Rightarrow> Inl e | Inr P' \<Rightarrow> Inr (P', nn))"
  using sbk_tag[OF assms, of sp first ipack ips]
  by (cases rule: rel_sum.cases) simp_all

lemma sbk_packet:
  assumes "same_but_keys P Q"
  shows "rel_sum (=) (\<lambda>(P1, n1) (P2, n2). same_but_keys P1 P2 \<and> n1 = n2)
           (merge_packet sp d first ipack (P, nn)) (merge_packet sp d first ipack (Q, nn))"
proof -
  let ?R = "rel_sum (=) (\<lambda>(P1, n1) (P2, n2). same_but_keys P1 P2 \<and> n1 = n2)"
  have ifs: "?R (if c then Inl e else x) (if c then Inl e else y)" if "?R x y" for c e x y
    using that by simp
  have step:
    "?R (case (case m of
                 Inr (p1, p2) \<Rightarrow> (set_particle (set_particle P i0 p1 w) i1 p2 w, nn)
               | Inl e \<Rightarrow> (set_weight (set_weight P i0 w) i1 w, i1 # i0 # nn)) of
           (P2, n2) \<Rightarrow>
             (case tag_removed sp first ipack ips P2 of Inl e \<Rightarrow> Inl e | Inr P' \<Rightarrow> Inr (P', n2)))
        (case (case m of
                 Inr (p1, p2) \<Rightarrow> (set_particle (set_particle Q i0 p1 w) i1 p2 w, nn)
               | Inl e \<Rightarrow> (set_weight (set_weight Q i0 w) i1 w, i1 # i0 # nn)) of
           (P2, n2) \<Rightarrow>
             (case tag_removed sp first ipack ips P2 of Inl e \<Rightarrow> Inl e | Inr P' \<Rightarrow> Inr (P', n2)))"
    for m :: "failure + vec3 \<times> vec3" and i0 i1 w ips
  proof (cases m)
    case (Inl e)
    show ?thesis
      unfolding Inl sum.case prod.case by (intro sbk_tagged sbk_set_weight assms)
  next
    case (Inr pp)
    obtain p1 p2 where pp: "pp = (p1, p2)" by (cases pp) auto
    show ?thesis
      unfolding Inr pp sum.case prod.case by (intro sbk_tagged sbk_set assms)
  qed
  show ?thesis
    unfolding merge_packet_def Let_def prod.case sbk_size[OF assms] sbk_totals[OF assms]
    by (intro ifs step)
qed

lemma sbk_packets:
  "same_but_keys P Q \<Longrightarrow>
     rel_sum (=) (\<lambda>(P1, n1) (P2, n2). same_but_keys P1 P2 \<and> n1 = n2)
       (packets_loop sp d first L (P, nn)) (packets_loop sp d first L (Q, nn))"
proof (induction L arbitrary: P Q nn)
  case Nil
  then show ?case by simp
next
  case (Cons ipack L)
  from sbk_packet[OF Cons.prems, of sp d first ipack nn] show ?case
    by (cases rule: rel_sum.cases) (auto simp: Cons.IH)
qed

lemma sbk_cells_loop:
  "same_but_keys P Q \<Longrightarrow>
     rel_sum (=) (\<lambda>(P1, n1) (P2, n2). same_but_keys P1 P2 \<and> n1 = n2)
       (cells_loop srt cv mac d2 L (P, nn)) (cells_loop srt cv mac d2 L (Q, nn))"
proof (induction L arbitrary: P Q nn)
  case Nil
  then show ?case by simp
next
  case (Cons c L)
  obtain mr_i theta_i phi_i where c: "c = (mr_i, theta_i, phi_i)" by (cases c) auto
  show ?case
  proof (cases "4 \<le> particles_per_momentum_cells srt ! (mr_i * mac + (theta_i * d2 + phi_i))")
    case True
    from sbk_packets[OF Cons.prems, of "sorted_particles srt" "cv ! (theta_i * d2 + phi_i)"
        "momentum_cell_particle_index srt ! (mr_i * mac + (theta_i * d2 + phi_i))"
        "[0 ..< particles_per_momentum_cells srt ! (mr_i * mac + (theta_i * d2 + phi_i)) div 4]" nn]
    show ?thesis
      by (cases rule: rel_sum.cases) (auto simp: c Let_def True Cons.IH)
  next
    case False
    then show ?thesis
      by (simp add: c Let_def Cons.IH[OF Cons.prems])
  qed
qed

lemma sbk_merge_range:
  assumes "same_but_keys P Q"
  shows "rel_sum (=) (\<lambda>(M1, P1, n1) (M2, P2, n2). M1 = M2 \<and> same_but_keys P1 P2 \<and> n1 = n2)
           (merge_range M P istart iend) (merge_range M Q istart iend)"
proof -
  let ?R = "rel_sum (=)
              (\<lambda>(M1, P1, n1) (M2 :: merging, P2, n2 :: nat list).
                 M1 = M2 \<and> same_but_keys P1 P2 \<and> n1 = n2)"
  have *: "?R (case cells_loop srt cv mac d2 L (P, []) of
                Inl e \<Rightarrow> Inl e | Inr (P', nn) \<Rightarrow> Inr (M', P', nn))
             (case cells_loop srt cv mac d2 L (Q, []) of
                Inl e \<Rightarrow> Inl e | Inr (P', nn) \<Rightarrow> Inr (M', P', nn))"
    for srt cv mac d2 L and M' :: merging
    using sbk_cells_loop[OF assms, of srt cv mac d2 L "[]"]
    by (cases rule: rel_sum.cases) auto
  have cs: "?R (case x of Inl e \<Rightarrow> Inl e | Inr v \<Rightarrow> f v) (case x of Inl e \<Rightarrow> Inl e | Inr v \<Rightarrow> g v)"
    if "\<And>v. ?R (f v) (g v)" for x :: "failure + 'v" and f g
    using that by (cases x) simp_all
  have cp: "?R (case x of (a, b) \<Rightarrow> f a b) (case x of (a, b) \<Rightarrow> g a b)"
    if "\<And>a b. ?R (f a b) (g a b)" for x :: "'u \<times> 'v" and f g
    using that by (cases x) simp
  show ?thesis
    unfolding merge_range_def Let_def sbk_first_bounds[OF assms] sbk_bounds_loop[OF assms]
      sbk_cells[OF assms]
    by (intro cs cp *)
qed

lemma merge_range_dimensions:
  "merge_range (M\<lparr>dimensions := d\<rparr>) P istart iend = merge_range M P istart iend"
  by (simp add: merge_range_def)

subsection \<open>The twelve particles\<close>

lemma twelve_sel:
  "momentum_x twelve_particles = [3 / 4, 3 / 4, 3 / 4, 3 / 4, 3 / 4, 3 / 4, 3 / 4, 3 / 4, 0, 0, 0, 0]"
  "momentum_y twelve_particles = [0, 0, 0, 0, 0, 0, 0, 0, 1, 1, 0, 0]"
  "momentum_z twelve_particles = [0, 0, 0, 0, 0, 0, 0, 0, 0, 0, 2, 2]"
  by (simp_all add: twelve_particles_def)

lemma twelve_size: "size_particles twelve_particles = 12"
  by (simp add: size_particles_def twelve_particles_def)

lemma twelve_norms:
  "momentum_norm twelve_particles 0 = 3 / 4" "momentum_norm twelve_particles 1 = 3 / 4"
  "momentum_norm twelve_particles (Suc 0) = 3 / 4"
  "momentum_norm twelve_particles 2 = 3 / 4" "momentum_norm twelve_particles 3 = 3 / 4"
  "momentum_norm twelve_particles 4 = 3 / 4" "momentum_norm twelve_particles 5 = 3 / 4"
  "momentum_norm twelve_particles 6 = 3 / 4" "momentum_norm twelve_particles 7 = 3 / 4"
  "momentum_norm twelve_particles 8 = 1" "momentum_norm twelve_particles 9 = 1"
  "momentum_norm twelve_particles 10 = 2" "momentum_norm twelve_particles 11 = 2"
  by (simp_all add: momentum_norm_def twelve_sel sqrt_9_16)

lemma twelve_first_bounds:
  "first_bounds twelve_particles 0 (12 - 0) =
           Inr \<lparr>mr_min = 3 / 4, mr_max = 3 / 4, theta_min = 0, theta_max = 0,
                phi_min = 0, phi_max = 0,
                particles_theta = [0, 0, 0, 0, 0, 0, 0, 0, 0, 0, 0, 0],
                particles_phi = [0, 0, 0, 0, 0, 0, 0, 0, 0, 0, 0, 0]\<rparr>"
  by (simp add: first_bounds_def twelve_norms twelve_sel atan2_def Let_def numeral_eq_Suc)

lemma twelve_bounds_loop:
  "bounds_loop twelve_particles 0 [0 + 1 ..< 12]
           \<lparr>mr_min = 3 / 4, mr_max = 3 / 4, theta_min = 0, theta_max = 0,
                phi_min = 0, phi_max = 0,
                particles_theta = [0, 0, 0, 0, 0, 0, 0, 0, 0, 0, 0, 0],
                particles_phi = [0, 0, 0, 0, 0, 0, 0, 0, 0, 0, 0, 0]\<rparr> = Inr twelve_bounds"
proof -
  have u: "[0 + 1 ..< 12] = [1, 2, 3, 4, 5, 6, 7, 8, 9, 10, 11]"
    by (simp add: upt_rec)
  show ?thesis
    unfolding u
    by (simp add: twelve_norms twelve_sel atan2_def Let_def twelve_bounds_def cong: let_weak_cong)
qed

lemma twelve_collapse:
  "collapse (5, 5, 5) (deltas (5, 5, 5) (inflate twelve_bounds)) = ((5, 5, 5), six_steps)"
proof -
  have "deltas (5, 5, 5) (inflate twelve_bounds) = six_steps"
    by (simp add: deltas_def inflate_def twelve_bounds_def six_steps_def)
  then show ?thesis
    using pi_ge_two by (simp add: collapse_def six_steps_def)
qed

lemma twelve_cells:
  "momentum_cell_index twelve_particles 0 (5, 5, 5) (inflate twelve_bounds) six_steps [0 ..< 12]
           = Inr [0, 0, 0, 0, 0, 0, 0, 0, 20, 20, 104, 104]"
proof -
  have u: "[0 ..< 12] = [0, 1, 2, 3, 4, 5, 6, 7, 8, 9, 10, 11]"
    by (simp add: upt_rec)
  have "cell_of_particle twelve_particles 0 (5, 5, 5) (inflate twelve_bounds) six_steps 0 = Inr 0"
    "cell_of_particle twelve_particles 0 (5, 5, 5) (inflate twelve_bounds) six_steps (Suc 0) = Inr 0"
    "cell_of_particle twelve_particles 0 (5, 5, 5) (inflate twelve_bounds) six_steps 2 = Inr 0"
    "cell_of_particle twelve_particles 0 (5, 5, 5) (inflate twelve_bounds) six_steps 3 = Inr 0"
    "cell_of_particle twelve_particles 0 (5, 5, 5) (inflate twelve_bounds) six_steps 4 = Inr 0"
    "cell_of_particle twelve_particles 0 (5, 5, 5) (inflate twelve_bounds) six_steps 5 = Inr 0"
    "cell_of_particle twelve_particles 0 (5, 5, 5) (inflate twelve_bounds) six_steps 6 = Inr 0"
    "cell_of_particle twelve_particles 0 (5, 5, 5) (inflate twelve_bounds) six_steps 7 = Inr 0"
    "cell_of_particle twelve_particles 0 (5, 5, 5) (inflate twelve_bounds) six_steps 8 = Inr 20"
    "cell_of_particle twelve_particles 0 (5, 5, 5) (inflate twelve_bounds) six_steps 9 = Inr 20"
    "cell_of_particle twelve_particles 0 (5, 5, 5) (inflate twelve_bounds) six_steps 10 = Inr 104"
    "cell_of_particle twelve_particles 0 (5, 5, 5) (inflate twelve_bounds) six_steps 11 = Inr 104"
    using pi_ge_two
    by (simp_all add: cell_of_particle_def six_steps_def inflate_def twelve_bounds_def
        twelve_norms to_uint_def floor_quotients)
  then show ?thesis
    unfolding u by simp
qed

lemma twelve_counting_sort:
  "counting_sort 125 0 (12 - 0) [0, 0, 0, 0, 0, 0, 0, 0, 20, 20, 104, 104] = Inr twelve_sorting"
proof -
  have "counting_sort 125 0 12 [0, 0, 0, 0, 0, 0, 0, 0, 20, 20, 104, 104] =
     Inr \<lparr>sorted_particles = [0, 1, 2, 3, 4, 5, 6, 7, 8, 9, 10, 11],
      momentum_cell_particle_index = 0 # replicate 20 8 @ replicate 84 10 @ replicate 20 12,
      particles_per_momentum_cells = (replicate 125 0)[0 := 8, 20 := 2, 104 := 2]\<rparr>"
    by code_simp
  then show ?thesis
    by (simp add: twelve_sorting_def)
qed

lemma twelve_sorting_sel:
  "sorted_particles twelve_sorting = [0, 1, 2, 3, 4, 5, 6, 7, 8, 9, 10, 11]"
  "length (particles_per_momentum_cells twelve_sorting) = 125"
  "length (momentum_cell_particle_index twelve_sorting) = 125"
  "particles_per_momentum_cells twelve_sorting ! 0 = 8"
  "momentum_cell_particle_index twelve_sorting ! 0 = 0"
  by (simp_all add: twelve_sorting_def)

lemma twelve_skip:
  assumes "length cv = 25"
  shows "cells_loop twelve_sorting cv 25 5 (tl (cells_of (5, 5, 5))) st = Inr st"
proof -
  have "list_all (\<lambda>(mr_i, theta_i, phi_i).
             theta_i * 5 + phi_i < 25
             \<and> mr_i * 25 + (theta_i * 5 + phi_i) < length (particles_per_momentum_cells twelve_sorting)
             \<and> mr_i * 25 + (theta_i * 5 + phi_i) < length (momentum_cell_particle_index twelve_sorting)
             \<and> particles_per_momentum_cells twelve_sorting ! (mr_i * 25 + (theta_i * 5 + phi_i)) < 4)
     (tl (cells_of (5, 5, 5)))"
    by code_simp
  then show ?thesis
    using assms by (intro cells_loop_skip) (simp add: list_all_iff)
qed

lemma twelve_packet0:
  "merge_packet [0, 1, 2, 3, 4, 5, 6, 7, 8, 9, 10, 11] d 0 0 (twelve_particles, [])
     = Inr (twelve_half, [])"
proof -
  have t: "packet_totals twelve_particles [0, 1, 2, 3]
             = \<lparr>total_weight = 4, total_momentum = (3, 0, 0), total_energy = 5\<rparr>"
    by (simp add: packet_totals_def add_particle_def totals0_def twelve_particles_def sqrt_25_16)
  have "merge_packet [0, 1, 2, 3, 4, 5, 6, 7, 8, 9, 10, 11] d 0 0 (twelve_particles, []) =
          (case tag_removed [0, 1, 2, 3, 4, 5, 6, 7, 8, 9, 10, 11] 0 0 [0 * 4 + 2, 0 * 4 + 3]
            (set_particle (set_particle twelve_particles 0 (3 / 4, 0, 0)
                (0.5 * total_weight \<lparr>total_weight = 4, total_momentum = (3, 0, 0), total_energy = 5\<rparr>))
               1 (3 / 4, 0, 0)
               (0.5 * total_weight \<lparr>total_weight = 4, total_momentum = (3, 0, 0), total_energy = 5\<rparr>)) of
             Inl e \<Rightarrow> Inl e | Inr P' \<Rightarrow> Inr (P', []))"
    by (rule merge_packet_eval[where ?i2.0 = 2 and ?i3.0 = 3, OF _ _ _ _ _ _ _ _ _ t unit_totals_merged])
      (simp_all add: twelve_size)
  then show ?thesis
    by (simp add: set_particle_def twelve_particles_def twelve_half_def)
qed

lemma twelve_half_size: "size_particles twelve_half = 12"
  by (simp add: size_particles_def twelve_half_def)

lemma twelve_packet1:
  "merge_packet [0, 1, 2, 3, 4, 5, 6, 7, 8, 9, 10, 11] d 0 1 (twelve_half, [])
     = Inr (twelve_merged, [])"
proof -
  have t: "packet_totals twelve_half [4, 5, 6, 7]
             = \<lparr>total_weight = 4, total_momentum = (3, 0, 0), total_energy = 5\<rparr>"
    by (simp add: packet_totals_def add_particle_def totals0_def twelve_half_def sqrt_25_16)
  have "merge_packet [0, 1, 2, 3, 4, 5, 6, 7, 8, 9, 10, 11] d 0 1 (twelve_half, []) =
          (case tag_removed [0, 1, 2, 3, 4, 5, 6, 7, 8, 9, 10, 11] 0 1 [1 * 4 + 2, 1 * 4 + 3]
            (set_particle (set_particle twelve_half 4 (3 / 4, 0, 0)
                (0.5 * total_weight \<lparr>total_weight = 4, total_momentum = (3, 0, 0), total_energy = 5\<rparr>))
               5 (3 / 4, 0, 0)
               (0.5 * total_weight \<lparr>total_weight = 4, total_momentum = (3, 0, 0), total_energy = 5\<rparr>)) of
             Inl e \<Rightarrow> Inl e | Inr P' \<Rightarrow> Inr (P', []))"
    by (rule merge_packet_eval[where ?i2.0 = 6 and ?i3.0 = 7, OF _ _ _ _ _ _ _ _ _ t unit_totals_merged])
      (simp_all add: twelve_half_size)
  then show ?thesis
    by (simp add: set_particle_def twelve_half_def twelve_merged_def)
qed

lemma twelve_packets:
  "packets_loop [0, 1, 2, 3, 4, 5, 6, 7, 8, 9, 10, 11] d 0 [0 ..< 8 div 4] (twelve_particles, [])
     = Inr (twelve_merged, [])"
proof -
  have u: "[0 ..< 8 div 4] = [0, 1 :: nat]"
    by (simp add: upt_rec)
  show ?thesis
    unfolding u by (simp only: packets_loop.simps twelve_packet0 twelve_packet1 sum.case)
qed

lemma twelve_cells_loop:
  assumes "length cv = 25"
  shows "cells_loop twelve_sorting cv 25 (snd (snd (5, 5, 5))) (cells_of (5, 5, 5))
           (twelve_particles, []) = Inr (twelve_merged, [])"
proof -
  have "cells_loop twelve_sorting cv 25 5 ((0, 0, 0) # tl (cells_of (5, 5, 5)))
            (twelve_particles, [])
          = (case packets_loop (sorted_particles twelve_sorting) (cv ! 0)
                    (momentum_cell_particle_index twelve_sorting ! 0)
                    [0 ..< particles_per_momentum_cells twelve_sorting ! 0 div 4]
                    (twelve_particles, []) of
               Inl e \<Rightarrow> Inl e
             | Inr st' \<Rightarrow> cells_loop twelve_sorting cv 25 5 (tl (cells_of (5, 5, 5))) st')"
    by (simp add: twelve_sorting_sel assms Let_def del: upt.simps)
  also have "\<dots> = Inr (twelve_merged, [])"
    unfolding twelve_sorting_sel twelve_packets by (simp add: twelve_skip[OF assms])
  finally show ?thesis
    by (subst cells_555) simp
qed

lemma twelve_merge_range:
  "merge_range M twelve_particles 0 12 = Inr (M\<lparr>dimensions := (5, 5, 5)\<rparr>, twelve_merged, [])"
  by (rule merge_range_eval[OF twelve_first_bounds twelve_bounds_loop twelve_collapse
          twelve_cells twelve_counting_sort twelve_cells_loop[OF length_cell_vec]])

lemma twelve_run:
  "MergingVranic merging4 twelve_particles 0 12
     = Inr (merging4\<lparr>dimensions := (5, 5, 5)\<rparr>, twelve_merged, [])"
  by (simp add: MergingVranic_def merging4_def twelve_merge_range twelve_size)


subsection \<open>The six particles, four of them of weight 2\<close>

text \<open>
  The packet has the total weight 8 and the energy sum 5, which is not weighted: the
  energy \<open>5/8\<close> of a merged particle is below 1 and its momentum is the square root of a
  negative number.
\<close>

lemma six_heavy_sel:
  "momentum_x six_heavy = [3 / 4, 3 / 4, 3 / 4, 3 / 4, 0, 0]"
  "momentum_y six_heavy = [0, 0, 0, 0, 1, 0]"
  "momentum_z six_heavy = [0, 0, 0, 0, 0, 2]"
  by (simp_all add: six_heavy_def)

lemma six_heavy_size: "size_particles six_heavy = 6"
  by (simp add: size_particles_def six_heavy_def)

lemma six_heavy_totals:
  "packet_totals six_heavy [0, 1, 2, 3]
     = \<lparr>total_weight = 8, total_momentum = (6, 0, 0), total_energy = 5\<rparr>"
  by (simp add: packet_totals_def add_particle_def totals0_def six_heavy_def sqrt_25_16)

lemma heavy_totals_merged:
  "merged_momenta \<lparr>total_weight = 8, total_momentum = (6, 0, 0), total_energy = 5\<rparr> d
     = Inl NonFinite"
  by (simp add: merged_momenta_def Let_def)

lemma six_heavy_packet:
  "merge_packet [0, 1, 2, 3, 4, 5] d 0 0 (six_heavy, []) = Inr (six_heavy_merged, [1, 0])"
proof -
  have "merge_packet [0, 1, 2, 3, 4, 5] d 0 0 (six_heavy, []) =
          (case tag_removed [0, 1, 2, 3, 4, 5] 0 0 [0 * 4 + 2, 0 * 4 + 3]
            (set_weight (set_weight six_heavy 0
                (0.5 * total_weight \<lparr>total_weight = 8, total_momentum = (6, 0, 0), total_energy = 5\<rparr>))
               1
               (0.5 * total_weight \<lparr>total_weight = 8, total_momentum = (6, 0, 0), total_energy = 5\<rparr>)) of
             Inl e \<Rightarrow> Inl e | Inr P' \<Rightarrow> Inr (P', [1, 0]))"
    by (rule merge_packet_eval_not_numbers[where ?i2.0 = 2 and ?i3.0 = 3,
          OF _ _ _ _ _ _ _ _ _ six_heavy_totals heavy_totals_merged])
      (simp_all add: six_heavy_size)
  then show ?thesis
    by (simp add: set_weight_def six_heavy_def six_heavy_merged_def)
qed

lemma six_heavy_cells_loop:
  assumes "length cv = 25"
  shows "cells_loop six_sorting cv 25 (snd (snd (5, 5, 5))) (cells_of (5, 5, 5))
           (six_heavy, []) = Inr (six_heavy_merged, [1, 0])"
  by (subst cells_555) (simp add: six_sorting_sel six_heavy_packet[simplified] six_skip[OF assms] assms)

lemma six_heavy_merge_range:
  "merge_range M six_heavy 0 6 = Inr (M\<lparr>dimensions := (5, 5, 5)\<rparr>, six_heavy_merged, [1, 0])"
  by (rule merge_range_eval[OF six_first_bounds[OF six_heavy_sel]
        six_bounds_loop[OF six_heavy_sel] six_collapse six_cells[OF six_heavy_sel]
        six_counting_sort six_heavy_cells_loop[OF length_cell_vec]])

lemma six_heavy_run:
  "MergingVranic merging4 six_heavy 0 6
     = Inr (merging4\<lparr>dimensions := (5, 5, 5)\<rparr>, six_heavy_merged, [1, 0])"
  by (simp add: MergingVranic_def merging4_def six_heavy_merge_range six_heavy_size)

subsection \<open>The grid of a call that returns\<close>

text \<open>
  A call above the threshold that returns has binned its particles on the grid of
  5 x 5 x 5 momentum cells, whatever \<open>dimensions_\<close> held before: no direction was
  collapsed (a collapsed direction has no defined cell index), the steps are the fifths
  of the three extents, there are 125 momentum cells and 25 cell directions.
\<close>

lemma collapse_kept:
  assumes "collapse (5, 5, 5) st = (dims, s)"
    and "mr_delta s \<noteq> 0" "theta_delta s \<noteq> 0" "phi_delta s \<noteq> 0"
  shows "dims = (5, 5, 5)" and "s = st"
  using assms by (auto simp: collapse_def split: if_splits)

lemma momentum_cell_index_steps:
  assumes "momentum_cell_index P istart dims b s (ipart # L) = Inr ics"
  shows "mr_delta s \<noteq> 0" "theta_delta s \<noteq> 0" "phi_delta s \<noteq> 0"
proof -
  from assms obtain ic where "cell_of_particle P istart dims b s ipart = Inr ic"
    by (auto split: sum.splits)
  then show "mr_delta s \<noteq> 0" "theta_delta s \<noteq> 0" "phi_delta s \<noteq> 0"
    by (auto simp: cell_of_particle_def split: prod.splits if_splits)
qed

lemma merge_range_Inr:
  assumes "merge_range M P istart iend = Inr (M', P', not_numbers)" and "istart < iend"
  obtains b0 b1 ics srt where
    "first_bounds P istart (iend - istart) = Inr b0"
    "bounds_loop P istart [istart + 1 ..< iend] b0 = Inr b1"
    "collapse (5, 5, 5) (deltas (5, 5, 5) (inflate b1))
       = ((5, 5, 5), deltas (5, 5, 5) (inflate b1))"
    "momentum_cell_index P istart (5, 5, 5) (inflate b1) (deltas (5, 5, 5) (inflate b1))
       [istart ..< iend] = Inr ics"
    "counting_sort 125 istart (iend - istart) ics = Inr srt"
    "cells_loop srt (cell_vec 25 (5, 5, 5) (inflate b1) (deltas (5, 5, 5) (inflate b1))) 25 5
       (cells_of (5, 5, 5)) (P, []) = Inr (P', not_numbers)"
    "M' = M\<lparr>dimensions := (5, 5, 5)\<rparr>"
proof -
  from assms(1) obtain b0 where b0: "first_bounds P istart (iend - istart) = Inr b0"
    unfolding merge_range_def Let_def by (auto split: sum.splits)
  from assms(1) b0 obtain b1 where b1: "bounds_loop P istart [istart + 1 ..< iend] b0 = Inr b1"
    unfolding merge_range_def Let_def by (auto split: sum.splits)
  obtain dims s where c: "collapse (5, 5, 5) (deltas (5, 5, 5) (inflate b1)) = (dims, s)"
    by (cases "collapse (5, 5, 5) (deltas (5, 5, 5) (inflate b1))") auto
  from assms(1) b0 b1 c obtain ics where
    i: "momentum_cell_index P istart dims (inflate b1) s [istart ..< iend] = Inr ics"
    unfolding merge_range_def Let_def by (auto split: sum.splits)
  from assms(1) b0 b1 c i obtain srt where
    s: "counting_sort 125 istart (iend - istart) ics = Inr srt"
    unfolding merge_range_def Let_def by (auto split: sum.splits)
  from assms(1) b0 b1 c i s have
    l: "cells_loop srt (cell_vec 25 dims (inflate b1) s) 25 (snd (snd dims)) (cells_of dims)
          (P, []) = Inr (P', not_numbers)"
    and m: "M' = M\<lparr>dimensions := dims\<rparr>"
    unfolding merge_range_def Let_def
    by (auto split: sum.splits simp del: cells_loop.simps)
  have u: "[istart ..< iend] = istart # [Suc istart ..< iend]"
    using assms(2) by (rule upt_conv_Cons)
  note z = momentum_cell_index_steps[OF i[unfolded u]]
  note k = collapse_kept[OF c z]
  show thesis
  proof (rule that[OF b0 b1])
    show "collapse (5, 5, 5) (deltas (5, 5, 5) (inflate b1))
            = ((5, 5, 5), deltas (5, 5, 5) (inflate b1))"
      using c unfolding k .
    show "momentum_cell_index P istart (5, 5, 5) (inflate b1) (deltas (5, 5, 5) (inflate b1))
            [istart ..< iend] = Inr ics"
      using i unfolding k .
    show "counting_sort 125 istart (iend - istart) ics = Inr srt"
      by (rule s)
    show "cells_loop srt (cell_vec 25 (5, 5, 5) (inflate b1) (deltas (5, 5, 5) (inflate b1))) 25 5
            (cells_of (5, 5, 5)) (P, []) = Inr (P', not_numbers)"
      using l unfolding k by simp
    show "M' = M\<lparr>dimensions := (5, 5, 5)\<rparr>"
      using m unfolding k .
  qed
qed

subsection \<open>The six particles, four of them of weight 1/2\<close>

lemma sqrt_9_4: "sqrt (9 / 4) = 3 / 2"
  by (rule real_sqrt_unique) (simp_all add: power2_eq_square)

lemma sqrt_21_4:
  "2 < sqrt (21 / 4)" "sqrt (21 / 4) * sqrt (21 / 4) = 21 / 4"
proof -
  have "sqrt 4 < sqrt (21 / 4)"
    by (rule real_sqrt_less_mono) simp
  then show "2 < sqrt (21 / 4)" by simp
  show "sqrt (21 / 4) * sqrt (21 / 4) = 21 / 4" by simp
qed

lemma light_cos: "0 < 3 / (4 * sqrt (21 / 4))" "3 / (4 * sqrt (21 / 4)) < 1"
  using sqrt_21_4(1) by (simp_all add: field_simps)

lemma light_totals_merged:
  "merged_momenta \<lparr>total_weight = 2, total_momentum = (3 / 2, 0, 0), total_energy = 5\<rparr>
      (d_x, d_y, d_z)
     = Inr ((3 / 4, light_transverse * d_y, light_transverse * d_z),
            (3 / 4, - (light_transverse * d_y), - (light_transverse * d_z)))"
proof -
  have r: "sqrt (21 / 4) \<noteq> 0" using sqrt_21_4(1) by simp
  have c: "cos (arccos (3 / (4 * sqrt (21 / 4)))) = 3 / (4 * sqrt (21 / 4))"
    by (rule cos_arccos) (use light_cos in linarith)+
  have g: "\<not> 3 / (4 * sqrt (21 / 4)) < - 1" "\<not> 1 < 3 / (4 * sqrt (21 / 4))"
    using light_cos by linarith+
  show ?thesis
    unfolding merged_momenta_def
    using r sqrt_21_4(1)
    by (simp add: Let_def sqrt_9_4 c g e2_of_def light_transverse_def)
qed


lemma six_light_sel:
  "momentum_x six_light = [3 / 4, 3 / 4, 3 / 4, 3 / 4, 0, 0]"
  "momentum_y six_light = [0, 0, 0, 0, 1, 0]"
  "momentum_z six_light = [0, 0, 0, 0, 0, 2]"
  by (simp_all add: six_light_def)

lemma six_light_size: "size_particles six_light = 6"
  by (simp add: size_particles_def six_light_def)

lemma six_light_packet:
  "merge_packet [0, 1, 2, 3, 4, 5] first_cell 0 0 (six_light, []) = Inr (six_light_merged, [])"
proof -
  obtain d_x d_y d_z where d: "first_cell = (d_x, d_y, d_z)"
    by (cases first_cell) auto
  have t: "packet_totals six_light [0, 1, 2, 3]
             = \<lparr>total_weight = 2, total_momentum = (3 / 2, 0, 0), total_energy = 5\<rparr>"
    by (simp add: packet_totals_def add_particle_def totals0_def six_light_def sqrt_25_16)
  have "merge_packet [0, 1, 2, 3, 4, 5] (d_x, d_y, d_z) 0 0 (six_light, []) =
          (case tag_removed [0, 1, 2, 3, 4, 5] 0 0 [0 * 4 + 2, 0 * 4 + 3]
            (set_particle (set_particle six_light 0
                (3 / 4, light_transverse * d_y, light_transverse * d_z)
                (0.5 * total_weight \<lparr>total_weight = 2, total_momentum = (3 / 2, 0, 0), total_energy = 5\<rparr>))
               1 (3 / 4, - (light_transverse * d_y), - (light_transverse * d_z))
               (0.5 * total_weight \<lparr>total_weight = 2, total_momentum = (3 / 2, 0, 0), total_energy = 5\<rparr>)) of
             Inl e \<Rightarrow> Inl e | Inr P' \<Rightarrow> Inr (P', []))"
    by (rule merge_packet_eval[where ?i2.0 = 2 and ?i3.0 = 3, OF _ _ _ _ _ _ _ _ _ t light_totals_merged])
      (simp_all add: six_light_size)
  then show ?thesis
    unfolding d by (simp add: set_particle_def six_light_def six_light_merged_def d)
qed

lemma six_light_cells_loop:
  "cells_loop six_sorting (cell_vec 25 (5, 5, 5) (inflate six_bounds) six_steps) 25
      (snd (snd (5, 5, 5))) (cells_of (5, 5, 5)) (six_light, [])
           = Inr (six_light_merged, [])"
proof -
  let ?cv = "cell_vec 25 (5, 5, 5) (inflate six_bounds) six_steps"
  have l: "length ?cv = 25" by (rule length_cell_vec)
  have "?cv ! (0 * 5 + 0) = cell_direction (inflate six_bounds) six_steps 0 0"
    by (rule cell_vec_nth) simp_all
  then have d: "?cv ! 0 = first_cell"
    by (simp add: first_cell_def)
  have "cells_loop six_sorting ?cv 25 5 ((0, 0, 0) # tl (cells_of (5, 5, 5))) (six_light, [])
          = (case packets_loop (sorted_particles six_sorting) (?cv ! 0)
                    (momentum_cell_particle_index six_sorting ! 0)
                    [0 ..< particles_per_momentum_cells six_sorting ! 0 div 4] (six_light, []) of
               Inl e \<Rightarrow> Inl e
             | Inr st' \<Rightarrow> cells_loop six_sorting ?cv 25 5 (tl (cells_of (5, 5, 5))) st')"
    by (simp add: six_sorting_sel l Let_def del: upt.simps)
  also have "\<dots> = Inr (six_light_merged, [])"
    unfolding six_sorting_sel d
    by (simp add: six_light_packet[simplified] six_skip[OF l])
  finally show ?thesis
    by (subst cells_555) simp
qed

lemma six_light_merge_range:
  "merge_range M six_light 0 6 = Inr (M\<lparr>dimensions := (5, 5, 5)\<rparr>, six_light_merged, [])"
  by (rule merge_range_eval[OF six_first_bounds[OF six_light_sel] six_bounds_loop[OF six_light_sel]
        six_collapse six_cells[OF six_light_sel] six_counting_sort six_light_cells_loop])

lemma six_light_run:
  "MergingVranic merging4 six_light 0 6
     = Inr (merging4\<lparr>dimensions := (5, 5, 5)\<rparr>, six_light_merged, [])"
  by (simp add: MergingVranic_def merging4_def six_light_merge_range six_light_size)


lemma first_cell_up: "0 < snd (snd first_cell)"
proof -
  have "snd (snd first_cell) = sin (101 * pi / 2000)"
    by (simp add: first_cell_def cell_direction_def six_bounds_def six_steps_def inflate_def
        Let_def)
  moreover have "0 < sin (101 * pi / 2000)"
    by (rule sin_gt_zero) (use pi_gt_zero in simp_all)
  ultimately show ?thesis by simp
qed

lemma light_transverse_nonzero: "light_transverse \<noteq> 0"
proof -
  have "sin (arccos (3 / (4 * sqrt (21 / 4)))) \<noteq> 0"
    by (rule sin_arccos_nonzero) (use light_cos in linarith)+
  moreover have "sqrt (21 / 4) \<noteq> 0"
    using sqrt_21_4(1) by simp
  ultimately show ?thesis
    by (simp add: light_transverse_def)
qed

lemma light_energy_before:
  "weighted_energy six_light 0 + weighted_energy six_light 1
     + weighted_energy six_light 2 + weighted_energy six_light 3 = 5 / 2"
  by (simp add: weighted_energy_def six_light_def sqrt_25_16)

lemma light_energy_after:
  "5 / 2 < weighted_energy six_light_merged 0 + weighted_energy six_light_merged 1"
proof -
  obtain d_x d_y d_z where d: "first_cell = (d_x, d_y, d_z)"
    by (cases first_cell) auto
  have z: "0 < d_z" using first_cell_up by (simp add: d)
  define q where "q = light_transverse * d_y * (light_transverse * d_y)
                      + light_transverse * d_z * (light_transverse * d_z)"
  have "light_transverse * d_z \<noteq> 0"
    using z light_transverse_nonzero by simp
  then have "0 < (light_transverse * d_z)\<^sup>2"
    by simp
  then have "0 < light_transverse * d_z * (light_transverse * d_z)"
    by (simp only: power2_eq_square)
  moreover have "0 \<le> light_transverse * d_y * (light_transverse * d_y)"
    by simp
  ultimately have q: "0 < q" unfolding q_def by linarith
  have "sqrt (25 / 16) < sqrt (25 / 16 + q)"
    by (rule real_sqrt_less_mono) (use q in simp)
  then have s: "5 / 4 < sqrt (25 / 16 + q)"
    by (simp only: sqrt_25_16)
  have a: "weighted_energy six_light_merged 0 = sqrt (25 / 16 + q)"
    by (simp add: weighted_energy_def six_light_merged_def d q_def algebra_simps)
  have b: "weighted_energy six_light_merged 1 = sqrt (25 / 16 + q)"
    by (simp add: weighted_energy_def six_light_merged_def d q_def algebra_simps)
  show ?thesis
    unfolding a b using s by linarith
qed


section \<open>Facts about the emission of a photon\<close>

lemma length_fill_photons:
  "length (fill_photons R P ipart g k c L buf) = length buf"
  by (induction L arbitrary: buf) simp_all

lemma upt_first: "[n ..< n + Suc m] = n # [Suc n ..< Suc n + m]"
  by (simp add: upt_conv_Cons)

lemma fill_photons_slots:
  "fill_photons R P ipart g k c [length old ..< length old + length slots] (old @ slots)
     = old @ map (new_photon R P ipart g k c) slots"
proof (induction slots arbitrary: old)
  case Nil
  then show ?case by simp
next
  case (Cons s slots)
  have u: "[length old ..< length old + length (s # slots)]
             = length old # [length (old @ [new_photon R P ipart g k c s])
                             ..< length (old @ [new_photon R P ipart g k c s]) + length slots]"
    using upt_first[of "length old" "length slots"] by simp
  have l: "(old @ s # slots)[length old := new_photon R P ipart g k c ((old @ s # slots) ! length old)]
             = (old @ [new_photon R P ipart g k c s]) @ slots"
    by simp
  show ?case
    unfolding u fill_photons.simps l Cons.IH by simp
qed

lemma created_photons:
  "fill_photons R P ipart g k c
       [length (createParticles n buf) - n ..< length (createParticles n buf)]
       (createParticles n buf)
     = buf @ replicate n (new_photon R P ipart g k c blank_photon)"
proof -
  have "fill_photons R P ipart g k c [length buf ..< length buf + length (replicate n blank_photon)]
          (buf @ replicate n blank_photon)
          = buf @ map (new_photon R P ipart g k c) (replicate n blank_photon)"
    by (rule fill_photons_slots)
  then show ?thesis
    by (simp add: createParticles_def)
qed

lemma recoil_sel:
  "weight (recoil P ipart k) = weight P" "tau (recoil P ipart k) = tau P"
  "position_x (recoil P ipart k) = position_x P" "position_y (recoil P ipart k) = position_y P"
  "position_z (recoil P ipart k) = position_z P" "charge (recoil P ipart k) = charge P"
  "chi (recoil P ipart k) = chi P"
  by (simp_all add: recoil_def)

text \<open>What an emission that returns did.\<close>

lemma photonEmission_Inr:
  assumes "photonEmission T R photon_species ipart particle_chi particle_gamma random_number
             (P, buf) = Inr (energy, P', buf')"
  defines "gammaph \<equiv> gamma_photon T particle_chi particle_gamma random_number"
  shows "particle_chi \<noteq> 0" and "0 < particle_gamma * particle_gamma - 1"
    and "P' = recoil P ipart (gammaph / sqrt (particle_gamma * particle_gamma - 1))"
    and "photon_species \<and> radiation_photon_gamma_threshold R \<le> gammaph \<Longrightarrow>
           energy = 0
           \<and> (norm3 (momentum_of P' ipart) \<noteq> 0 \<or> radiation_photon_sampling R = 0)
           \<and> buf' = buf @ replicate (radiation_photon_sampling R)
                (new_photon R P' ipart gammaph (1 / norm3 (momentum_of P' ipart))
                   (computeRandomPhotonChiWithInterpolation T particle_chi random_number)
                   blank_photon)"
    and "\<not> (photon_species \<and> radiation_photon_gamma_threshold R \<le> gammaph) \<Longrightarrow>
           buf' = buf
           \<and> energy = weight P ! ipart * (particle_gamma - lorentz_factor (momentum_of P' ipart))"
  using assms(1)
  unfolding photonEmission_def gammaph_def gamma_photon_def
  by (auto simp: Let_def created_photons recoil_sel norm3_def momentum_of_def
      split: if_splits)


text \<open>The two outcomes of an emission whose quotients are defined.\<close>

lemma photonEmission_photons:
  assumes "particle_chi \<noteq> 0" and "0 < particle_gamma * particle_gamma - 1"
    and "photon_species \<and> radiation_photon_gamma_threshold R
           \<le> gamma_photon T particle_chi particle_gamma random_number"
    and "P1 = recoil P ipart (gamma_photon T particle_chi particle_gamma random_number
                               / sqrt (particle_gamma * particle_gamma - 1))"
    and "norm3 (momentum_of P1 ipart) \<noteq> 0"
  shows "photonEmission T R photon_species ipart particle_chi particle_gamma random_number
           (P, buf)
         = Inr (0, P1,
             buf @ replicate (radiation_photon_sampling R)
               (new_photon R P1 ipart (gamma_photon T particle_chi particle_gamma random_number)
                  (1 / norm3 (momentum_of P1 ipart))
                  (computeRandomPhotonChiWithInterpolation T particle_chi random_number)
                  blank_photon))"
  using assms(1,2,3,5) unfolding photonEmission_def assms(4) gamma_photon_def
  by (simp add: Let_def created_photons norm3_def momentum_of_def not_le)

lemma photonEmission_energy:
  assumes "particle_chi \<noteq> 0" and "0 < particle_gamma * particle_gamma - 1"
    and "\<not> (photon_species \<and> radiation_photon_gamma_threshold R
              \<le> gamma_photon T particle_chi particle_gamma random_number)"
    and "P1 = recoil P ipart (gamma_photon T particle_chi particle_gamma random_number
                               / sqrt (particle_gamma * particle_gamma - 1))"
  shows "photonEmission T R photon_species ipart particle_chi particle_gamma random_number
           (P, buf)
         = Inr (weight P ! ipart * (particle_gamma - lorentz_factor (momentum_of P1 ipart)),
                P1, buf)"
  using assms(1,2,3) unfolding photonEmission_def assms(4) gamma_photon_def
  by (auto simp: Let_def recoil_sel not_le)

lemma sqrt_25_64: "sqrt (25 / 64) = 5 / 8"
  by (rule real_sqrt_unique) (simp_all add: power2_eq_square)

lemma emission_forward:
  "photonEmission (tables_of (1 / 2)) radiation1 True 0 1 (5 / 4) u (one_particle, [])
     = Inr (0, one_particle\<lparr>momentum_x := [5 / 8]\<rparr>, [photon_of (1 / 8) (1 / 2)])"
  by (simp add: photonEmission_def tables_of_def radiation1_def one_particle_def Let_def
      recoil_def createParticles_def blank_photon_def new_photon_def photon_of_def
      inv_radiation_photon_sampling_def sqrt_9_16 sqrt_25_64)

lemma emission_no_species:
  "photonEmission (tables_of (1 / 2)) radiation1 False 0 1 (5 / 4) u (one_particle, [])
     = Inr (5 / 4 - sqrt (89 / 64), one_particle\<lparr>momentum_x := [5 / 8]\<rparr>, [])"
  by (simp add: photonEmission_def tables_of_def radiation1_def one_particle_def Let_def
      recoil_def lorentz_factor_def momentum_of_def sqrt_9_16)

lemma norm3_scale: "norm3 (scale k v) = \<bar>k\<bar> * norm3 v"
proof -
  obtain x y z where v: "v = (x, y, z)" by (cases v) auto
  have "k * x * (k * x) + k * y * (k * y) + k * z * (k * z) = k\<^sup>2 * (x * x + y * y + z * z)"
    by (simp add: power2_eq_square algebra_simps)
  then show ?thesis
    by (simp add: norm3_def scale_def v real_sqrt_mult)
qed

lemma new_photon_sel:
  "ph_momentum (new_photon R P ipart g k c slot) = scale (g * k) (momentum_of P ipart)"
  "ph_weight (new_photon R P ipart g k c slot) = weight P ! ipart * inv_radiation_photon_sampling R"
  "ph_charge (new_photon R P ipart g k c slot) = 0"
  "ph_position (new_photon R P ipart g k c slot) =
     position_x P ! ipart #
       (if 1 < nDim R then
          position_y P ! ipart # (if 2 < nDim R then [position_z P ! ipart] else [])
        else [])"
  by (simp_all add: new_photon_def scale_def momentum_of_def algebra_simps)

lemma scale_scale: "scale a (scale b v) = scale (a * b) v"
  by (simp add: scale_def split: prod.splits)

lemma recoil_momentum:
  assumes "ipart < length (momentum_x P)" "ipart < length (momentum_y P)"
    "ipart < length (momentum_z P)"
  shows "momentum_of (recoil P ipart k) ipart = scale (1 - k) (momentum_of P ipart)"
  using assms by (simp add: recoil_def momentum_of_def scale_def algebra_simps)


lemma norm3_nonneg: "0 \<le> norm3 v"
  by (simp add: norm3_def split: prod.splits)




section \<open>The optical depths written by the operator\<close>

text \<open>
  Every optical depth the operator stores is a drawn one, above \<open>epsilon_tau_\<close>, one
  that the count-down left above \<open>epsilon_tau_\<close>, or \<open>- 1\<close>. So a property \<open>Q\<close> of
  every such value that holds of an optical depth on entry holds of it at exit.
\<close>

lemma draw_tau_result:
  assumes "draw_tau eps U k t = Some y"
  shows "\<forall>t' k'. y = Inr (t', k') \<longrightarrow> eps < t'"
  by (induct rule: draw_tau.raw_induct[OF _ assms]) (auto split: if_splits)

lemma draw_tau_above:
  "draw_tau eps U k t = Some (Inr (t', k')) \<Longrightarrow> eps < t'"
  using draw_tau_result by blast

lemma settled_update:
  assumes "Q (xs ! j)" and "Q v"
  shows "Q (xs[i := v] ! j)"
proof (cases "i < length xs")
  case True
  then have "xs[i := v] ! j = (if i = j then v else xs ! j)"
    by (rule nth_list_update)
  with assms show ?thesis by (cases "i = j") simp_all
next
  case False
  then have "length xs \<le> i" by (simp add: not_less)
  then have "xs[i := v] = xs" by (rule list_update_beyond)
  with assms(1) show ?thesis by simp
qed

lemma photonEmission_tau:
  assumes "photonEmission T R photon_species ipart particle_chi particle_gamma random_number
             (P, buf) = Inr (energy, P', buf')"
  shows "tau P' = tau P"
  using photonEmission_Inr(3)[OF assms] by (simp add: recoil_sel)

lemma mc_step_tau:
  assumes "mc_step T R photon_species U E B ipart st = Some (Inr (left, st'))"
    and "Q (tau (parts st) ! j)"
    and "\<And>v. settled (epsilon_tau R) v \<Longrightarrow> Q v"
  shows "Q (tau (parts st') ! j)"
proof -
  have a: "Q v" if "epsilon_tau R < v" for v
    using that assms(3) by (simp add: settled_def)
  have b: "Q (- 1)"
    using assms(3) by (simp add: settled_def)
  show ?thesis
    using assms(1,2)
    by (auto simp: mc_step_def Let_def recoil_sel settled_update a b
        dest!: draw_tau_above photonEmission_tau
        split: if_splits option.splits sum.splits prod.splits)
qed


lemma mc_loop_tau:
  assumes "mc_loop T R photon_species U E B ipart st = Some (Inr st')"
    and "Q (tau (parts st) ! j)"
    and "\<And>v. settled (epsilon_tau R) v \<Longrightarrow> Q v"
  shows "Q (tau (parts st') ! j)"
  using assms
proof (induction T R photon_species U E B ipart st rule: mc_loop.induct)
  case (1 T R photon_species U E B ipart st)
  show ?case
  proof (cases "local_it_time st < dt R \<and> mc_it_nb st < max_monte_carlo_iterations R")
    case False
    with "1.prems"(1,2) show ?thesis
      by (simp add: mc_loop.simps[of T R photon_species U E B ipart st])
  next
    case True
    with "1.prems"(1) obtain left st1 where
      s: "mc_step T R photon_species U E B ipart st = Some (Inr (left, st1))"
      and r: "if left then st' = st1
              else mc_loop T R photon_species U E B ipart st1 = Some (Inr st')"
      by (auto simp: mc_loop.simps[of T R photon_species U E B ipart st]
          split: option.splits sum.splits prod.splits if_splits)
    have q1: "Q (tau (parts st1) ! j)"
      using s "1.prems"(2,3) by (rule mc_step_tau)
    show ?thesis
    proof (cases left)
      case True
      with r q1 show ?thesis by simp
    next
      case False
      with r have m: "mc_loop T R photon_species U E B ipart st1 = Some (Inr st')" by simp
      show ?thesis
        using True s refl refl False m q1 "1.prems"(3) by (rule "1.IH")
    qed
  qed
qed

lemma particles_loop_tau:
  assumes "particles_loop T R photon_species U Epart Bpart ipart_ref L st = Some (Inr st')"
    and "Q (tau (parts st) ! j)"
    and "\<And>v. settled (epsilon_tau R) v \<Longrightarrow> Q v"
  shows "Q (tau (parts st') ! j)"
  using assms(1,2)
proof (induction L arbitrary: st)
  case Nil
  then show ?case by simp
next
  case (Cons ipart L)
  from Cons.prems(1) obtain st1 where
    m: "mc_loop T R photon_species U (Epart ! (ipart - ipart_ref)) (Bpart ! (ipart - ipart_ref))
          ipart (st\<lparr>local_it_time := 0, mc_it_nb := 0\<rparr>) = Some (Inr st1)"
    and p: "particles_loop T R photon_species U Epart Bpart ipart_ref L st1 = Some (Inr st')"
    by (auto split: option.splits sum.splits)
  have "Q (tau (parts (st\<lparr>local_it_time := 0, mc_it_nb := 0\<rparr>)) ! j)"
    using Cons.prems(2) by simp
  with m have "Q (tau (parts st1) ! j)"
    using assms(3) by (rule mc_loop_tau)
  with p show ?case by (rule Cons.IH)
qed

lemma update_chi_tau: "tau (update_chi T R Epart Bpart ipart_ref L P) = tau P"
  by (induction L arbitrary: P) simp_all

lemma RadiationMonteCarlo_tau:
  assumes "RadiationMonteCarlo T R photon_species U drawn0 Epart Bpart radiated_energy
             istart iend ipart_ref (P, buf) = Some (Inr (P', rest))"
    and "Q (tau P ! j)"
    and "\<And>v. settled (epsilon_tau R) v \<Longrightarrow> Q v"
  shows "Q (tau P' ! j)"
proof -
  let ?st = "\<lparr>parts = P, new_photons = buf, drawn = drawn0, radiated_energy_loc = 0,
               local_it_time = 0, mc_it_nb = 0\<rparr>"
  from assms(1) obtain st where
    p: "particles_loop T R photon_species U Epart Bpart ipart_ref [istart ..< iend] ?st
          = Some (Inr st)"
    and P': "P' = update_chi T R Epart Bpart ipart_ref [istart ..< iend] (parts st)"
    by (auto simp: RadiationMonteCarlo_def split: if_splits option.splits sum.splits)
  have "Q (tau (parts ?st) ! j)" using assms(2) by simp
  with p have "Q (tau (parts st) ! j)"
    using assms(3) by (rule particles_loop_tau)
  then show ?thesis by (simp add: P' update_chi_tau)
qed

section \<open>A run of the operator on one particle\<close>

text \<open>
  The particle arms (the draw is 1), counts down for the time 1 of the step 2, emits
  and is reset; the count of iterations then ends the loop.
\<close>

lemma draw_tau_done: "eps < t \<Longrightarrow> draw_tau eps U k t = Some (Inr (t, k))"
  by (subst draw_tau.simps) simp

lemma draw_tau_again:
  "t \<le> eps \<Longrightarrow> 0 < 1 - U k \<Longrightarrow> draw_tau eps U k t = draw_tau eps U (Suc k) (- ln (1 - U k))"
  by (subst draw_tau.simps) simp

lemma draw_one: "draw_tau (1 / 10 ^ 100) draws_one 0 (- 1) = Some (Inr (1, 1))"
proof -
  have "draw_tau (1 / 10 ^ 100) draws_one 0 (- 1)
          = draw_tau (1 / 10 ^ 100) draws_one (Suc 0) (- ln (1 - draws_one 0))"
    by (rule draw_tau_again) (simp_all add: draws_one_def)
  also have "- ln (1 - draws_one 0) = 1"
    by (simp add: draws_one_def)
  also have "draw_tau (1 / 10 ^ 100) draws_one (Suc 0) 1 = Some (Inr (1, Suc 0))"
    by (rule draw_tau_done) simp
  finally show ?thesis by simp
qed

lemma emission_one:
  "photonEmission (tables_of (1 / 2)) radiation1 True 0 1 (5 / 4) u
     (one_particle\<lparr>tau := [0]\<rparr>, [])
     = Inr (0, one_particle\<lparr>momentum_x := [5 / 8], tau := [0]\<rparr>, [photon_of (1 / 8) (1 / 2)])"
  by (simp add: photonEmission_def tables_of_def radiation1_def one_particle_def Let_def
      recoil_def createParticles_def blank_photon_def new_photon_def photon_of_def
      inv_radiation_photon_sampling_def sqrt_9_16 sqrt_25_64)

lemma one_gamma: "lorentz_factor (momentum_of one_particle 0) = 5 / 4"
  by (simp add: lorentz_factor_def momentum_of_def one_particle_def sqrt_25_16)

lemma step_one:
  "mc_step (tables_of (1 / 2)) radiation1 True draws_one E B 0
     \<lparr>parts = one_particle, new_photons = [], drawn = 0, radiated_energy_loc = 0,
      local_it_time = 0, mc_it_nb = 0\<rparr>
   = Some (Inr (False,
       \<lparr>parts = one_particle\<lparr>momentum_x := [5 / 8], tau := [- 1]\<rparr>,
        new_photons = [photon_of (1 / 8) (1 / 2)], drawn = 2, radiated_energy_loc = 0,
        local_it_time = 1, mc_it_nb = 1\<rparr>))"
proof -
  have t: "tau one_particle = [- 1]" "charge one_particle = [- 1]"
    by (simp_all add: one_particle_def)
  have T: "computeParticleChi (tables_of (1 / 2)) = (\<lambda>_ _ _ _ _. 1)"
    "getMinimumChiDiscontinuous (tables_of (1 / 2)) = 1 / 2"
    "computePhotonProductionYield (tables_of (1 / 2)) = (\<lambda>_ _. 1)"
    by (simp_all add: tables_of_def)
  have R: "epsilon_tau radiation1 = 1 / 10 ^ 100" "dt radiation1 = 2" "one_over_mass radiation1 = 1"
    by (simp_all add: radiation1_def)
  have e: "photonEmission (tables_of (1 / 2)) radiation1 True 0 1 (5 / 4) (draws_one 1)
     (one_particle\<lparr>tau := [0]\<rparr>, [])
     = Inr (0, one_particle\<lparr>momentum_x := [5 / 8], tau := [0]\<rparr>, [photon_of (1 / 8) (1 / 2)])"
    by (rule emission_one)
  show ?thesis
    unfolding mc_step_def
    by (simp add: Let_def one_gamma t T R draw_one[simplified] e[simplified] cong: let_weak_cong)
qed

lemma loop_one:
  "mc_loop (tables_of (1 / 2)) radiation1 True draws_one E B 0
     \<lparr>parts = one_particle, new_photons = [], drawn = 0, radiated_energy_loc = 0,
      local_it_time = 0, mc_it_nb = 0\<rparr>
   = Some (Inr
       \<lparr>parts = one_particle\<lparr>momentum_x := [5 / 8], tau := [- 1]\<rparr>,
        new_photons = [photon_of (1 / 8) (1 / 2)], drawn = 2, radiated_energy_loc = 0,
        local_it_time = 1, mc_it_nb = 1\<rparr>)"
proof -
  have R: "dt radiation1 = 2" "max_monte_carlo_iterations radiation1 = 1"
    by (simp_all add: radiation1_def)
  show ?thesis
    by (subst mc_loop.simps, simp add: R step_one, subst mc_loop.simps, simp add: R)
qed

lemma one_run:
  "RadiationMonteCarlo (tables_of (1 / 2)) radiation1 True draws_one 0 [(0, 0, 0)] [(0, 0, 0)] 0
     0 1 0 (one_particle, [])
   = Some (Inr (one_after, [photon_of (1 / 8) (1 / 2)], 0, 2))"
proof -
  have s: "range_in_store radiation1 one_particle [(0, 0, 0)] [(0, 0, 0)] 0 1 0"
    by (simp add: range_in_store_def one_particle_def radiation1_def)
  have c: "computeParticleChi (tables_of (1 / 2)) = (\<lambda>_ _ _ _ _. 1)"
    by (simp add: tables_of_def)
  have u: "update_chi (tables_of (1 / 2)) radiation1 [(0, 0, 0)] [(0, 0, 0)] 0 [0]
             (one_particle\<lparr>momentum_x := [5 / 8], tau := [- 1]\<rparr>) = one_after"
    by (simp add: c one_after_def one_particle_def)
  show ?thesis
    by (simp add: RadiationMonteCarlo_def s[simplified] loop_one u[simplified])
qed

subsection \<open>A particle that is left alone\<close>

text \<open>
  The quantum parameter 1 of the particle is below the two thresholds: the pass through
  the loop neither draws nor counts down nor radiates, it ends the time step of the
  particle. The optical depth is not written.
\<close>

lemma step_pending:
  "mc_step tables_quiet radiation1 True draws_one E B 0
     \<lparr>parts = one_pending, new_photons = [], drawn = 0, radiated_energy_loc = 0,
      local_it_time = 0, mc_it_nb = 0\<rparr>
   = Some (Inr (False,
       \<lparr>parts = one_pending, new_photons = [], drawn = 0, radiated_energy_loc = 0,
        local_it_time = 2, mc_it_nb = 0\<rparr>))"
proof -
  have g: "lorentz_factor (momentum_of one_pending 0) = 5 / 4"
    by (simp add: lorentz_factor_def momentum_of_def one_pending_def one_particle_def sqrt_25_16)
  have t: "tau one_pending = [1 / (2 * 10 ^ 100)]" "charge one_pending = [- 1]"
    by (simp_all add: one_pending_def one_particle_def)
  have T: "computeParticleChi tables_quiet = (\<lambda>_ _ _ _ _. 1)"
    "getMinimumChiDiscontinuous tables_quiet = 2"
    "getMinimumChiContinuous tables_quiet = 2"
    by (simp_all add: tables_quiet_def tables_of_def)
  have R: "epsilon_tau radiation1 = 1 / 10 ^ 100" "dt radiation1 = 2"
    "one_over_mass radiation1 = 1"
    by (simp_all add: radiation1_def)
  show ?thesis
    unfolding mc_step_def
    by (simp add: Let_def g t T R cong: let_weak_cong)
qed

lemma loop_pending:
  "mc_loop tables_quiet radiation1 True draws_one E B 0
     \<lparr>parts = one_pending, new_photons = [], drawn = 0, radiated_energy_loc = 0,
      local_it_time = 0, mc_it_nb = 0\<rparr>
   = Some (Inr
       \<lparr>parts = one_pending, new_photons = [], drawn = 0, radiated_energy_loc = 0,
        local_it_time = 2, mc_it_nb = 0\<rparr>)"
proof -
  have R: "dt radiation1 = 2" "max_monte_carlo_iterations radiation1 = 1"
    by (simp_all add: radiation1_def)
  show ?thesis
    by (subst mc_loop.simps, simp add: R step_pending, subst mc_loop.simps, simp add: R)
qed

lemma pending_run:
  "RadiationMonteCarlo tables_quiet radiation1 True draws_one 0 [(0, 0, 0)] [(0, 0, 0)] 0
     0 1 0 (one_pending, [])
   = Some (Inr (one_pending\<lparr>chi := [1]\<rparr>, [], 0, 0))"
proof -
  have s: "range_in_store radiation1 one_pending [(0, 0, 0)] [(0, 0, 0)] 0 1 0"
    by (simp add: range_in_store_def one_pending_def one_particle_def radiation1_def)
  have c: "computeParticleChi tables_quiet = (\<lambda>_ _ _ _ _. 1)"
    by (simp add: tables_quiet_def tables_of_def)
  have u: "update_chi tables_quiet radiation1 [(0, 0, 0)] [(0, 0, 0)] 0 [0] one_pending
             = one_pending\<lparr>chi := [1]\<rparr>"
    by (simp add: c one_pending_def one_particle_def)
  show ?thesis
    by (simp add: RadiationMonteCarlo_def s[simplified] loop_pending u[simplified])
qed

section \<open>The laws of a merged packet\<close>

text \<open>
  Claim C4 (weight). Packet \<open>ipack\<close> of a momentum cell is the four particles
  \<open>sp ! (first + ipack * 4 + k)\<close>, \<open>k < 4\<close>, of the sorted array. When these four places
  and the two places that the tagging loop reads are in the vectors, the packet is merged,
  whether its merged momenta are numbers or not, and each of its first two particles
  receives half the sum of the four weights: their two weights add up to the sum of the
  four weights.
\<close>

theorem merger_weight_conservation:
  fixes sp :: "nat list" and P :: particles and first ipack :: nat
  defines "i0 \<equiv> sp ! (first + ipack * 4)" and "i1 \<equiv> sp ! (first + ipack * 4 + 1)"
    and "i2 \<equiv> sp ! (first + ipack * 4 + 2)" and "i3 \<equiv> sp ! (first + ipack * 4 + 3)"
  assumes "first + ipack * 4 + 4 \<le> length sp"
    and "i0 < size_particles P" "i1 < size_particles P"
    and "i2 < size_particles P" "i3 < size_particles P"
    and "first + ipack * 4 + (ipack * 4 + 3) < length sp"
    and "sp ! (first + ipack * 4 + (ipack * 4 + 2)) < length (cell_keys P)"
    and "sp ! (first + ipack * 4 + (ipack * 4 + 3)) < length (cell_keys P)"
  shows "\<exists>P' not_numbers'.
           merge_packet sp d first ipack (P, not_numbers) = Inr (P', not_numbers')
           \<and> weight P' ! i0
               = 0.5 * (weight P ! i0 + weight P ! i1 + weight P ! i2 + weight P ! i3)
           \<and> weight P' ! i1
               = 0.5 * (weight P ! i0 + weight P ! i1 + weight P ! i2 + weight P ! i3)
           \<and> weight P' ! i0 + weight P' ! i1
               = weight P ! i0 + weight P ! i1 + weight P ! i2 + weight P ! i3"
proof -
  define w where "w = 0.5 * total_weight (packet_totals P [i0, i1, i2, i3])"
  have "\<exists>P' not_numbers'.
          merge_packet sp d first ipack (P, not_numbers) = Inr (P', not_numbers')
          \<and> weight P' = (weight P)[i0 := 0.5 * total_weight (packet_totals P [i0, i1, i2, i3]),
                                   i1 := 0.5 * total_weight (packet_totals P [i0, i1, i2, i3])]"
    by (rule merge_packet_weight[OF assms(5) meta_eq_to_obj_eq[OF i0_def]
          meta_eq_to_obj_eq[OF i1_def] meta_eq_to_obj_eq[OF i2_def] meta_eq_to_obj_eq[OF i3_def]
          assms(6-12)])
  then obtain P' not_numbers' where
    m: "merge_packet sp d first ipack (P, not_numbers) = Inr (P', not_numbers')"
    and ws: "weight P' = (weight P)[i0 := w, i1 := w]"
    unfolding w_def by blast
  have l: "i0 < length (weight P)" "i1 < length (weight P)"
    using assms(6,7) in_store_iff[of P i0] in_store_iff[of P i1] by simp_all
  have a: "weight P' ! i0 = w"
    unfolding ws using l by (cases "i0 = i1") simp_all
  have b: "weight P' ! i1 = w"
    unfolding ws using l by simp
  have w: "w = 0.5 * (weight P ! i0 + weight P ! i1 + weight P ! i2 + weight P ! i3)"
    unfolding w_def totals_sel4 ..
  have "weight P' ! i0
          = 0.5 * (weight P ! i0 + weight P ! i1 + weight P ! i2 + weight P ! i3)
        \<and> weight P' ! i1
          = 0.5 * (weight P ! i0 + weight P ! i1 + weight P ! i2 + weight P ! i3)
        \<and> weight P' ! i0 + weight P' ! i1
          = weight P ! i0 + weight P ! i1 + weight P ! i2 + weight P ! i3"
    unfolding a b w by simp
  with m show ?thesis by blast
qed

text \<open>
  The law on two packets: the one of the run on the six particles of weight 1, whose
  merged momenta are numbers, and the one of the run on the particles of weight 2, whose
  merged momenta are not.
\<close>

theorem merger_weight_conservation_witness:
  "merge_packet [0, 1, 2, 3, 4, 5] first_cell 0 0 (six_particles, []) = Inr (six_merged, [])
   \<and> weight six_merged ! 0 = 0.5 * (1 + 1 + 1 + 1)
   \<and> weight six_merged ! 1 = 0.5 * (1 + 1 + 1 + 1)
   \<and> weight six_merged ! 0 + weight six_merged ! 1 = 1 + 1 + 1 + 1
   \<and> merge_packet [0, 1, 2, 3, 4, 5] first_cell 0 0 (six_heavy, [])
       = Inr (six_heavy_merged, [1, 0])
   \<and> weight six_heavy_merged ! 0 = 0.5 * (2 + 2 + 2 + 2)
   \<and> weight six_heavy_merged ! 1 = 0.5 * (2 + 2 + 2 + 2)
   \<and> weight six_heavy_merged ! 0 + weight six_heavy_merged ! 1 = 2 + 2 + 2 + 2"
proof -
  have p: "merge_packet [0, 1, 2, 3, 4, 5] first_cell 0 0 (six_particles, [])
             = Inr (six_merged, [])"
    by (rule six_packet)
  have q: "merge_packet [0, 1, 2, 3, 4, 5] first_cell 0 0 (six_heavy, [])
             = Inr (six_heavy_merged, [1, 0])"
    by (rule six_heavy_packet)
  have w: "weight six_particles = [1, 1, 1, 1, 1, 1]" "weight six_heavy = [2, 2, 2, 2, 1, 1]"
    "length (cell_keys six_particles) = 6" "length (cell_keys six_heavy) = 6"
    by (simp_all add: six_particles_def six_heavy_def)
  have "\<exists>P' not_numbers'.
          merge_packet [0, 1, 2, 3, 4, 5] first_cell 0 0 (six_particles, [])
            = Inr (P', not_numbers')
          \<and> weight P' ! 0 = 0.5 * (1 + 1 + 1 + 1)
          \<and> weight P' ! 1 = 0.5 * (1 + 1 + 1 + 1)
          \<and> weight P' ! 0 + weight P' ! 1 = 1 + 1 + 1 + 1"
    using merger_weight_conservation[where sp = "[0, 1, 2, 3, 4, 5]" and P = six_particles
        and first = 0 and ipack = 0 and d = first_cell and not_numbers = "[]"]
    by (simp add: six_size w)
  then have a: "weight six_merged ! 0 = 0.5 * (1 + 1 + 1 + 1)
      \<and> weight six_merged ! 1 = 0.5 * (1 + 1 + 1 + 1)
      \<and> weight six_merged ! 0 + weight six_merged ! 1 = 1 + 1 + 1 + 1"
    unfolding p by blast
  have "\<exists>P' not_numbers'.
          merge_packet [0, 1, 2, 3, 4, 5] first_cell 0 0 (six_heavy, [])
            = Inr (P', not_numbers')
          \<and> weight P' ! 0 = 0.5 * (2 + 2 + 2 + 2)
          \<and> weight P' ! 1 = 0.5 * (2 + 2 + 2 + 2)
          \<and> weight P' ! 0 + weight P' ! 1 = 2 + 2 + 2 + 2"
    using merger_weight_conservation[where sp = "[0, 1, 2, 3, 4, 5]" and P = six_heavy
        and first = 0 and ipack = 0 and d = first_cell and not_numbers = "[]"]
    by (simp add: six_heavy_size w)
  then have b: "weight six_heavy_merged ! 0 = 0.5 * (2 + 2 + 2 + 2)
      \<and> weight six_heavy_merged ! 1 = 0.5 * (2 + 2 + 2 + 2)
      \<and> weight six_heavy_merged ! 0 + weight six_heavy_merged ! 1 = 2 + 2 + 2 + 2"
    unfolding q by blast
  from p a q b show ?thesis by blast
qed

text \<open>
  Claim C3 (momentum), on the six particles with the weights 2. The packet of the four
  particles of momentum \<open>(3/4, 0, 0)\<close> has the total weight 8 and the total momentum
  \<open>(6, 0, 0)\<close>, but its energy sum is 5, not the weighted 10: the energy of a merged
  particle is \<open>5/8\<close>, its momentum the square root of \<open>25/64 - 1\<close>, and the six components
  that the call stores in the particles 0 and 1 are not numbers. They do not add up to
  the total momentum of the packet.
\<close>

theorem heavy_packet_momenta_not_numbers:
  "packet_totals six_heavy [0, 1, 2, 3]
     = \<lparr>total_weight = 8, total_momentum = (6, 0, 0), total_energy = 5\<rparr>
   \<and> merged_momenta (packet_totals six_heavy [0, 1, 2, 3]) first_cell = Inl NonFinite
   \<and> MergingVranic merging4 six_heavy 0 6
       = Inr (merging4\<lparr>dimensions := (5, 5, 5)\<rparr>, six_heavy_merged, [1, 0])"
  using six_heavy_totals heavy_totals_merged[of first_cell] six_heavy_run
  by (simp only: simp_thms)

text \<open>
  Claim C1 (energy), on the six particles with the weights 1/2: the four particles of the
  packet carry the weighted energy 5/2, and the two particles that the call leaves in
  their place carry more. The energy sum of the packet is not weighted, and the vector
  \<open>e2\<close> is not of norm 1.
\<close>

theorem merged_energy_differs:
  "MergingVranic merging4 six_light 0 6
     = Inr (merging4\<lparr>dimensions := (5, 5, 5)\<rparr>, six_light_merged, [])
   \<and> weighted_energy six_light 0 + weighted_energy six_light 1
       + weighted_energy six_light 2 + weighted_energy six_light 3 = 5 / 2
   \<and> 5 / 2 < weighted_energy six_light_merged 0 + weighted_energy six_light_merged 1"
  using six_light_run light_energy_before light_energy_after by (intro conjI)


section \<open>The whole call: dimensions, keys, collapsed directions\<close>

text \<open>
  Claim C10 (the configured dimensions are ignored), as stated, fails in its first part:
  the overwriting of \<open>dimensions_\<close> is inside the test of the threshold. A call on four
  particles with the threshold 4 returns at once, and \<open>dimensions_\<close> is still the
  configured \<open>(3, 3, 3)\<close>.
\<close>

theorem dimensions_kept_below_threshold:
  "merging_ppc_min_threshold merging4 = 4
   \<and> dimensions merging4 = (3, 3, 3)
   \<and> MergingVranic merging4 five_identical 0 4 = Inr (merging4, five_identical, [])
   \<and> dimensions merging4 \<noteq> (5, 5, 5)"
  by (simp add: MergingVranic_def merging4_def)

text \<open>
  Claim C10, amended. Two calls on the same particles and the same range, by mergers that
  differ in \<open>dimensions_\<close> only, end with the same failure or the same particle arrays.
  A call whose range holds more particles than the threshold overwrites \<open>dimensions_\<close>
  with \<open>(5, 5, 5)\<close> before any binning: when it returns, \<open>dimensions_\<close> is
  \<open>(5, 5, 5)\<close>, and the particles were binned on the grid of 5 x 5 x 5 cells (the steps
  are the fifths of the extents, no direction was collapsed, the counting sort ran on 125
  momentum cells and the merge on 25 cell directions). A call at or below the threshold
  leaves \<open>dimensions_\<close> and the particles as they are.
\<close>

theorem configured_dimensions_ignored:
  fixes M :: merging and istart iend :: int
  shows "map_sum id snd (MergingVranic (M\<lparr>dimensions := d1\<rparr>) P istart iend)
           = map_sum id snd (MergingVranic (M\<lparr>dimensions := d2\<rparr>) P istart iend)
       \<and> (int (merging_ppc_min_threshold M) < (iend - istart) mod 2 ^ 32 \<longrightarrow>
            (\<forall>M' P' not_numbers.
               MergingVranic M P istart iend = Inr (M', P', not_numbers) \<longrightarrow>
                 M' = M\<lparr>dimensions := (5, 5, 5)\<rparr>
                 \<and> (\<exists>b0 b1 ics srt.
                      first_bounds P (nat istart) (nat iend - nat istart) = Inr b0
                      \<and> bounds_loop P (nat istart) [nat istart + 1 ..< nat iend] b0 = Inr b1
                      \<and> collapse (5, 5, 5) (deltas (5, 5, 5) (inflate b1))
                          = ((5, 5, 5), deltas (5, 5, 5) (inflate b1))
                      \<and> momentum_cell_index P (nat istart) (5, 5, 5) (inflate b1)
                          (deltas (5, 5, 5) (inflate b1)) [nat istart ..< nat iend] = Inr ics
                      \<and> counting_sort 125 (nat istart) (nat iend - nat istart) ics = Inr srt
                      \<and> cells_loop srt
                          (cell_vec 25 (5, 5, 5) (inflate b1) (deltas (5, 5, 5) (inflate b1)))
                          25 5 (cells_of (5, 5, 5)) (P, []) = Inr (P', not_numbers))))
       \<and> (\<not> int (merging_ppc_min_threshold M) < (iend - istart) mod 2 ^ 32 \<longrightarrow>
            MergingVranic M P istart iend = Inr (M, P, []))"
proof (intro conjI impI allI)
  show "map_sum id snd (MergingVranic (M\<lparr>dimensions := d1\<rparr>) P istart iend)
          = map_sum id snd (MergingVranic (M\<lparr>dimensions := d2\<rparr>) P istart iend)"
    by (simp add: MergingVranic_def merge_range_dimensions)
next
  fix M' P' not_numbers
  assume a': "int (merging_ppc_min_threshold M) < (iend - istart) mod 2 ^ 32"
    and r: "MergingVranic M P istart iend = Inr (M', P', not_numbers)"
  from r a' have g: "\<not> iend - istart < 0" "\<not> (istart < 0 \<or> int (size_particles P) < iend)"
    and m: "merge_range M P (nat istart) (nat iend) = Inr (M', P', not_numbers)"
    unfolding MergingVranic_def by (auto split: if_splits)
  from a' g(1) have "0 < iend - istart"
    by (cases "iend - istart = 0") simp_all
  with g(2) have lt: "nat istart < nat iend"
    by simp
  from m lt obtain b0 b1 ics srt where
    "first_bounds P (nat istart) (nat iend - nat istart) = Inr b0"
    "bounds_loop P (nat istart) [nat istart + 1 ..< nat iend] b0 = Inr b1"
    "collapse (5, 5, 5) (deltas (5, 5, 5) (inflate b1))
       = ((5, 5, 5), deltas (5, 5, 5) (inflate b1))"
    "momentum_cell_index P (nat istart) (5, 5, 5) (inflate b1) (deltas (5, 5, 5) (inflate b1))
       [nat istart ..< nat iend] = Inr ics"
    "counting_sort 125 (nat istart) (nat iend - nat istart) ics = Inr srt"
    "cells_loop srt (cell_vec 25 (5, 5, 5) (inflate b1) (deltas (5, 5, 5) (inflate b1))) 25 5
       (cells_of (5, 5, 5)) (P, []) = Inr (P', not_numbers)"
    and M': "M' = M\<lparr>dimensions := (5, 5, 5)\<rparr>"
    by (rule merge_range_Inr)
  then show "M' = M\<lparr>dimensions := (5, 5, 5)\<rparr>"
    and "\<exists>b0 b1 ics srt.
           first_bounds P (nat istart) (nat iend - nat istart) = Inr b0
           \<and> bounds_loop P (nat istart) [nat istart + 1 ..< nat iend] b0 = Inr b1
           \<and> collapse (5, 5, 5) (deltas (5, 5, 5) (inflate b1))
               = ((5, 5, 5), deltas (5, 5, 5) (inflate b1))
           \<and> momentum_cell_index P (nat istart) (5, 5, 5) (inflate b1)
               (deltas (5, 5, 5) (inflate b1)) [nat istart ..< nat iend] = Inr ics
           \<and> counting_sort 125 (nat istart) (nat iend - nat istart) ics = Inr srt
           \<and> cells_loop srt
               (cell_vec 25 (5, 5, 5) (inflate b1) (deltas (5, 5, 5) (inflate b1)))
               25 5 (cells_of (5, 5, 5)) (P, []) = Inr (P', not_numbers)"
    by blast+
next
  assume "\<not> int (merging_ppc_min_threshold M) < (iend - istart) mod 2 ^ 32"
  then show "MergingVranic M P istart iend = Inr (M, P, [])"
    unfolding MergingVranic_def by simp
qed

text \<open>
  The run on the six particles, by a merger configured with \<open>(3, 3, 3)\<close>: it is above the
  threshold, it returns with \<open>dimensions_ = (5, 5, 5)\<close>, and the cells of its particles
  are 0, 20 and 104 of the 125.
\<close>

theorem configured_dimensions_ignored_witness:
  "int (merging_ppc_min_threshold merging4) < (6 - 0) mod 2 ^ 32
   \<and> dimensions merging4 = (3, 3, 3)
   \<and> MergingVranic merging4 six_particles 0 6
       = Inr (merging4\<lparr>dimensions := (5, 5, 5)\<rparr>, six_merged, [])
   \<and> momentum_cell_index six_particles (nat 0) (5, 5, 5) (inflate six_bounds)
       (deltas (5, 5, 5) (inflate six_bounds)) [nat 0 ..< nat 6] = Inr [0, 0, 0, 0, 20, 104]
   \<and> map_sum id snd (MergingVranic (merging4\<lparr>dimensions := (3, 3, 3)\<rparr>) six_particles 0 6)
       = map_sum id snd (MergingVranic (merging4\<lparr>dimensions := (7, 1, 2)\<rparr>) six_particles 0 6)"
proof -
  have a: "int (merging_ppc_min_threshold merging4) < (6 - 0) mod 2 ^ 32"
    by (simp add: merging4_def)
  have d: "dimensions merging4 = (3, 3, 3)"
    by (simp add: merging4_def)
  have r: "MergingVranic merging4 six_particles 0 6
             = Inr (merging4\<lparr>dimensions := (5, 5, 5)\<rparr>, six_merged, [])"
    by (rule six_run)
  note t = configured_dimensions_ignored[where M = merging4 and P = six_particles
      and istart = 0 and iend = 6 and ?d1.0 = "(3, 3, 3)" and ?d2.0 = "(7, 1, 2)"]
  from t have e:
    "map_sum id snd (MergingVranic (merging4\<lparr>dimensions := (3, 3, 3)\<rparr>) six_particles 0 6)
       = map_sum id snd (MergingVranic (merging4\<lparr>dimensions := (7, 1, 2)\<rparr>) six_particles 0 6)"
    by (rule conjunct1)
  from t a r obtain b0 b1 ics where
    b0: "first_bounds six_particles (nat 0) (nat 6 - nat 0) = Inr b0"
    and b1: "bounds_loop six_particles (nat 0) [nat 0 + 1 ..< nat 6] b0 = Inr b1"
    and i: "momentum_cell_index six_particles (nat 0) (5, 5, 5) (inflate b1)
              (deltas (5, 5, 5) (inflate b1)) [nat 0 ..< nat 6] = Inr ics"
    by blast
  have m: "momentum_x six_particles = [3 / 4, 3 / 4, 3 / 4, 3 / 4, 0, 0]"
    "momentum_y six_particles = [0, 0, 0, 0, 1, 0]"
    "momentum_z six_particles = [0, 0, 0, 0, 0, 2]"
    by (simp_all add: six_particles_def)
  have "b1 = six_bounds"
    using b0 b1 six_first_bounds[OF m] six_bounds_loop[OF m] by simp
  moreover have "deltas (5, 5, 5) (inflate six_bounds) = six_steps"
    by (simp add: deltas_def inflate_def six_bounds_def six_steps_def)
  ultimately have "ics = [0, 0, 0, 0, 20, 104]"
    using i six_cells[OF m] by simp
  with i \<open>b1 = six_bounds\<close> have
    "momentum_cell_index six_particles (nat 0) (5, 5, 5) (inflate six_bounds)
       (deltas (5, 5, 5) (inflate six_bounds)) [nat 0 ..< nat 6] = Inr [0, 0, 0, 0, 20, 104]"
    by simp
  with a d r e show ?thesis by blast
qed

text \<open>
  Claim C9 (particles that enter with \<open>cell_keys = -1\<close>), as stated, fails: in the run on
  the six particles the first particle enters with the key \<open>-1\<close>, is put in the packet of
  its momentum cell and leaves with the weight 2 instead of 1.
\<close>

theorem dead_particle_is_merged:
  "cell_keys six_particles ! 0 = - 1
   \<and> MergingVranic merging4 six_particles 0 6
       = Inr (merging4\<lparr>dimensions := (5, 5, 5)\<rparr>, six_merged, [])
   \<and> weight six_particles ! 0 = 1
   \<and> weight six_merged ! 0 = 2"
  by (simp add: six_run) (simp add: six_particles_def six_merged_def)

text \<open>
  Claim C9, amended. The merger does not read \<open>cell_keys\<close>: two calls on particle stores
  that differ in the keys on entry only (the same number of them) end with the same
  failure, or with the same \<open>dimensions_\<close>, momenta and weights (and the same particles
  whose momentum is not a number). A particle that enters with the key \<open>-1\<close> is binned and
  merged as any other.
\<close>

theorem merger_ignores_cell_keys:
  assumes "length k1 = length k2"
  shows "rel_sum (=)
           (\<lambda>(M1, P1, n1) (M2, P2, n2). M1 = M2 \<and> same_but_keys P1 P2 \<and> n1 = n2)
           (MergingVranic M (P\<lparr>cell_keys := k1\<rparr>) istart iend)
           (MergingVranic M (P\<lparr>cell_keys := k2\<rparr>) istart iend)"
proof -
  have s: "same_but_keys (P\<lparr>cell_keys := k1\<rparr>) (P\<lparr>cell_keys := k2\<rparr>)"
    using assms by (simp add: same_but_keys_def)
  show ?thesis
    unfolding MergingVranic_def sbk_size[OF s]
    using sbk_merge_range[OF s] s by simp
qed

theorem merger_ignores_cell_keys_witness:
  "length [- 1, 0, 0, 0, 0, 0 :: int] = length [0, 0, 0, 0, 0, 0 :: int]
   \<and> rel_sum (=)
        (\<lambda>(M1, P1, n1) (M2, P2, n2). M1 = M2 \<and> same_but_keys P1 P2 \<and> n1 = n2)
        (MergingVranic merging4 (six_particles\<lparr>cell_keys := [- 1, 0, 0, 0, 0, 0]\<rparr>) 0 6)
        (MergingVranic merging4 (six_particles\<lparr>cell_keys := [0, 0, 0, 0, 0, 0]\<rparr>) 0 6)"
proof -
  have l: "length [- 1, 0, 0, 0, 0, 0 :: int] = length [0, 0, 0, 0, 0, 0 :: int]"
    by simp
  from l merger_ignores_cell_keys[OF l] show ?thesis by (rule conjI)
qed

text \<open>
  Claim C8 (collapsed directions), on the five identical particles: the three steps are
  below \<open>1e-10\<close>, the three directions are collapsed (steps 0, dimensions 1), and the
  index of the first particle is the cast of \<open>0 / 0\<close>: the call has no defined result.
\<close>

theorem collapsed_directions_undefined:
  "collapse (5, 5, 5) (deltas (5, 5, 5) (inflate five_bounds))
     = ((1, 1, 1), \<lparr>mr_delta = 0, theta_delta = 0, phi_delta = 0\<rparr>)
   \<and> cell_of_particle five_identical 0 (1, 1, 1) (inflate five_bounds)
        \<lparr>mr_delta = 0, theta_delta = 0, phi_delta = 0\<rparr> 0 = Inl NonFinite
   \<and> MergingVranic merging4 five_identical 0 5 = Inl NonFinite"
  by (simp add: five_collapse five_run cell_of_particle_def)

text \<open>
  Claim C2 (count), on the twelve particles. The first momentum cell holds the eight
  particles 0 to 7, in two packets; the cells 20 and 104 hold two particles each. The tag
  of the second packet reads the sorted array at \<open>first + ipack * 4 + ip\<close> with \<open>ip\<close>
  already \<open>ipack * 4 + 2\<close> and \<open>ipack * 4 + 3\<close>, that is at 10 and 11: the particles 6 and
  7 of the packet keep their keys, and the particles 10 and 11 of the cell 104 are tagged.
\<close>

theorem second_packet_tags_other_particles:
  "particles_per_momentum_cells twelve_sorting ! 0 = 8
   \<and> particles_per_momentum_cells twelve_sorting ! 104 = 2
   \<and> sorted_particles twelve_sorting = [0, 1, 2, 3, 4, 5, 6, 7, 8, 9, 10, 11]
   \<and> counting_sort 125 0 12 [0, 0, 0, 0, 0, 0, 0, 0, 20, 20, 104, 104] = Inr twelve_sorting
   \<and> MergingVranic merging4 twelve_particles 0 12
       = Inr (merging4\<lparr>dimensions := (5, 5, 5)\<rparr>, twelve_merged, [])
   \<and> cell_keys twelve_merged = [0, 0, - 1, - 1, 0, 0, 0, 0, 0, 0, - 1, - 1]
   \<and> weight twelve_merged = [2, 2, 1, 1, 2, 2, 1, 1, 1, 1, 1, 1]"
  using twelve_counting_sort
  by (simp add: twelve_run) (simp add: twelve_sorting_def twelve_merged_def)

section \<open>The emission of a photon: outcome and direction\<close>

text \<open>
  Claim C5 (the two outcomes of an emission). \<open>photonEmission\<close> is called for the particle
  \<open>ipart\<close> of the store with \<open>particle_chi\<close>, \<open>particle_gamma\<close> and a random number; its
  quotients are defined (\<open>particle_chi\<close> is not 0, \<open>particle_gamma^2 - 1\<close> is positive,
  and the particle still has a momentum after the recoil when photons are created).
  Then it returns, the particles are those after the recoil, and:
  if a photon species is attached and \<open>gammaph\<close> is at or above the threshold, the
  returned energy is 0 and exactly \<open>radiation_photon_sampling_\<close> photons are appended, all
  the same: weight of the particle divided by the sampling, charge 0, position of the
  particle, momentum of norm \<open>gammaph\<close> (in absolute value), along the momentum that the
  particle has after the recoil and so collinear with the one it had before;
  otherwise the buffer is unchanged and the returned energy is the weight times
  \<open>particle_gamma\<close> minus the Lorentz factor after the recoil.
\<close>

theorem photon_emission_dichotomy:
  fixes T :: tables and particle_chi particle_gamma random_number :: real
    and P :: particles_rad and ipart :: nat
  defines "gammaph \<equiv> gamma_photon T particle_chi particle_gamma random_number"
  defines "P1 \<equiv> recoil P ipart (gammaph / sqrt (particle_gamma * particle_gamma - 1))"
  assumes "particle_chi \<noteq> 0" and "0 < particle_gamma * particle_gamma - 1"
    and "ipart < length (momentum_x P)" "ipart < length (momentum_y P)"
      "ipart < length (momentum_z P)"
    and "photon_species \<and> radiation_photon_gamma_threshold R \<le> gammaph
           \<Longrightarrow> norm3 (momentum_of P1 ipart) \<noteq> 0"
  shows "\<exists>energy buf'.
           photonEmission T R photon_species ipart particle_chi particle_gamma random_number
               (P, buf) = Inr (energy, P1, buf')
           \<and> (if photon_species \<and> radiation_photon_gamma_threshold R \<le> gammaph
              then energy = 0
                   \<and> (\<exists>ph. buf' = buf @ replicate (radiation_photon_sampling R) ph
                        \<and> ph_weight ph = weight P ! ipart / real (radiation_photon_sampling R)
                        \<and> ph_charge ph = 0
                        \<and> ph_position ph =
                            position_x P ! ipart #
                              (if 1 < nDim R then
                                 position_y P ! ipart #
                                   (if 2 < nDim R then [position_z P ! ipart] else [])
                               else [])
                        \<and> ph_momentum ph
                            = scale (gammaph / norm3 (momentum_of P1 ipart)) (momentum_of P1 ipart)
                        \<and> norm3 (ph_momentum ph) = \<bar>gammaph\<bar>
                        \<and> (\<exists>k. ph_momentum ph = scale k (momentum_of P ipart)))
              else buf' = buf
                   \<and> energy
                       = weight P ! ipart
                         * (particle_gamma - lorentz_factor (momentum_of P1 ipart)))"
proof (cases "photon_species \<and> radiation_photon_gamma_threshold R \<le> gammaph")
  case True
  let ?n = "norm3 (momentum_of P1 ipart)"
  let ?ph = "new_photon R P1 ipart gammaph (1 / ?n)
               (computeRandomPhotonChiWithInterpolation T particle_chi random_number) blank_photon"
  have n: "?n \<noteq> 0" using True by (rule assms(8))
  have e: "photonEmission T R photon_species ipart particle_chi particle_gamma random_number
             (P, buf) = Inr (0, P1, buf @ replicate (radiation_photon_sampling R) ?ph)"
    unfolding gammaph_def
    by (rule photonEmission_photons[OF assms(3,4) True[unfolded gammaph_def]
          P1_def[unfolded gammaph_def, THEN meta_eq_to_obj_eq] n])
  have n0: "0 \<le> ?n" by (rule norm3_nonneg)
  have m: "ph_momentum ?ph = scale (gammaph / ?n) (momentum_of P1 ipart)"
    by (simp add: new_photon_sel)
  have nm: "norm3 (ph_momentum ?ph) = \<bar>gammaph\<bar>"
    unfolding m norm3_scale using n n0 by simp
  have v: "momentum_of P1 ipart
             = scale (1 - gammaph / sqrt (particle_gamma * particle_gamma - 1)) (momentum_of P ipart)"
    unfolding P1_def using assms(5-7) by (rule recoil_momentum)
  have "scale a (momentum_of P1 ipart)
          = scale (a * (1 - gammaph / sqrt (particle_gamma * particle_gamma - 1)))
              (momentum_of P ipart)" for a
    unfolding v scale_scale ..
  then have k: "\<exists>k. ph_momentum ?ph = scale k (momentum_of P ipart)"
    unfolding m by (rule exI)
  have w: "ph_weight ?ph = weight P ! ipart / real (radiation_photon_sampling R)"
    by (simp add: new_photon_sel P1_def recoil_sel inv_radiation_photon_sampling_def)
  have p: "ph_position ?ph =
             position_x P ! ipart #
               (if 1 < nDim R then
                  position_y P ! ipart # (if 2 < nDim R then [position_z P ! ipart] else [])
                else [])"
    by (simp add: new_photon_sel P1_def recoil_sel)
  have c: "ph_charge ?ph = 0" by (simp add: new_photon_sel)
  have ex:
    "\<exists>ph. buf @ replicate (radiation_photon_sampling R) ?ph
             = buf @ replicate (radiation_photon_sampling R) ph
        \<and> ph_weight ph = weight P ! ipart / real (radiation_photon_sampling R)
        \<and> ph_charge ph = 0
        \<and> ph_position ph =
            position_x P ! ipart #
              (if 1 < nDim R then
                 position_y P ! ipart # (if 2 < nDim R then [position_z P ! ipart] else [])
               else [])
        \<and> ph_momentum ph
            = scale (gammaph / norm3 (momentum_of P1 ipart)) (momentum_of P1 ipart)
        \<and> norm3 (ph_momentum ph) = \<bar>gammaph\<bar>
        \<and> (\<exists>k. ph_momentum ph = scale k (momentum_of P ipart))"
    using w c p m nm k by (intro exI[of _ ?ph] conjI refl)
  show ?thesis
    unfolding if_P[OF True]
    by (intro exI[of _ 0] exI[of _ "buf @ replicate (radiation_photon_sampling R) ?ph"]
        conjI e refl ex)
next
  case False
  have e: "photonEmission T R photon_species ipart particle_chi particle_gamma random_number
             (P, buf)
           = Inr (weight P ! ipart * (particle_gamma - lorentz_factor (momentum_of P1 ipart)),
                  P1, buf)"
    unfolding gammaph_def
    by (rule photonEmission_energy[OF assms(3,4) False[unfolded gammaph_def]
          P1_def[unfolded gammaph_def, THEN meta_eq_to_obj_eq]])
  show ?thesis
    unfolding if_not_P[OF False]
    by (intro exI[of _ "weight P ! ipart
                         * (particle_gamma - lorentz_factor (momentum_of P1 ipart))"]
        exI[of _ buf] conjI e refl)
qed

text \<open>
  The two outcomes on the particle of momentum \<open>(3/4, 0, 0)\<close>, whose recoil leaves the
  momentum \<open>(5/8, 0, 0)\<close>: with a photon species one photon of momentum \<open>(1/8, 0, 0)\<close> is
  appended and the energy is 0; without one the buffer stays empty and the energy is
  \<open>5/4 - sqrt (89/64)\<close>.
\<close>

theorem photon_emission_dichotomy_witness:
  "(1 :: real) \<noteq> 0 \<and> 0 < (5 / 4 :: real) * (5 / 4) - 1
   \<and> 0 < length (momentum_x one_particle) \<and> 0 < length (momentum_y one_particle)
   \<and> 0 < length (momentum_z one_particle)
   \<and> norm3 (momentum_of (one_particle\<lparr>momentum_x := [5 / 8]\<rparr>) 0) \<noteq> 0
   \<and> photonEmission (tables_of (1 / 2)) radiation1 True 0 1 (5 / 4) (1 / 2) (one_particle, [])
       = Inr (0, one_particle\<lparr>momentum_x := [5 / 8]\<rparr>, [photon_of (1 / 8) (1 / 2)])
   \<and> ph_weight (photon_of (1 / 8) (1 / 2))
       = weight one_particle ! 0 / real (radiation_photon_sampling radiation1)
   \<and> norm3 (ph_momentum (photon_of (1 / 8) (1 / 2)))
       = \<bar>gamma_photon (tables_of (1 / 2)) 1 (5 / 4) (1 / 2)\<bar>
   \<and> photonEmission (tables_of (1 / 2)) radiation1 False 0 1 (5 / 4) (1 / 2) (one_particle, [])
       = Inr (5 / 4 - sqrt (89 / 64), one_particle\<lparr>momentum_x := [5 / 8]\<rparr>, [])
   \<and> 5 / 4 - sqrt (89 / 64)
       = weight one_particle ! 0
         * (5 / 4 - lorentz_factor (momentum_of (one_particle\<lparr>momentum_x := [5 / 8]\<rparr>) 0))"
proof -
  have h1: "(1 :: real) \<noteq> 0" and h2: "0 < (5 / 4 :: real) * (5 / 4) - 1"
    by simp_all
  have h3: "0 < length (momentum_x one_particle)" "0 < length (momentum_y one_particle)"
    "0 < length (momentum_z one_particle)"
    by (simp_all add: one_particle_def)
  have n: "norm3 (momentum_of (one_particle\<lparr>momentum_x := [5 / 8]\<rparr>) 0) \<noteq> 0"
    by (simp add: norm3_def momentum_of_def one_particle_def sqrt_25_64)
  have g: "gamma_photon (tables_of (1 / 2)) 1 (5 / 4) (1 / 2) = 1 / 8"
    by (simp add: gamma_photon_def tables_of_def)
  have r: "recoil one_particle 0
             (gamma_photon (tables_of (1 / 2)) 1 (5 / 4) (1 / 2) / sqrt (5 / 4 * (5 / 4) - 1))
           = one_particle\<lparr>momentum_x := [5 / 8]\<rparr>"
    by (simp add: g recoil_def one_particle_def sqrt_9_16)
  have s: "radiation_photon_sampling radiation1 = 1"
    and c: "True \<and> radiation_photon_gamma_threshold radiation1
              \<le> gamma_photon (tables_of (1 / 2)) 1 (5 / 4) (1 / 2)"
    and c': "\<not> (False \<and> radiation_photon_gamma_threshold radiation1
              \<le> gamma_photon (tables_of (1 / 2)) 1 (5 / 4) (1 / 2))"
    by (simp_all add: g radiation1_def)
  have e1: "photonEmission (tables_of (1 / 2)) radiation1 True 0 1 (5 / 4) (1 / 2)
              (one_particle, [])
            = Inr (0, one_particle\<lparr>momentum_x := [5 / 8]\<rparr>, [photon_of (1 / 8) (1 / 2)])"
    by (rule emission_forward)
  have e2: "photonEmission (tables_of (1 / 2)) radiation1 False 0 1 (5 / 4) (1 / 2)
              (one_particle, [])
            = Inr (5 / 4 - sqrt (89 / 64), one_particle\<lparr>momentum_x := [5 / 8]\<rparr>, [])"
    by (rule emission_no_species)
  note t1 = photon_emission_dichotomy[where T = "tables_of (1 / 2)" and R = radiation1
      and photon_species = True and ipart = 0 and particle_chi = 1 and particle_gamma = "5 / 4"
      and random_number = "1 / 2" and P = one_particle and buf = "[]",
      unfolded r, OF h1 h2 h3 n, unfolded e1 if_P[OF c]]
  note t2 = photon_emission_dichotomy[where T = "tables_of (1 / 2)" and R = radiation1
      and photon_species = False and ipart = 0 and particle_chi = 1 and particle_gamma = "5 / 4"
      and random_number = "1 / 2" and P = one_particle and buf = "[]",
      unfolded r, OF h1 h2 h3 n, unfolded e2 if_not_P[OF c']]
  from t1 obtain ph where "[photon_of (1 / 8) (1 / 2)]
        = [] @ replicate (radiation_photon_sampling radiation1) ph"
    and "ph_weight ph = weight one_particle ! 0 / real (radiation_photon_sampling radiation1)"
    and "norm3 (ph_momentum ph) = \<bar>gamma_photon (tables_of (1 / 2)) 1 (5 / 4) (1 / 2)\<bar>"
    by auto
  then have a: "ph_weight (photon_of (1 / 8) (1 / 2))
        = weight one_particle ! 0 / real (radiation_photon_sampling radiation1)"
    and b: "norm3 (ph_momentum (photon_of (1 / 8) (1 / 2)))
        = \<bar>gamma_photon (tables_of (1 / 2)) 1 (5 / 4) (1 / 2)\<bar>"
    by (simp_all add: s)
  from t2 have d: "5 / 4 - sqrt (89 / 64)
        = weight one_particle ! 0
          * (5 / 4 - lorentz_factor (momentum_of (one_particle\<lparr>momentum_x := [5 / 8]\<rparr>) 0))"
    by auto
  from h1 h2 h3 n e1 a b e2 d show ?thesis
    by (intro conjI)
qed



section \<open>The optical depth at exit\<close>

text \<open>
  Claim C6 (optical depth at exit), as stated, fails: the operator does not write the
  optical depth of a particle whose quantum parameter is at or below the threshold of the
  discontinuous emission. A particle that enters with the optical depth
  \<open>epsilon_tau_ / 2\<close> and the quantum parameter 1, below the thresholds 2, leaves with
  the same optical depth, inside \<open>(0, epsilon_tau_]\<close>.
\<close>

theorem tau_kept_inside_interval:
  "RadiationMonteCarlo tables_quiet radiation1 True draws_one 0 [(0, 0, 0)] [(0, 0, 0)] 0
     0 1 0 (one_pending, [])
     = Some (Inr (one_pending\<lparr>chi := [1]\<rparr>, [], 0, 0))
   \<and> 0 < tau (one_pending\<lparr>chi := [1]\<rparr>) ! 0
   \<and> tau (one_pending\<lparr>chi := [1]\<rparr>) ! 0 \<le> epsilon_tau radiation1
   \<and> \<not> settled (epsilon_tau radiation1) (tau (one_pending\<lparr>chi := [1]\<rparr>) ! 0)"
  using pending_run
  by (simp add: one_pending_def one_particle_def radiation1_def settled_def)

text \<open>
  Claim C6, amended. When the operator returns, the optical depth of a particle is the one
  it had on entry, or it is settled: at most 0, or above \<open>epsilon_tau_\<close>. So an optical
  depth that is not in \<open>(0, epsilon_tau_]\<close> on entry is not there at exit.
\<close>

theorem tau_settled_at_exit:
  assumes "RadiationMonteCarlo T R photon_species U drawn0 Epart Bpart radiated_energy
             istart iend ipart_ref (P, buf) = Some (Inr (P', rest))"
  shows "(tau P' ! i = tau P ! i \<or> settled (epsilon_tau R) (tau P' ! i))
       \<and> (settled (epsilon_tau R) (tau P ! i) \<longrightarrow> settled (epsilon_tau R) (tau P' ! i))"
proof
  show "tau P' ! i = tau P ! i \<or> settled (epsilon_tau R) (tau P' ! i)"
    using assms by (rule RadiationMonteCarlo_tau) simp_all
  show "settled (epsilon_tau R) (tau P ! i) \<longrightarrow> settled (epsilon_tau R) (tau P' ! i)"
  proof
    assume "settled (epsilon_tau R) (tau P ! i)"
    with assms show "settled (epsilon_tau R) (tau P' ! i)"
      by (rule RadiationMonteCarlo_tau)
  qed
qed

theorem tau_settled_at_exit_witness:
  "RadiationMonteCarlo (tables_of (1 / 2)) radiation1 True draws_one 0 [(0, 0, 0)] [(0, 0, 0)] 0
     0 1 0 (one_particle, [])
   = Some (Inr (one_after, [photon_of (1 / 8) (1 / 2)], 0, 2))
   \<and> settled (epsilon_tau radiation1) (tau one_particle ! 0)
   \<and> settled (epsilon_tau radiation1) (tau one_after ! 0)"
proof -
  have r: "RadiationMonteCarlo (tables_of (1 / 2)) radiation1 True draws_one 0 [(0, 0, 0)]
      [(0, 0, 0)] 0 0 1 0 (one_particle, [])
    = Some (Inr (one_after, [photon_of (1 / 8) (1 / 2)], 0, 2))"
    by (rule one_run)
  have e: "settled (epsilon_tau radiation1) (tau one_particle ! 0)"
    by (simp add: settled_def one_particle_def)
  from tau_settled_at_exit[OF r, of 0] e
  have "settled (epsilon_tau radiation1) (tau one_after ! 0)"
    by blast
  with r e show ?thesis
    by simp
qed

end
